theory Spec2Isabelle
  imports Main "HOL-Library.AList"
begin

section \<open>JavaScript values used by the route handlers\<close>

text \<open>
  The route handlers receive query strings and JSON bodies, call the upstream API with
  \<open>fetch\<close> and answer with \<open>NextResponse.json\<close>. JSON values are modelled by the
  datatype below. An object is an association list; a property is looked up with
  \<open>map_of\<close>. JSON numbers are modelled as integers (the handlers only compute with the
  results of \<open>parseInt\<close> and with array lengths; integers of magnitude up to \<open>2^53\<close> are
  exact in JavaScript). A JavaScript value that may be \<open>undefined\<close> is a \<open>json option\<close>,
  with \<open>None\<close> for \<open>undefined\<close>.
\<close>

datatype json =
    JNull
  | JBool bool
  | JNum int
  | JStr string
  | JArr "json list"
  | JObj "(string \<times> json) list"

text \<open>A thrown \<open>Error\<close> is represented by its \<open>message\<close>: every value thrown in the
  handlers is an instance of \<open>Error\<close>, and the handlers only read \<open>error.message\<close>.\<close>

type_synonym js_error = string

fun truthy :: "json \<Rightarrow> bool" where
  "truthy JNull = False"
| "truthy (JBool b) = b"
| "truthy (JNum n) = (n \<noteq> 0)"
| "truthy (JStr s) = (s \<noteq> [])"
| "truthy (JArr xs) = True"
| "truthy (JObj fs) = True"

text \<open>\<open>v.k\<close> for a value \<open>v\<close> that is neither \<open>null\<close> nor \<open>undefined\<close>, and a property name
  \<open>k\<close> that no array, string, number or boolean has of its own.\<close>

fun get_prop :: "json \<Rightarrow> string \<Rightarrow> json option" where
  "get_prop (JObj fs) k = map_of fs k"
| "get_prop v k = None"

text \<open>\<open>v?.k\<close> for a value \<open>v\<close> that may be \<open>undefined\<close> or \<open>null\<close>.\<close>

fun opt_prop :: "json option \<Rightarrow> string \<Rightarrow> json option" where
  "opt_prop None k = None"
| "opt_prop (Some JNull) k = None"
| "opt_prop (Some v) k = get_prop v k"

text \<open>\<open>a || b\<close> on values that may be \<open>undefined\<close>.\<close>

fun js_or :: "json option \<Rightarrow> json \<Rightarrow> json" where
  "js_or None d = d"
| "js_or (Some v) d = (if truthy v then v else d)"

text \<open>An object literal: \<open>JSON.stringify\<close> leaves out a property whose value is
  \<open>undefined\<close>.\<close>

fun defined_props :: "(string \<times> json option) list \<Rightarrow> (string \<times> json) list" where
  "defined_props [] = []"
| "defined_props ((k, None) # ps) = defined_props ps"
| "defined_props ((k, Some v) # ps) = (k, v) # defined_props ps"

text \<open>Later properties of an object literal replace earlier ones of the same name
  (\<open>{...data, address, ...}\<close>).\<close>

fun set_props :: "(string \<times> json) list \<Rightarrow> (string \<times> json) list \<Rightarrow> (string \<times> json) list" where
  "set_props fs [] = fs"
| "set_props fs ((k, v) # ps) = set_props (AList.update k v fs) ps"

subsection \<open>Numbers and strings\<close>

definition digit_char :: "nat \<Rightarrow> char" where
  "digit_char n = ''0123456789'' ! (n mod 10)"

text \<open>The decimal digits of a number, most significant first, put in front of \<open>acc\<close>.\<close>

fun decimal :: "nat \<Rightarrow> string \<Rightarrow> string" where
  "decimal n acc =
     (if n < 10 then digit_char n # acc else decimal (n div 10) (digit_char n # acc))"

declare decimal.simps [simp del]

definition decimal_of_nat :: "nat \<Rightarrow> string" where
  "decimal_of_nat n = decimal n []"

text \<open>The own enumerable properties that \<open>{...v}\<close> copies: those of an object, the
  indices of an array or of a string, nothing for the other values.\<close>

fun spread :: "json \<Rightarrow> (string \<times> json) list" where
  "spread (JObj fs) = fs"
| "spread (JArr xs) = zip (map decimal_of_nat [0..<length xs]) xs"
| "spread (JStr s) = zip (map decimal_of_nat [0..<length s]) (map (\<lambda>c. JStr [c]) s)"
| "spread v = []"

text \<open>\<open>v?.length\<close>.\<close>

fun opt_length :: "json option \<Rightarrow> json option" where
  "opt_length None = None"
| "opt_length (Some JNull) = None"
| "opt_length (Some (JArr xs)) = Some (JNum (int (length xs)))"
| "opt_length (Some (JStr s)) = Some (JNum (int (length s)))"
| "opt_length (Some (JObj fs)) = map_of fs ''length''"
| "opt_length (Some v) = None"

definition is_space :: "char \<Rightarrow> bool" where
  "is_space c = (c \<in> set [CHR '' '', CHR 0x09, CHR 0x0A, CHR 0x0B, CHR 0x0C, CHR 0x0D])"

definition digit_val :: "char \<Rightarrow> nat option" where
  "digit_val c =
     (let n = (of_char c :: nat) in
      if 48 \<le> n \<and> n \<le> 57 then Some (n - 48)
      else if 97 \<le> n \<and> n \<le> 102 then Some (n - 87)
      else if 65 \<le> n \<and> n \<le> 70 then Some (n - 55)
      else None)"

definition is_digit :: "nat \<Rightarrow> char \<Rightarrow> bool" where
  "is_digit radix c = (case digit_val c of None \<Rightarrow> False | Some d \<Rightarrow> d < radix)"

definition digit_of :: "char \<Rightarrow> nat" where
  "digit_of c = (case digit_val c of None \<Rightarrow> 0 | Some d \<Rightarrow> d)"

text \<open>
  \<open>parseInt(s)\<close> with no radix, as ECMAScript defines it: leading white space is
  skipped, a sign is read, a prefix \<open>0x\<close> or \<open>0X\<close> selects radix 16, and the longest run
  of digits of the radix is the value; with no digit the result is \<open>NaN\<close>, here \<open>None\<close>.
  White space is the ASCII white space.
\<close>

definition parseInt :: "string \<Rightarrow> int option" where
  "parseInt s =
     (let s1 = dropWhile is_space s;
          neg = (take 1 s1 = ''-'');
          s2 = (if take 1 s1 = ''-'' \<or> take 1 s1 = ''+'' then drop 1 s1 else s1);
          hex = (take 2 s2 = ''0x'' \<or> take 2 s2 = ''0X'');
          radix = (if hex then 16 else 10);
          s3 = (if hex then drop 2 s2 else s2);
          z = takeWhile (is_digit radix) s3
      in if z = [] then None
         else Some ((if neg then - 1 else 1) *
                    int (foldl (\<lambda>a c. a * radix + digit_of c) 0 z)))"

text \<open>A number in a JSON body: \<open>JSON.stringify\<close> writes \<open>NaN\<close> as \<open>null\<close>.\<close>

definition json_of_number :: "int option \<Rightarrow> json" where
  "json_of_number n = (case n of None \<Rightarrow> JNull | Some i \<Rightarrow> JNum i)"

text \<open>The test \<open>/^0x[a-fA-F0-9]{40}$/.test(s)\<close>.\<close>

definition is_hex_address :: "string \<Rightarrow> bool" where
  "is_hex_address s =
     (length s = 42 \<and> take 2 s = ''0x'' \<and> list_all (is_digit 16) (drop 2 s))"

text \<open>\<open>String(v)\<close>, as a template literal, a regular expression test, \<open>parseInt\<close> and a
  property key apply it; \<open>undefined\<close> gives \<open>undefined\<close>. An array is joined with commas,
  \<open>null\<close> elements left empty.\<close>

definition decimal_of_int :: "int \<Rightarrow> string" where
  "decimal_of_int i =
     (if 0 \<le> i then decimal_of_nat (nat i) else CHR ''-'' # decimal_of_nat (nat (- i)))"

fun to_string :: "json \<Rightarrow> string" and join_elems :: "json list \<Rightarrow> string" where
  "to_string JNull = ''null''"
| "to_string (JBool b) = (if b then ''true'' else ''false'')"
| "to_string (JNum n) = decimal_of_int n"
| "to_string (JStr s) = s"
| "to_string (JArr xs) = join_elems xs"
| "to_string (JObj fs) = ''[object Object]''"
| "join_elems [] = []"
| "join_elems (x # xs) =
     (if x = JNull then [] else to_string x) @ (if xs = [] then [] else '','' @ join_elems xs)"

definition to_string_opt :: "json option \<Rightarrow> string" where
  "to_string_opt v = (case v of None \<Rightarrow> ''undefined'' | Some x \<Rightarrow> to_string x)"

text \<open>\<open>!v\<close> for a value that may be \<open>undefined\<close>.\<close>

definition falsy :: "json option \<Rightarrow> bool" where
  "falsy v = (case v of None \<Rightarrow> True | Some x \<Rightarrow> \<not> truthy x)"

text \<open>A destructuring default \<open>{ k = d }\<close>: it applies when the property is \<open>undefined\<close>
  only.\<close>

definition with_default :: "json option \<Rightarrow> json \<Rightarrow> json" where
  "with_default v d = (case v of None \<Rightarrow> d | Some x \<Rightarrow> x)"

text \<open>\<open>s.split(',')\<close> and \<open>s.trim()\<close> (ASCII white space).\<close>

fun split_comma :: "string \<Rightarrow> string list" where
  "split_comma [] = [[]]"
| "split_comma (c # cs) =
     (if c = CHR '','' then [] # split_comma cs
      else (case split_comma cs of [] \<Rightarrow> [[c]] | p # ps \<Rightarrow> (c # p) # ps))"

definition trim :: "string \<Rightarrow> string" where
  "trim s = rev (dropWhile is_space (rev (dropWhile is_space s)))"

text \<open>\<open>encodeURIComponent\<close>: every byte of the UTF-8 text other than a letter, a digit
  or one of \<open>- _ . ! ~ * ' ( )\<close> is written \<open>%XX\<close>.\<close>

definition uri_unreserved :: "char \<Rightarrow> bool" where
  "uri_unreserved c =
     (let n = (of_char c :: nat) in
      (48 \<le> n \<and> n \<le> 57) \<or> (65 \<le> n \<and> n \<le> 90) \<or> (97 \<le> n \<and> n \<le> 122)
      \<or> c \<in> set [CHR ''-'', CHR ''_'', CHR ''.'', CHR ''!'', CHR ''~'', CHR ''*'', CHR 0x27,
                  CHR ''('', CHR '')''])"

definition hex_char :: "nat \<Rightarrow> char" where
  "hex_char n = ''0123456789ABCDEF'' ! (n mod 16)"

definition encodeURIComponent :: "string \<Rightarrow> string" where
  "encodeURIComponent s =
     concat (map (\<lambda>c. if uri_unreserved c then [c]
                      else [CHR ''%'', hex_char ((of_char c :: nat) div 16),
                            hex_char ((of_char c :: nat) mod 16)]) s)"

text \<open>\<open>addressList.every(addr => /^0x[a-fA-F0-9]{40}$/.test(addr))\<close> on
  \<open>addresses.split(',').map(addr => addr.trim())\<close>.\<close>

definition valid_address_list :: "string \<Rightarrow> bool" where
  "valid_address_list addresses =
     list_all is_hex_address (map trim (split_comma addresses))"

subsection \<open>Query parameters\<close>

text \<open>\<open>searchParams\<close> is the list of name/value pairs of the query string;
  \<open>searchParams.get(k)\<close> is the first value of \<open>k\<close>, or \<open>null\<close>.\<close>

type_synonym search_params = "(string \<times> string) list"

definition param :: "search_params \<Rightarrow> string \<Rightarrow> string option" where
  "param searchParams k = map_of searchParams k"

text \<open>\<open>!p\<close> for a parameter: \<open>null\<close> and the empty string are falsy.\<close>

definition missing :: "string option \<Rightarrow> bool" where
  "missing p = (case p of None \<Rightarrow> True | Some s \<Rightarrow> s = [])"

text \<open>\<open>p || d\<close> for a parameter.\<close>

definition or_default :: "string option \<Rightarrow> string \<Rightarrow> string" where
  "or_default p d = (case p of None \<Rightarrow> d | Some s \<Rightarrow> if s = [] then d else s)"

subsection \<open>The upstream API and the responses of the routes\<close>

record fetch_request =
  req_url :: string
  req_method :: string
  req_headers :: "(string \<times> string) list"
  req_body :: "json option"

text \<open>What \<open>fetch\<close> resolves to: the status line, the body as \<open>response.text()\<close> gives it,
  and the body as \<open>response.json()\<close> gives it (\<open>Inl\<close> the message of the error it rejects
  with when the body is not JSON).\<close>

record fetch_response =
  res_status :: nat
  res_statusText :: string
  res_text :: string
  res_json :: "js_error + json"

definition res_ok :: "fetch_response \<Rightarrow> bool" where
  "res_ok res = (200 \<le> res_status res \<and> res_status res \<le> 299)"

text \<open>
  The environment of a request: the API key of the process environment (\<open>None\<close> when the
  variable is not set), the upstream API, and the clock. The upstream API answers a
  request knowing the requests made before it; \<open>Inl\<close> is the message of the error \<open>fetch\<close>
  rejects with when no response arrives. A handler returns its response together with
  the list of the upstream requests it made, in order. The handlers render prices with
  \<open>(x / 1e9).toFixed(2)\<close> and \<open>(x / 1e18).toFixed(6)\<close>, which JavaScript computes in binary
  floating point; for a number \<open>x\<close> that \<open>parseInt\<close> returned, \<open>div_toFixed x e d\<close> stands for
  \<open>(x / 10^e).toFixed(d)\<close> and is a parameter of the model.
\<close>

record env =
  ONEINCH_API_KEY :: "string option"
  upstream :: "fetch_request list \<Rightarrow> fetch_request \<Rightarrow> js_error + fetch_response"
  now :: string
  div_toFixed :: "int \<Rightarrow> nat \<Rightarrow> nat \<Rightarrow> string"

record response =
  status :: nat
  body :: json

type_synonym log = "fetch_request list"

definition json_response :: "nat \<Rightarrow> (string \<times> json) list \<Rightarrow> response" where
  "json_response st fs = \<lparr>status = st, body = JObj fs\<rparr>"

definition error_response :: "nat \<Rightarrow> string \<Rightarrow> response" where
  "error_response st msg = json_response st [(''error'', JStr msg)]"

text \<open>The \<open>catch\<close> block of every handler.\<close>

definition failure_response :: "string \<Rightarrow> js_error \<Rightarrow> response" where
  "failure_response what e = json_response 500 [(''error'', JStr what), (''details'', JStr e)]"

text \<open>\<open>(x / 10^e).toFixed(d)\<close> for the result \<open>x\<close> of \<open>parseInt\<close>: \<open>NaN\<close> divided is \<open>NaN\<close>, and
  \<open>toFixed\<close> renders it as \<open>NaN\<close>.\<close>

definition scaled_fixed :: "env \<Rightarrow> int option \<Rightarrow> nat \<Rightarrow> nat \<Rightarrow> string" where
  "scaled_fixed env x e d = (case x of None \<Rightarrow> ''NaN'' | Some n \<Rightarrow> div_toFixed env n e d)"

text \<open>The template \<open>`Bearer ${process.env.ONEINCH_API_KEY}`\<close>.\<close>

definition bearer :: "env \<Rightarrow> string" where
  "bearer env = ''Bearer '' @ (case ONEINCH_API_KEY env of None \<Rightarrow> ''undefined'' | Some k \<Rightarrow> k)"

text \<open>The message of the \<open>TypeError\<close> of reading property \<open>k\<close> of \<open>null\<close> (V8's wording).\<close>

definition null_read :: "string \<Rightarrow> js_error" where
  "null_read k = ''Cannot read properties of null (reading '' @ [CHR 0x27] @ k @ [CHR 0x27] @ '')''"

definition api_request_failed :: "fetch_response \<Rightarrow> js_error" where
  "api_request_failed res =
     ''API request failed: '' @ decimal_of_nat (res_status res) @ '' '' @ res_statusText res
       @ '' - '' @ res_text res"

text \<open>\<open>makeRequest\<close> of the gas price, NFT, portfolio, trace and domain routes (the five
  copies are the same).\<close>

definition get_request :: "env \<Rightarrow> string \<Rightarrow> fetch_request" where
  "get_request env url =
     \<lparr>req_url = url, req_method = ''GET'',
      req_headers = [(''Authorization'', bearer env), (''Content-Type'', ''application/json'')],
      req_body = None\<rparr>"

definition read_response :: "js_error + fetch_response \<Rightarrow> js_error + json" where
  "read_response r =
     (case r of
        Inl e \<Rightarrow> Inl e
      | Inr res \<Rightarrow> if \<not> res_ok res then Inl (api_request_failed res) else res_json res)"

definition makeRequest :: "env \<Rightarrow> log \<Rightarrow> string \<Rightarrow> (js_error + json) \<times> log" where
  "makeRequest env lg url =
     (read_response (upstream env lg (get_request env url)), lg @ [get_request env url])"

subsection \<open>The shape of a handler\<close>

text \<open>
  Every \<open>GET\<close> handler has the shape
  \<open>try { ... data = await makeRequest(url); return NextResponse.json({...}) }
    catch (error) { return NextResponse.json({error, details}, {status: 500}) }\<close>.
  \<open>respond what k r\<close> is that shape for the outcome \<open>r\<close> of the request: \<open>k\<close> builds the
  response from the data, \<open>what\<close> is the \<open>error\<close> text of the \<open>catch\<close> block.
\<close>

definition respond :: "string \<Rightarrow> (json \<Rightarrow> js_error + response) \<Rightarrow> (js_error + json) \<times> log
    \<Rightarrow> response \<times> log" where
  "respond what k r =
     (case r of
        (Inl e, lg) \<Rightarrow> (failure_response what e, lg)
      | (Inr data, lg) \<Rightarrow>
          (case k data of
             Inl e \<Rightarrow> (failure_response what e, lg)
           | Inr resp \<Rightarrow> (resp, lg)))"

text \<open>\<open>chainId || SUPPORTED_CHAINS[chain] || '1'\<close>; the table is looked up by its own
  keys.\<close>

definition chain_id_of :: "(string \<times> string) list \<Rightarrow> string option \<Rightarrow> string \<Rightarrow> string" where
  "chain_id_of table chainId chain =
     (if \<not> missing chainId then the chainId else or_default (map_of table chain) ''1'')"

section \<open>The NFT route\<close>

definition NFT_BASE_URL :: string where
  "NFT_BASE_URL = ''https://api.1inch.dev/nft/v1/byaddress''"

definition nft_url :: "string \<Rightarrow> string \<Rightarrow> string \<Rightarrow> string \<Rightarrow> string" where
  "nft_url address chainIds limit offset =
     NFT_BASE_URL @ ''?address='' @ address @ ''&chainIds='' @ chainIds @ ''&limit='' @ limit
       @ ''&offset='' @ offset"

definition nft_transform :: "json \<Rightarrow> json \<Rightarrow> json \<Rightarrow> int \<Rightarrow> int \<Rightarrow> js_error + json" where
  "nft_transform data address chainIds numericLimit numericOffset =
     (if data = JNull then Inl (null_read ''assets'')
      else Inr (JObj (set_props (spread data)
        [(''address'', address),
         (''chainIds'', chainIds),
         (''limit'', JNum numericLimit),
         (''offset'', JNum numericOffset),
         (''totalItems'', js_or (opt_length (get_prop data ''assets'')) (JNum 0)),
         (''hasMore'', JBool (opt_length (get_prop data ''assets'') = Some (JNum numericLimit))),
         (''nextOffset'', JNum (numericOffset + numericLimit))])))"

text \<open>\<open>isNaN(numericLimit) || numericLimit < 1 || numericLimit > 100\<close> and
  \<open>isNaN(numericOffset) || numericOffset < 0\<close>.\<close>

definition limit_invalid :: "int option \<Rightarrow> bool" where
  "limit_invalid numericLimit =
     (case numericLimit of None \<Rightarrow> True | Some n \<Rightarrow> n < 1 \<or> n > 100)"

definition offset_invalid :: "int option \<Rightarrow> bool" where
  "offset_invalid numericOffset = (case numericOffset of None \<Rightarrow> True | Some n \<Rightarrow> n < 0)"

definition nft_success :: "env \<Rightarrow> string \<Rightarrow> string \<Rightarrow> int \<Rightarrow> int \<Rightarrow> json
    \<Rightarrow> js_error + response" where
  "nft_success env address chainIds numericLimit numericOffset data =
     (case nft_transform data (JStr address) (JStr chainIds) numericLimit numericOffset of
        Inl e \<Rightarrow> Inl e
      | Inr transformedData \<Rightarrow>
          Inr (json_response 200
                 [(''success'', JBool True),
                  (''data'', transformedData),
                  (''timestamp'', JStr (now env))]))"

definition nft_GET :: "env \<Rightarrow> search_params \<Rightarrow> response \<times> log" where
  "nft_GET env searchParams =
     (let address = param searchParams ''address'';
          chainIds = or_default (param searchParams ''chainIds'') ''1'';
          limit = or_default (param searchParams ''limit'') ''50'';
          offset = or_default (param searchParams ''offset'') ''0''
      in if missing address then (error_response 400 ''Address parameter is required'', [])
         else if \<not> is_hex_address (the address)
           then (error_response 400 ''Invalid wallet address format'', [])
         else if limit_invalid (parseInt limit)
           then (error_response 400 ''Limit must be a number between 1 and 100'', [])
         else if offset_invalid (parseInt offset)
           then (error_response 400 ''Offset must be a non-negative number'', [])
         else respond ''Failed to fetch NFT data''
                (nft_success env (the address) chainIds (the (parseInt limit))
                   (the (parseInt offset)))
                (makeRequest env [] (nft_url (the address) chainIds limit offset)))"

section \<open>The wallet history route\<close>

definition HISTORY_BASE_URL :: string where
  "HISTORY_BASE_URL = ''https://api.1inch.dev/history/v2.0/history''"

text \<open>The template of the source is
  \<open>`${BASE_URL}/${address}/events?chainId=${1}&limit=${limit}`\<close>: the number \<open>1\<close> is
  interpolated, not the variable \<open>chainId\<close>.\<close>

definition history_url :: "string \<Rightarrow> string \<Rightarrow> string" where
  "history_url address limit =
     HISTORY_BASE_URL @ ''/'' @ address @ ''/events?chainId='' @ decimal_of_nat 1
       @ ''&limit='' @ limit"

definition history_request :: "env \<Rightarrow> string \<Rightarrow> fetch_request" where
  "history_request env url =
     \<lparr>req_url = url, req_method = ''GET'',
      req_headers = [(''Authorization'', bearer env), (''Content_Type'', ''appication/json'')],
      req_body = None\<rparr>"

definition history_item :: "string \<Rightarrow> json \<Rightarrow> js_error + json" where
  "history_item chainId item =
     (if item = JNull then Inl (null_read ''id'')
      else Inr (JObj (defined_props
        [(''id'', get_prop item ''id''),
         (''hash'', get_prop item ''txHash''),
         (''timestamp'', get_prop item ''timeStamp''),
         (''from'', opt_prop (get_prop item ''details'') ''fromAddress''),
         (''to'', opt_prop (get_prop item ''details'') ''toAddress''),
         (''value'', opt_prop (get_prop item ''details'') ''amount''),
         (''token'', opt_prop (get_prop item ''details'') ''token''),
         (''type'', get_prop item ''type''),
         (''status'', Some (js_or (get_prop item ''status'') (JStr ''completed''))),
         (''chainId'', Some (JStr chainId))])))"

text \<open>\<open>items.map(f)\<close> where \<open>f\<close> may throw: the first error ends the map.\<close>

fun map_items :: "(json \<Rightarrow> js_error + json) \<Rightarrow> json list \<Rightarrow> js_error + json list" where
  "map_items f [] = Inr []"
| "map_items f (x # xs) =
     (case f x of
        Inl e \<Rightarrow> Inl e
      | Inr y \<Rightarrow> (case map_items f xs of Inl e \<Rightarrow> Inl e | Inr ys \<Rightarrow> Inr (y # ys)))"

text \<open>\<open>data.items?.map(...) || []\<close>.\<close>

definition history_transform :: "string \<Rightarrow> json \<Rightarrow> js_error + json list" where
  "history_transform chainId data =
     (if data = JNull then Inl (null_read ''items'')
      else case get_prop data ''items'' of
             None \<Rightarrow> Inr []
           | Some JNull \<Rightarrow> Inr []
           | Some (JArr items) \<Rightarrow> map_items (history_item chainId) items
           | Some v \<Rightarrow> Inl ''data.items?.map is not a function'')"

definition history_GET :: "env \<Rightarrow> search_params \<Rightarrow> response \<times> log" where
  "history_GET env searchParams =
     (let address = param searchParams ''address'';
          limit = or_default (param searchParams ''limit'') ''10'';
          chain = or_default (param searchParams ''chain'') ''ethereum'';
          chainId = or_default (param searchParams ''chainId'') ''1''
      in if missing address then (error_response 400 ''wallet address is Required'', [])
         else
           (let req = history_request env (history_url (the address) limit) in
            case upstream env [] req of
              Inl e \<Rightarrow> (failure_response ''Failed to fetch wallet transactions'' e, [req])
            | Inr res \<Rightarrow>
                if \<not> res_ok res then
                  (if res_status res = 401 then (error_response 401 ''Invalid API key'', [req])
                   else if res_status res = 429
                     then (error_response 429 ''Rate limit exceeded'', [req])
                   else (failure_response ''Failed to fetch wallet transactions''
                           (''1inch API error: '' @ decimal_of_nat (res_status res) @ '' ''
                              @ res_statusText res), [req]))
                else
                  (case res_json res of
                     Inl e \<Rightarrow> (failure_response ''Failed to fetch wallet transactions'' e, [req])
                   | Inr data \<Rightarrow>
                       (case history_transform chainId data of
                          Inl e \<Rightarrow>
                            (failure_response ''Failed to fetch wallet transactions'' e, [req])
                        | Inr transformedTransactions \<Rightarrow>
                            (json_response 200
                               [(''success'', JBool True),
                                (''address'', JStr (the address)),
                                (''chain'', JStr chain),
                                (''chainId'', JStr chainId),
                                (''transactions'', JArr transformedTransactions),
                                (''total'', JNum (int (length transformedTransactions))),
                                (''metadata'', JObj
                                   [(''limit'', json_of_number (parseInt limit)),
                                    (''apiProvider'', JStr ''1inch'')])], [req])))))"


section \<open>Single requests of the other routes\<close>

subsection \<open>Gas price\<close>

definition GAS_BASE_URL :: string where
  "GAS_BASE_URL = ''https://api.1inch.dev/gas-price/v1.4''"

definition GAS_SUPPORTED_CHAINS :: "(string \<times> string) list" where
  "GAS_SUPPORTED_CHAINS =
     [(''ethereum'', ''1''), (''bsc'', ''56''), (''polygon'', ''137''), (''optimism'', ''10''),
      (''arbitrum'', ''42161''), (''gnosis'', ''100''), (''avalanche'', ''43114''),
      (''fantom'', ''250''), (''klaytn'', ''8217''), (''aurora'', ''1313161554''),
      (''zksync'', ''324'')]"

text \<open>\<open>(parseInt(v) / 1e9).toFixed(2)\<close>.\<close>

definition gwei :: "env \<Rightarrow> json option \<Rightarrow> string" where
  "gwei env v = scaled_fixed env (parseInt (to_string_opt v)) 9 2"

definition gas_tier :: "env \<Rightarrow> json \<Rightarrow> string \<Rightarrow> json" where
  "gas_tier env data name =
     (case get_prop data name of
        None \<Rightarrow> JNull
      | Some t \<Rightarrow>
          if truthy t then
            JObj (set_props (spread t)
              [(''maxPriorityFeePerGasGwei'', JStr (gwei env (get_prop t ''maxPriorityFeePerGas''))),
               (''maxFeePerGasGwei'', JStr (gwei env (get_prop t ''maxFeePerGas'')))])
          else JNull)"

definition gasPricesGwei :: "env \<Rightarrow> json \<Rightarrow> json" where
  "gasPricesGwei env data =
     JObj [(''baseFee'', if falsy (get_prop data ''baseFee'') then JNull
                         else JStr (gwei env (get_prop data ''baseFee''))),
           (''low'', gas_tier env data ''low''),
           (''medium'', gas_tier env data ''medium''),
           (''high'', gas_tier env data ''high''),
           (''instant'', gas_tier env data ''instant'')]"

definition gas_success :: "env \<Rightarrow> string \<Rightarrow> string \<Rightarrow> json \<Rightarrow> js_error + response" where
  "gas_success env chainId chain data =
     (if data = JNull then Inl (null_read ''baseFee'')
      else Inr (json_response 200
        [(''success'', JBool True),
         (''chainId'', JStr chainId),
         (''chain'', JStr chain),
         (''data'', JObj (set_props (spread data)
            [(''chainId'', JStr chainId),
             (''chain'', JStr chain),
             (''timestamp'', JStr (now env)),
             (''gasPricesGwei'', gasPricesGwei env data)])),
         (''timestamp'', JStr (now env))]))"

definition gasprice_GET :: "env \<Rightarrow> search_params \<Rightarrow> response \<times> log" where
  "gasprice_GET env searchParams =
     (let chain = or_default (param searchParams ''chain'') ''ethereum'';
          chainId = chain_id_of GAS_SUPPORTED_CHAINS (param searchParams ''chainId'') chain
      in respond ''Failed to fetch gas prices'' (gas_success env chainId chain)
           (makeRequest env [] (GAS_BASE_URL @ ''/'' @ chainId)))"

subsection \<open>Portfolio\<close>

definition PORTFOLIO_BASE_URL :: string where
  "PORTFOLIO_BASE_URL = ''https://api.1inch.dev/portfolio/portfolio/v4/overview/erc20''"

definition current_value_url :: "string \<Rightarrow> string \<Rightarrow> string" where
  "current_value_url addresses chainId =
     PORTFOLIO_BASE_URL @ ''/current_value?addresses='' @ addresses @ ''&chain_id='' @ chainId"

definition profit_and_loss_url :: "string \<Rightarrow> string \<Rightarrow> string \<Rightarrow> string \<Rightarrow> string" where
  "profit_and_loss_url addresses chainId fromTimestamp toTimestamp =
     PORTFOLIO_BASE_URL @ ''/profit_and_loss?addresses='' @ addresses @ ''&chain_id='' @ chainId
       @ ''&from_timestamp='' @ fromTimestamp @ ''&to_timestamp='' @ toTimestamp"

definition details_url :: "string \<Rightarrow> string \<Rightarrow> string" where
  "details_url addresses chainId =
     PORTFOLIO_BASE_URL @ ''/details?addresses='' @ addresses @ ''&chain_id='' @ chainId"

definition portfolio_success :: "env \<Rightarrow> string \<Rightarrow> string \<Rightarrow> string \<Rightarrow> json
    \<Rightarrow> js_error + response" where
  "portfolio_success env action addresses chainId data =
     Inr (json_response 200
       [(''success'', JBool True),
        (''action'', JStr action),
        (''addresses'', JStr addresses),
        (''chainId'', JStr chainId),
        (''data'', data),
        (''timestamp'', JStr (now env))])"

text \<open>The action \<open>all\<close>: two requests, and a third one when both timestamps are given.\<close>

definition portfolio_all :: "env \<Rightarrow> string \<Rightarrow> string \<Rightarrow> string option \<Rightarrow> string option
    \<Rightarrow> (js_error + json) \<times> log" where
  "portfolio_all env addresses chainId fromTimestamp toTimestamp =
     (case makeRequest env [] (current_value_url addresses chainId) of
        (Inl e, lg) \<Rightarrow> (Inl e, lg)
      | (Inr currentValue, lg) \<Rightarrow>
          (case makeRequest env lg (details_url addresses chainId) of
             (Inl e, lg') \<Rightarrow> (Inl e, lg')
           | (Inr tokenDetails, lg') \<Rightarrow>
               if \<not> missing fromTimestamp \<and> \<not> missing toTimestamp then
                 (case makeRequest env lg'
                         (profit_and_loss_url addresses chainId (the fromTimestamp)
                            (the toTimestamp)) of
                    (Inl e, lg'') \<Rightarrow> (Inl e, lg'')
                  | (Inr profitAndLoss, lg'') \<Rightarrow>
                      (Inr (JObj [(''currentValue'', currentValue),
                                  (''tokenDetails'', tokenDetails),
                                  (''profitAndLoss'', profitAndLoss)]), lg''))
               else (Inr (JObj [(''currentValue'', currentValue),
                                (''tokenDetails'', tokenDetails),
                                (''profitAndLoss'', JNull)]), lg')))"

definition portfolio_GET :: "env \<Rightarrow> search_params \<Rightarrow> response \<times> log" where
  "portfolio_GET env searchParams =
     (let action = param searchParams ''action'';
          addresses = param searchParams ''addresses'';
          chainId = or_default (param searchParams ''chainId'') ''1'';
          fromTimestamp = param searchParams ''fromTimestamp'';
          toTimestamp = param searchParams ''toTimestamp'';
          what = ''Failed to fetch portfolio data'';
          success = portfolio_success env (the action) (the addresses) chainId
      in if missing action then
           (error_response 400
              ''Action parameter is required. Use: currentValue, profitAndLoss, tokenDetails, or all'', [])
         else if missing addresses then
           (error_response 400 ''Wallet addresses parameter is required'', [])
         else if \<not> list_all (\<lambda>addr. is_hex_address (trim addr)) (split_comma (the addresses)) then
           (error_response 400 ''Invalid wallet address format'', [])
         else if the action = ''currentValue'' then
           respond what success (makeRequest env [] (current_value_url (the addresses) chainId))
         else if the action = ''profitAndLoss'' then
           (if missing fromTimestamp \<or> missing toTimestamp then
              (error_response 400
                 ''fromTimestamp and toTimestamp parameters are required for profitAndLoss action'', [])
            else respond what success
                   (makeRequest env []
                      (profit_and_loss_url (the addresses) chainId (the fromTimestamp)
                         (the toTimestamp))))
         else if the action = ''tokenDetails'' then
           respond what success (makeRequest env [] (details_url (the addresses) chainId))
         else if the action = ''all'' then
           respond what success
             (portfolio_all env (the addresses) chainId fromTimestamp toTimestamp)
         else
           (error_response 400
              ''Invalid action. Use: currentValue, profitAndLoss, tokenDetails, or all'', []))"

subsection \<open>Traces\<close>

definition TRACE_BASE_URL :: string where
  "TRACE_BASE_URL = ''https://api.1inch.dev/traces/v1.0/chain''"

definition synced_interval_url :: "string \<Rightarrow> string" where
  "synced_interval_url chain = TRACE_BASE_URL @ ''/'' @ chain @ ''/synced-interval''"

definition block_trace_url :: "string \<Rightarrow> string \<Rightarrow> string" where
  "block_trace_url chain blockNumber =
     TRACE_BASE_URL @ ''/'' @ chain @ ''/block-trace/'' @ blockNumber"

definition tx_trace_url :: "string \<Rightarrow> string \<Rightarrow> string \<Rightarrow> string" where
  "tx_trace_url chain blockNumber txHash =
     TRACE_BASE_URL @ ''/'' @ chain @ ''/block-trace/'' @ blockNumber @ ''/tx-hash/'' @ txHash"

definition trace_success :: "env \<Rightarrow> string \<Rightarrow> string \<Rightarrow> json \<Rightarrow> js_error + response" where
  "trace_success env action chain data =
     Inr (json_response 200
       [(''success'', JBool True),
        (''action'', JStr action),
        (''chain'', JStr chain),
        (''data'', data),
        (''timestamp'', JStr (now env))])"

definition trace_GET :: "env \<Rightarrow> search_params \<Rightarrow> response \<times> log" where
  "trace_GET env searchParams =
     (let action = param searchParams ''action'';
          chain = or_default (param searchParams ''chain'') ''1'';
          blockNumber = param searchParams ''blockNumber'';
          txHash = param searchParams ''txHash'';
          what = ''Failed to fetch trace data'';
          success = trace_success env (the action) chain
      in if missing action then
           (error_response 400
              ''Action parameter is required. Use: syncedInterval, blockTrace, or txTrace'', [])
         else if the action = ''syncedInterval'' then
           respond what success (makeRequest env [] (synced_interval_url chain))
         else if the action = ''blockTrace'' then
           (if missing blockNumber then
              (error_response 400 ''blockNumber parameter is required for blockTrace action'', [])
            else respond what success
                   (makeRequest env [] (block_trace_url chain (the blockNumber))))
         else if the action = ''txTrace'' then
           (if missing blockNumber \<or> missing txHash then
              (error_response 400
                 ''blockNumber and txHash parameters are required for txTrace action'', [])
            else respond what success
                   (makeRequest env [] (tx_trace_url chain (the blockNumber) (the txHash))))
         else
           (error_response 400 ''Invalid action. Use: syncedInterval, blockTrace, or txTrace'', []))"

subsection \<open>Domains\<close>

definition DOMAIN_BASE_URL :: string where
  "DOMAIN_BASE_URL = ''https://api.1inch.dev/domains/v2.0''"

definition lookup_url :: "string \<Rightarrow> string" where
  "lookup_url domain = DOMAIN_BASE_URL @ ''/'' @ domain @ ''/lookup''"

definition reverse_lookup_url :: "string \<Rightarrow> string" where
  "reverse_lookup_url address = DOMAIN_BASE_URL @ ''/'' @ address @ ''/reverse-lookup''"

definition providers_url :: string where
  "providers_url = DOMAIN_BASE_URL @ ''/get-providers-data-with-avatar''"

text \<open>\<open>...(p && { k: p })\<close> for a parameter \<open>p\<close>: the property is there when \<open>p\<close> is a
  string that is not empty.\<close>

definition when_given :: "string \<Rightarrow> string option \<Rightarrow> (string \<times> json) list" where
  "when_given k p = (if missing p then [] else [(k, JStr (the p))])"

definition domain_success :: "env \<Rightarrow> string \<Rightarrow> string option \<Rightarrow> string option \<Rightarrow> json
    \<Rightarrow> js_error + response" where
  "domain_success env action domain address data =
     Inr (json_response 200
       ([(''success'', JBool True), (''action'', JStr action)]
          @ when_given ''domain'' domain @ when_given ''address'' address
          @ [(''data'', data), (''timestamp'', JStr (now env))]))"

definition domain_GET :: "env \<Rightarrow> search_params \<Rightarrow> response \<times> log" where
  "domain_GET env searchParams =
     (let action = param searchParams ''action'';
          domain = param searchParams ''domain'';
          address = param searchParams ''address'';
          what = ''Failed to fetch domain data'';
          success = domain_success env (the action) domain address
      in if missing action then
           (error_response 400
              ''Action parameter is required. Use: lookup, reverseLookup, or providersData'', [])
         else if the action = ''lookup'' then
           (if missing domain then
              (error_response 400 ''Domain parameter is required for lookup action'', [])
            else if CHR ''.'' \<notin> set (the domain) then
              (error_response 400 ''Invalid domain format'', [])
            else respond what success (makeRequest env [] (lookup_url (the domain))))
         else if the action = ''reverseLookup'' then
           (if missing address then
              (error_response 400 ''Address parameter is required for reverseLookup action'', [])
            else if \<not> is_hex_address (the address) then
              (error_response 400 ''Invalid wallet address format'', [])
            else respond what success (makeRequest env [] (reverse_lookup_url (the address))))
         else if the action = ''providersData'' then
           respond what success (makeRequest env [] providers_url)
         else
           (error_response 400 ''Invalid action. Use: lookup, reverseLookup, or providersData'', []))"

subsection \<open>Spot prices\<close>

definition SPOT_BASE_URL :: string where
  "SPOT_BASE_URL = ''https://api.1inch.dev/price/v1.1''"

definition SPOT_SUPPORTED_CHAINS :: "(string \<times> string) list" where
  "SPOT_SUPPORTED_CHAINS =
     [(''ethereum'', ''1''), (''bsc'', ''56''), (''polygon'', ''137''), (''optimism'', ''10''),
      (''arbitrum'', ''42161''), (''gnosis'', ''100''), (''avalanche'', ''43114''),
      (''fantom'', ''250'')]"

text \<open>\<open>makeRequest(url, method, body)\<close> of the spot price route: the body is sent when it
  is given and the method is \<open>POST\<close>.\<close>

definition spot_request :: "env \<Rightarrow> string \<Rightarrow> string \<Rightarrow> json option \<Rightarrow> fetch_request" where
  "spot_request env url method payload =
     \<lparr>req_url = url, req_method = method,
      req_headers = [(''Authorization'', bearer env), (''Content-Type'', ''application/json'')],
      req_body = (if \<not> falsy payload \<and> method = ''POST'' then payload else None)\<rparr>"

definition makeRequest_spot :: "env \<Rightarrow> log \<Rightarrow> string \<Rightarrow> string \<Rightarrow> json option
    \<Rightarrow> (js_error + json) \<times> log" where
  "makeRequest_spot env lg url method payload =
     (read_response (upstream env lg (spot_request env url method payload)),
      lg @ [spot_request env url method payload])"

text \<open>\<open>(parseInt(priceWei) / 1e18).toFixed(6)\<close>.\<close>

definition formatPriceFromWei :: "env \<Rightarrow> json \<Rightarrow> string" where
  "formatPriceFromWei env priceWei = scaled_fixed env (parseInt (to_string priceWei)) 18 6"

text \<open>The loop over \<open>Object.entries(data)\<close> that fills \<open>formattedPrices\<close>.\<close>

definition format_prices :: "env \<Rightarrow> json \<Rightarrow> (string \<times> json) list" where
  "format_prices env data =
     set_props [] (map (\<lambda>(tokenAddress, priceWei).
                     (tokenAddress, JStr (formatPriceFromWei env priceWei))) (spread data))"

definition entries_of_null :: js_error where
  "entries_of_null = ''Cannot convert undefined or null to object''"

definition spot_success :: "env \<Rightarrow> string \<Rightarrow> string \<Rightarrow> string \<Rightarrow> json \<Rightarrow> js_error + response" where
  "spot_success env action chainId chain data =
     (if data = JNull then Inl entries_of_null
      else Inr (json_response 200
        [(''success'', JBool True),
         (''action'', JStr action),
         (''chainId'', JStr chainId),
         (''chain'', JStr chain),
         (''data'', JObj (set_props [] (spread data))),
         (''formattedPrices'', JObj (format_prices env data)),
         (''timestamp'', JStr (now env))]))"

definition spot_GET :: "env \<Rightarrow> search_params \<Rightarrow> response \<times> log" where
  "spot_GET env searchParams =
     (let action = or_default (param searchParams ''action'') ''whitelisted'';
          chain = or_default (param searchParams ''chain'') ''ethereum'';
          addresses = param searchParams ''addresses'';
          chainId = chain_id_of SPOT_SUPPORTED_CHAINS (param searchParams ''chainId'') chain;
          what = ''Failed to fetch spot prices'';
          success = spot_success env action chainId chain
      in if action = ''whitelisted'' then
           respond what success
             (makeRequest_spot env [] (SPOT_BASE_URL @ ''/'' @ chainId) ''GET'' None)
         else if action = ''addresses'' then
           (if missing addresses then
              (error_response 400 ''Addresses parameter is required for addresses action'', [])
            else if \<not> valid_address_list (the addresses) then
              (error_response 400 ''Invalid token address format'', [])
            else respond what success
                   (makeRequest_spot env []
                      (SPOT_BASE_URL @ ''/'' @ chainId @ ''/'' @ the addresses) ''GET'' None))
         else (error_response 400 ''Invalid action. Use: whitelisted or addresses'', []))"

subsection \<open>Tokens\<close>

definition TOKEN_BASE_URL :: string where
  "TOKEN_BASE_URL = ''https://api.1inch.dev/token''"

definition TOKEN_SUPPORTED_CHAINS :: "(string \<times> string) list" where
  "TOKEN_SUPPORTED_CHAINS =
     [(''ethereum'', ''1''), (''bsc'', ''56''), (''polygon'', ''137''), (''optimism'', ''10''),
      (''arbitrum'', ''42161''), (''gnosis'', ''100''), (''avalanche'', ''43114''),
      (''fantom'', ''250''), (''klaytn'', ''8217''), (''aurora'', ''1313161554'')]"

text \<open>\<open>makeRequest\<close> of the token route: its \<open>method\<close> parameter is not passed on to
  \<open>fetch\<close>.\<close>

definition token_request :: "env \<Rightarrow> string \<Rightarrow> fetch_request" where
  "token_request env url =
     \<lparr>req_url = url, req_method = ''GET'',
      req_headers = [(''Authorization'', bearer env), (''Content-Type'', ''application/json''),
                     (''accept'', ''application/json'')],
      req_body = None\<rparr>"

definition makeRequest_token :: "env \<Rightarrow> log \<Rightarrow> string \<Rightarrow> (js_error + json) \<times> log" where
  "makeRequest_token env lg url =
     (read_response (upstream env lg (token_request env url)), lg @ [token_request env url])"

definition token_search_url :: "string \<Rightarrow> string \<Rightarrow> string \<Rightarrow> string \<Rightarrow> string" where
  "token_search_url chainId query limit ignoreListed =
     TOKEN_BASE_URL @ ''/v1.2/'' @ chainId @ ''/search?query='' @ encodeURIComponent query
       @ ''&limit='' @ limit @ ''&ignore_listed='' @ ignoreListed"

definition token_custom_url :: "string \<Rightarrow> string \<Rightarrow> string" where
  "token_custom_url chainId addresses =
     TOKEN_BASE_URL @ ''/v1.2/'' @ chainId @ ''/custom/'' @ addresses"

definition token_all_url :: "string \<Rightarrow> string \<Rightarrow> string" where
  "token_all_url chainId provider =
     TOKEN_BASE_URL @ ''/v1.2/'' @ chainId @ ''?provider='' @ provider"

definition token_list_url :: "string \<Rightarrow> string \<Rightarrow> string" where
  "token_list_url chainId provider =
     TOKEN_BASE_URL @ ''/v1.2/'' @ chainId @ ''/token-list?provider='' @ provider"

definition token_success :: "env \<Rightarrow> string \<Rightarrow> string \<Rightarrow> string \<Rightarrow> string option
    \<Rightarrow> string option \<Rightarrow> string \<Rightarrow> json \<Rightarrow> js_error + response" where
  "token_success env action chainId chain query addresses provider data =
     Inr (json_response 200
       ([(''success'', JBool True),
         (''action'', JStr action),
         (''chainId'', JStr chainId),
         (''chain'', JStr chain)]
        @ when_given ''query'' query @ when_given ''addresses'' addresses
        @ when_given ''provider'' (Some provider)
        @ [(''data'', data), (''timestamp'', JStr (now env))]))"

definition token_GET :: "env \<Rightarrow> search_params \<Rightarrow> response \<times> log" where
  "token_GET env searchParams =
     (let action = or_default (param searchParams ''action'') ''all'';
          chain = or_default (param searchParams ''chain'') ''ethereum'';
          query = param searchParams ''query'';
          addresses = param searchParams ''addresses'';
          limit = or_default (param searchParams ''limit'') ''10'';
          ignoreListed = or_default (param searchParams ''ignoreListed'') ''false'';
          provider = or_default (param searchParams ''provider'') ''1inch'';
          chainId = chain_id_of TOKEN_SUPPORTED_CHAINS (param searchParams ''chainId'') chain;
          what = ''Failed to fetch token data'';
          success = token_success env action chainId chain query addresses provider
      in if action = ''search'' then
           (if missing query then
              (error_response 400 ''Query parameter is required for search action'', [])
            else respond what success
                   (makeRequest_token env []
                      (token_search_url chainId (the query) limit ignoreListed)))
         else if action = ''custom'' then
           (if missing addresses then
              (error_response 400 ''Addresses parameter is required for custom action'', [])
            else if \<not> valid_address_list (the addresses) then
              (error_response 400 ''Invalid token address format'', [])
            else respond what success
                   (makeRequest_token env [] (token_custom_url chainId (the addresses))))
         else if action = ''all'' then
           respond what success (makeRequest_token env [] (token_all_url chainId provider))
         else if action = ''tokenList'' then
           respond what success (makeRequest_token env [] (token_list_url chainId provider))
         else
           (error_response 400 ''Invalid action. Use: search, custom, all, or tokenList'', []))"

section \<open>Batch requests\<close>

text \<open>
  Every batch handler has the shape
  \<open>for (const item of list) { const { ... } = item;
       try { ...; results.push({success: true, ...}); await delay }
       catch (error) { results.push({success: false, ..., error: error.message}) } }\<close>.
  Destructuring an item that is \<open>null\<close> throws outside the inner \<open>try\<close>, which ends the
  loop. \<open>process lg item\<close> is the \<open>try\<close>/\<open>catch\<close> statement for one item: it gives the entry
  pushed on \<open>results\<close> and the log of upstream requests after it. For each route,
  \<open>_try\<close> is the \<open>try\<close> block (its outcome is the entry of a success, or the message of the
  error thrown), \<open>_failure\<close> is the entry the \<open>catch\<close> block pushes, and \<open>_item\<close> is the
  whole statement. The delays between the items have no part in the result.
\<close>

fun batch_loop :: "js_error \<Rightarrow> (log \<Rightarrow> json \<Rightarrow> json \<times> log) \<Rightarrow> log \<Rightarrow> json list \<Rightarrow> json list
    \<Rightarrow> (js_error + json list) \<times> log" where
  "batch_loop null_item process lg results [] = (Inr results, lg)"
| "batch_loop null_item process lg results (item # items) =
     (if item = JNull then (Inl null_item, lg)
      else (case process lg item of
              (entry, lg') \<Rightarrow> batch_loop null_item process lg' (results @ [entry]) items))"

text \<open>The inner \<open>try\<close>/\<open>catch\<close>: the outcome of the \<open>try\<close> block is the entry of a success or
  the message of the error thrown.\<close>

definition try_item :: "(js_error \<Rightarrow> json) \<Rightarrow> (js_error + json) \<times> log \<Rightarrow> json \<times> log" where
  "try_item failure r =
     (case r of (Inl e, lg) \<Rightarrow> (failure e, lg) | (Inr entry, lg) \<Rightarrow> (entry, lg))"

text \<open>A request followed by the construction of the entry, inside a \<open>try\<close> block.\<close>

definition then_entry :: "(js_error + json) \<times> log \<Rightarrow> (json \<Rightarrow> js_error + json)
    \<Rightarrow> (js_error + json) \<times> log" where
  "then_entry r k =
     (case r of (Inl e, lg) \<Rightarrow> (Inl e, lg) | (Inr data, lg) \<Rightarrow> (k data, lg))"

text \<open>The message of the \<open>TypeError\<close> of \<open>const { k, ... } = v\<close> for \<open>v\<close> null (V8's
  wording).\<close>

definition destructure_null :: "string \<Rightarrow> string \<Rightarrow> js_error" where
  "destructure_null k v =
     ''Cannot destructure property '' @ [CHR 0x27] @ k @ [CHR 0x27] @ '' of '' @ [CHR 0x27] @ v
       @ [CHR 0x27] @ '' as it is null.''"

text \<open>\<open>r.success\<close> of an entry, as \<open>results.filter(r => r.success)\<close> reads it.\<close>

definition entry_success :: "json \<Rightarrow> bool" where
  "entry_success r = (\<not> falsy (get_prop r ''success''))"

definition batch_counts :: "json list \<Rightarrow> nat \<Rightarrow> (string \<times> json) list" where
  "batch_counts results n =
     [(''results'', JArr results),
      (''total'', JNum (int n)),
      (''successful'', JNum (int (length (filter entry_success results)))),
      (''failed'', JNum (int (length (filter (\<lambda>r. \<not> entry_success r) results))))]"

text \<open>\<open>...(v && { k: v })\<close> for a value that may be \<open>undefined\<close>.\<close>

definition when_truthy :: "string \<Rightarrow> json option \<Rightarrow> (string \<times> json) list" where
  "when_truthy k v = (if falsy v then [] else [(k, the v)])"

text \<open>\<open>chainId || SUPPORTED_CHAINS[chain] || '1'\<close> for the properties of an item.\<close>

definition final_chain_id :: "(string \<times> string) list \<Rightarrow> json option \<Rightarrow> json option \<Rightarrow> json" where
  "final_chain_id table chainId chain =
     (if \<not> falsy chainId then the chainId
      else JStr (or_default (map_of table (to_string_opt chain)) ''1''))"

subsection \<open>Gas price\<close>

definition gas_entry :: "env \<Rightarrow> json \<Rightarrow> json option \<Rightarrow> json \<Rightarrow> js_error + json" where
  "gas_entry env finalChainId chain data =
     (if data = JNull then Inl (null_read ''baseFee'')
      else Inr (JObj
        [(''success'', JBool True),
         (''chainId'', finalChainId),
         (''chain'', js_or chain (JStr ''ethereum'')),
         (''data'', JObj (set_props (spread data)
            [(''chainId'', finalChainId),
             (''chain'', js_or chain (JStr ''ethereum'')),
             (''gasPricesGwei'', gasPricesGwei env data)]))]))"

definition gas_failure :: "json \<Rightarrow> js_error \<Rightarrow> json" where
  "gas_failure chainRequest e =
     (let chain = get_prop chainRequest ''chain'';
          chainId = get_prop chainRequest ''chainId''
      in JObj [(''success'', JBool False),
               (''chainId'', js_or chainId (JStr ''1'')),
               (''chain'', js_or chain (JStr ''ethereum'')),
               (''error'', JStr e)])"

definition gas_try :: "env \<Rightarrow> log \<Rightarrow> json \<Rightarrow> (js_error + json) \<times> log" where
  "gas_try env lg chainRequest =
     (let chain = get_prop chainRequest ''chain'';
          chainId = get_prop chainRequest ''chainId'';
          finalChainId = final_chain_id GAS_SUPPORTED_CHAINS chainId chain
      in then_entry (makeRequest env lg (GAS_BASE_URL @ ''/'' @ to_string finalChainId))
           (gas_entry env finalChainId chain))"

definition gas_item :: "env \<Rightarrow> log \<Rightarrow> json \<Rightarrow> json \<times> log" where
  "gas_item env lg chainRequest =
     try_item (gas_failure chainRequest) (gas_try env lg chainRequest)"

definition gasprice_POST :: "env \<Rightarrow> js_error + json \<Rightarrow> response \<times> log" where
  "gasprice_POST env request_json =
     (let what = ''Failed to process batch gas price requests'' in
      case request_json of
        Inl e \<Rightarrow> (failure_response what e, [])
      | Inr reqBody \<Rightarrow>
          if reqBody = JNull
            then (failure_response what (destructure_null ''chains'' ''body''), [])
          else
            (case get_prop reqBody ''chains'' of
               Some (JArr chainRequests) \<Rightarrow>
                 (case batch_loop (destructure_null ''chain'' ''chainRequest'') (gas_item env)
                         [] [] chainRequests of
                    (Inl e, lg) \<Rightarrow> (failure_response what e, lg)
                  | (Inr results, lg) \<Rightarrow>
                      (json_response 200
                         ([(''success'', JBool True)] @ batch_counts results (length chainRequests)
                            @ [(''timestamp'', JStr (now env))]), lg))
             | _ \<Rightarrow> (error_response 400 ''Chains array is required'', [])))"

subsection \<open>NFT\<close>

definition nft_item_url :: "json \<Rightarrow> json \<Rightarrow> json \<Rightarrow> json \<Rightarrow> string" where
  "nft_item_url address chainIds limit offset =
     NFT_BASE_URL @ ''?address='' @ to_string address @ ''&chainIds='' @ to_string chainIds
       @ ''&limit='' @ to_string limit @ ''&offset='' @ to_string offset"

definition nft_entry :: "json \<Rightarrow> json \<Rightarrow> int \<Rightarrow> int \<Rightarrow> json \<Rightarrow> js_error + json" where
  "nft_entry address chainIds numericLimit numericOffset data =
     (case nft_transform data address chainIds numericLimit numericOffset of
        Inl e \<Rightarrow> Inl e
      | Inr transformedData \<Rightarrow>
          Inr (JObj [(''success'', JBool True),
                     (''address'', address),
                     (''chainIds'', chainIds),
                     (''data'', transformedData)]))"

definition nft_failure :: "json \<Rightarrow> js_error \<Rightarrow> json" where
  "nft_failure nftRequest e =
     (let address = get_prop nftRequest ''address'';
          chainIds = with_default (get_prop nftRequest ''chainIds'') (JStr ''1'')
      in JObj [(''success'', JBool False),
               (''address'', js_or address (JStr ''unknown'')),
               (''chainIds'', js_or (Some chainIds) (JStr ''1'')),
               (''error'', JStr e)])"

definition nft_try :: "env \<Rightarrow> log \<Rightarrow> json \<Rightarrow> (js_error + json) \<times> log" where
  "nft_try env lg nftRequest =
     (let address = get_prop nftRequest ''address'';
          chainIds = with_default (get_prop nftRequest ''chainIds'') (JStr ''1'');
          limit = with_default (get_prop nftRequest ''limit'') (JStr ''50'');
          offset = with_default (get_prop nftRequest ''offset'') (JStr ''0'')
      in if falsy address then (Inl ''Address is required for each request'', lg)
         else if \<not> is_hex_address (to_string (the address))
           then (Inl ''Invalid wallet address format'', lg)
         else if limit_invalid (parseInt (to_string limit))
           then (Inl ''Limit must be a number between 1 and 100'', lg)
         else if offset_invalid (parseInt (to_string offset))
           then (Inl ''Offset must be a non-negative number'', lg)
         else then_entry
                (makeRequest env lg (nft_item_url (the address) chainIds limit offset))
                (nft_entry (the address) chainIds (the (parseInt (to_string limit)))
                   (the (parseInt (to_string offset)))))"

definition nft_item :: "env \<Rightarrow> log \<Rightarrow> json \<Rightarrow> json \<times> log" where
  "nft_item env lg nftRequest =
     try_item (nft_failure nftRequest) (nft_try env lg nftRequest)"

definition nft_POST :: "env \<Rightarrow> js_error + json \<Rightarrow> response \<times> log" where
  "nft_POST env request_json =
     (let what = ''Failed to process batch NFT requests'' in
      case request_json of
        Inl e \<Rightarrow> (failure_response what e, [])
      | Inr reqBody \<Rightarrow>
          if reqBody = JNull
            then (failure_response what (destructure_null ''requests'' ''body''), [])
          else
            (case get_prop reqBody ''requests'' of
               Some (JArr requests) \<Rightarrow>
                 (case batch_loop (destructure_null ''address'' ''nftRequest'') (nft_item env)
                         [] [] requests of
                    (Inl e, lg) \<Rightarrow> (failure_response what e, lg)
                  | (Inr results, lg) \<Rightarrow>
                      (json_response 200
                         ([(''success'', JBool True)] @ batch_counts results (length requests)
                            @ [(''timestamp'', JStr (now env))]), lg))
             | _ \<Rightarrow> (error_response 400 ''Requests array is required'', [])))"

subsection \<open>Portfolio\<close>

text \<open>\<open>action === 'name'\<close>, the comparison of a \<open>case\<close> label.\<close>

definition is_action :: "json option \<Rightarrow> string \<Rightarrow> bool" where
  "is_action action name = (action = Some (JStr name))"

definition portfolio_entry :: "json option \<Rightarrow> json option \<Rightarrow> json \<Rightarrow> json \<Rightarrow> js_error + json" where
  "portfolio_entry action addresses chainId data =
     Inr (JObj (defined_props
       [(''success'', Some (JBool True)),
        (''action'', action),
        (''addresses'', addresses),
        (''chainId'', Some chainId),
        (''data'', Some data)]))"

definition portfolio_failure :: "json \<Rightarrow> js_error \<Rightarrow> json" where
  "portfolio_failure operation e =
     (let action = get_prop operation ''action'';
          addresses = get_prop operation ''addresses'';
          chainId = with_default (get_prop operation ''chainId'') (JStr ''1'')
      in JObj (defined_props
           [(''success'', Some (JBool False)),
            (''action'', action),
            (''addresses'', addresses),
            (''chainId'', Some chainId),
            (''error'', Some (JStr e))]))"

definition portfolio_try :: "env \<Rightarrow> log \<Rightarrow> json \<Rightarrow> (js_error + json) \<times> log" where
  "portfolio_try env lg operation =
     (let action = get_prop operation ''action'';
          addresses = get_prop operation ''addresses'';
          chainId = with_default (get_prop operation ''chainId'') (JStr ''1'');
          fromTimestamp = get_prop operation ''fromTimestamp'';
          toTimestamp = get_prop operation ''toTimestamp'';
          entry = portfolio_entry action addresses chainId
      in if falsy addresses then (Inl ''addresses is required for all operations'', lg)
         else if is_action action ''currentValue'' then
           then_entry
             (makeRequest env lg
                (current_value_url (to_string_opt addresses) (to_string chainId))) entry
         else if is_action action ''profitAndLoss'' then
           (if falsy fromTimestamp \<or> falsy toTimestamp then
              (Inl ''fromTimestamp and toTimestamp are required for profitAndLoss'', lg)
            else then_entry
                   (makeRequest env lg
                      (profit_and_loss_url (to_string_opt addresses) (to_string chainId)
                         (to_string_opt fromTimestamp) (to_string_opt toTimestamp))) entry)
         else if is_action action ''tokenDetails'' then
           then_entry
             (makeRequest env lg (details_url (to_string_opt addresses) (to_string chainId)))
             entry
         else (Inl (''Invalid action: '' @ to_string_opt action), lg))"

definition portfolio_item :: "env \<Rightarrow> log \<Rightarrow> json \<Rightarrow> json \<times> log" where
  "portfolio_item env lg operation =
     try_item (portfolio_failure operation) (portfolio_try env lg operation)"

definition portfolio_POST :: "env \<Rightarrow> js_error + json \<Rightarrow> response \<times> log" where
  "portfolio_POST env request_json =
     (let what = ''Failed to process batch operations'' in
      case request_json of
        Inl e \<Rightarrow> (failure_response what e, [])
      | Inr reqBody \<Rightarrow>
          if reqBody = JNull
            then (failure_response what (destructure_null ''operations'' ''body''), [])
          else
            (case get_prop reqBody ''operations'' of
               Some (JArr operations) \<Rightarrow>
                 (case batch_loop (destructure_null ''action'' ''operation'')
                         (portfolio_item env) [] [] operations of
                    (Inl e, lg) \<Rightarrow> (failure_response what e, lg)
                  | (Inr results, lg) \<Rightarrow>
                      (json_response 200
                         ([(''success'', JBool True)]
                            @ batch_counts results (length operations)), lg))
             | _ \<Rightarrow> (error_response 400 ''Operations array is required'', [])))"

subsection \<open>Traces\<close>

definition trace_entry :: "json option \<Rightarrow> json \<Rightarrow> json option \<Rightarrow> json option \<Rightarrow> json
    \<Rightarrow> js_error + json" where
  "trace_entry action chain blockNumber txHash data =
     Inr (JObj (defined_props
       [(''success'', Some (JBool True)),
        (''action'', action),
        (''chain'', Some chain),
        (''blockNumber'', blockNumber),
        (''txHash'', txHash),
        (''data'', Some data)]))"

definition trace_failure :: "json \<Rightarrow> js_error \<Rightarrow> json" where
  "trace_failure operation e =
     (let action = get_prop operation ''action'';
          chain = with_default (get_prop operation ''chain'') (JStr ''1'');
          blockNumber = get_prop operation ''blockNumber'';
          txHash = get_prop operation ''txHash''
      in JObj (defined_props
           [(''success'', Some (JBool False)),
            (''action'', action),
            (''chain'', Some chain),
            (''blockNumber'', blockNumber),
            (''txHash'', txHash),
            (''error'', Some (JStr e))]))"

definition trace_try :: "env \<Rightarrow> log \<Rightarrow> json \<Rightarrow> (js_error + json) \<times> log" where
  "trace_try env lg operation =
     (let action = get_prop operation ''action'';
          chain = with_default (get_prop operation ''chain'') (JStr ''1'');
          blockNumber = get_prop operation ''blockNumber'';
          txHash = get_prop operation ''txHash'';
          entry = trace_entry action chain blockNumber txHash
      in if is_action action ''syncedInterval'' then
           then_entry (makeRequest env lg (synced_interval_url (to_string chain))) entry
         else if is_action action ''blockTrace'' then
           (if falsy blockNumber then (Inl ''blockNumber is required for blockTrace'', lg)
            else then_entry
                   (makeRequest env lg
                      (block_trace_url (to_string chain) (to_string_opt blockNumber))) entry)
         else if is_action action ''txTrace'' then
           (if falsy blockNumber \<or> falsy txHash then
              (Inl ''blockNumber and txHash are required for txTrace'', lg)
            else then_entry
                   (makeRequest env lg
                      (tx_trace_url (to_string chain) (to_string_opt blockNumber)
                         (to_string_opt txHash))) entry)
         else (Inl (''Invalid action: '' @ to_string_opt action), lg))"

definition trace_item :: "env \<Rightarrow> log \<Rightarrow> json \<Rightarrow> json \<times> log" where
  "trace_item env lg operation =
     try_item (trace_failure operation) (trace_try env lg operation)"

definition trace_POST :: "env \<Rightarrow> js_error + json \<Rightarrow> response \<times> log" where
  "trace_POST env request_json =
     (let what = ''Failed to process batch operations'' in
      case request_json of
        Inl e \<Rightarrow> (failure_response what e, [])
      | Inr reqBody \<Rightarrow>
          if reqBody = JNull
            then (failure_response what (destructure_null ''operations'' ''body''), [])
          else
            (case get_prop reqBody ''operations'' of
               Some (JArr operations) \<Rightarrow>
                 (case batch_loop (destructure_null ''action'' ''operation'')
                         (trace_item env) [] [] operations of
                    (Inl e, lg) \<Rightarrow> (failure_response what e, lg)
                  | (Inr results, lg) \<Rightarrow>
                      (json_response 200
                         ([(''success'', JBool True)]
                            @ batch_counts results (length operations)), lg))
             | _ \<Rightarrow> (error_response 400 ''Operations array is required'', [])))"

subsection \<open>Domains\<close>

text \<open>\<open>domain.includes('.')\<close> for a truthy \<open>domain\<close>: a string has the character, an array
  has the element; the other values have no method \<open>includes\<close>.\<close>

definition includes_dot :: "json \<Rightarrow> js_error + bool" where
  "includes_dot domain =
     (case domain of
        JStr s \<Rightarrow> Inr (CHR ''.'' \<in> set s)
      | JArr xs \<Rightarrow> Inr (JStr ''.'' \<in> set xs)
      | _ \<Rightarrow> Inl ''domain.includes is not a function'')"

definition domain_entry :: "json option \<Rightarrow> json option \<Rightarrow> json option \<Rightarrow> json
    \<Rightarrow> js_error + json" where
  "domain_entry action domain address data =
     Inr (JObj (defined_props [(''success'', Some (JBool True)), (''action'', action)]
                  @ when_truthy ''domain'' domain @ when_truthy ''address'' address
                  @ [(''data'', data)]))"

definition domain_failure :: "json \<Rightarrow> js_error \<Rightarrow> json" where
  "domain_failure operation e =
     (let action = get_prop operation ''action'';
          domain = get_prop operation ''domain'';
          address = get_prop operation ''address''
      in JObj (defined_props [(''success'', Some (JBool False)), (''action'', action)]
                 @ when_truthy ''domain'' domain @ when_truthy ''address'' address
                 @ [(''error'', JStr e)]))"

definition domain_try :: "env \<Rightarrow> log \<Rightarrow> json \<Rightarrow> (js_error + json) \<times> log" where
  "domain_try env lg operation =
     (let action = get_prop operation ''action'';
          domain = get_prop operation ''domain'';
          address = get_prop operation ''address'';
          entry = domain_entry action domain address
      in if is_action action ''lookup'' then
           (if falsy domain then (Inl ''Domain is required for lookup action'', lg)
            else (case includes_dot (the domain) of
                    Inl e \<Rightarrow> (Inl e, lg)
                  | Inr has_dot \<Rightarrow>
                      if \<not> has_dot then (Inl ''Invalid domain format'', lg)
                      else then_entry
                             (makeRequest env lg (lookup_url (to_string (the domain))))
                             entry))
         else if is_action action ''reverseLookup'' then
           (if falsy address then (Inl ''Address is required for reverseLookup action'', lg)
            else if \<not> is_hex_address (to_string (the address))
              then (Inl ''Invalid wallet address format'', lg)
            else then_entry
                   (makeRequest env lg (reverse_lookup_url (to_string (the address))))
                   entry)
         else if is_action action ''providersData'' then
           then_entry (makeRequest env lg providers_url) entry
         else (Inl (''Invalid action: '' @ to_string_opt action), lg))"

definition domain_item :: "env \<Rightarrow> log \<Rightarrow> json \<Rightarrow> json \<times> log" where
  "domain_item env lg operation =
     try_item (domain_failure operation) (domain_try env lg operation)"

definition domain_POST :: "env \<Rightarrow> js_error + json \<Rightarrow> response \<times> log" where
  "domain_POST env request_json =
     (let what = ''Failed to process batch domain operations'' in
      case request_json of
        Inl e \<Rightarrow> (failure_response what e, [])
      | Inr reqBody \<Rightarrow>
          if reqBody = JNull
            then (failure_response what (destructure_null ''operations'' ''body''), [])
          else
            (case get_prop reqBody ''operations'' of
               Some (JArr operations) \<Rightarrow>
                 (case batch_loop (destructure_null ''action'' ''operation'')
                         (domain_item env) [] [] operations of
                    (Inl e, lg) \<Rightarrow> (failure_response what e, lg)
                  | (Inr results, lg) \<Rightarrow>
                      (json_response 200
                         ([(''success'', JBool True)]
                            @ batch_counts results (length operations)
                            @ [(''timestamp'', JStr (now env))]), lg))
             | _ \<Rightarrow> (error_response 400 ''Operations array is required'', [])))"

subsection \<open>Tokens\<close>

text \<open>\<open>addresses.split(',')\<close> for a truthy \<open>addresses\<close>, followed by the check of every
  trimmed part: only a string has the method \<open>split\<close>.\<close>

definition valid_addresses_json :: "json \<Rightarrow> js_error + bool" where
  "valid_addresses_json addresses =
     (case addresses of
        JStr s \<Rightarrow> Inr (valid_address_list s)
      | _ \<Rightarrow> Inl ''addresses.split is not a function'')"

definition token_entry :: "json option \<Rightarrow> json \<Rightarrow> json option \<Rightarrow> json option \<Rightarrow> json option
    \<Rightarrow> json \<Rightarrow> json \<Rightarrow> js_error + json" where
  "token_entry action finalChainId chain query addresses provider data =
     Inr (JObj (defined_props
                  [(''success'', Some (JBool True)),
                   (''action'', action),
                   (''chainId'', Some finalChainId),
                   (''chain'', Some (js_or chain (JStr ''ethereum'')))]
                @ when_truthy ''query'' query @ when_truthy ''addresses'' addresses
                @ when_truthy ''provider'' (Some provider)
                @ [(''data'', data)]))"

definition token_failure :: "json \<Rightarrow> js_error \<Rightarrow> json" where
  "token_failure operation e =
     (let action = get_prop operation ''action'';
          chain = get_prop operation ''chain'';
          reqChainId = get_prop operation ''chainId''
      in JObj (defined_props
           [(''success'', Some (JBool False)),
            (''action'', action),
            (''chainId'', Some (js_or reqChainId (JStr ''1''))),
            (''chain'', Some (js_or chain (JStr ''ethereum''))),
            (''error'', Some (JStr e))]))"

definition token_try :: "env \<Rightarrow> log \<Rightarrow> json \<Rightarrow> (js_error + json) \<times> log" where
  "token_try env lg operation =
     (let action = get_prop operation ''action'';
          chain = get_prop operation ''chain'';
          reqChainId = get_prop operation ''chainId'';
          query = get_prop operation ''query'';
          addresses = get_prop operation ''addresses'';
          limit = with_default (get_prop operation ''limit'') (JStr ''10'');
          ignoreListed = with_default (get_prop operation ''ignoreListed'') (JStr ''false'');
          provider = with_default (get_prop operation ''provider'') (JStr ''1inch'');
          finalChainId = final_chain_id TOKEN_SUPPORTED_CHAINS reqChainId chain;
          entry = token_entry action finalChainId chain query addresses provider
      in if is_action action ''search'' then
           (if falsy query then (Inl ''Query is required for search action'', lg)
            else then_entry
                   (makeRequest_token env lg
                      (token_search_url (to_string finalChainId) (to_string_opt query)
                         (to_string limit) (to_string ignoreListed))) entry)
         else if is_action action ''custom'' then
           (if falsy addresses then (Inl ''Addresses are required for custom action'', lg)
            else (case valid_addresses_json (the addresses) of
                    Inl e \<Rightarrow> (Inl e, lg)
                  | Inr validAddresses \<Rightarrow>
                      if \<not> validAddresses then (Inl ''Invalid token address format'', lg)
                      else then_entry
                             (makeRequest_token env lg
                                (token_custom_url (to_string finalChainId)
                                   (to_string (the addresses)))) entry))
         else if is_action action ''all'' then
           then_entry
             (makeRequest_token env lg
                (token_all_url (to_string finalChainId) (to_string provider))) entry
         else if is_action action ''tokenList'' then
           then_entry
             (makeRequest_token env lg
                (token_list_url (to_string finalChainId) (to_string provider))) entry
         else (Inl (''Invalid action: '' @ to_string_opt action), lg))"

definition token_item :: "env \<Rightarrow> log \<Rightarrow> json \<Rightarrow> json \<times> log" where
  "token_item env lg operation =
     try_item (token_failure operation) (token_try env lg operation)"

definition token_POST :: "env \<Rightarrow> js_error + json \<Rightarrow> response \<times> log" where
  "token_POST env request_json =
     (let what = ''Failed to process batch token operations'' in
      case request_json of
        Inl e \<Rightarrow> (failure_response what e, [])
      | Inr reqBody \<Rightarrow>
          if reqBody = JNull
            then (failure_response what (destructure_null ''operations'' ''body''), [])
          else
            (case get_prop reqBody ''operations'' of
               Some (JArr operations) \<Rightarrow>
                 (case batch_loop (destructure_null ''action'' ''operation'')
                         (token_item env) [] [] operations of
                    (Inl e, lg) \<Rightarrow> (failure_response what e, lg)
                  | (Inr results, lg) \<Rightarrow>
                      (json_response 200
                         ([(''success'', JBool True)]
                            @ batch_counts results (length operations)
                            @ [(''timestamp'', JStr (now env))]), lg))
             | _ \<Rightarrow> (error_response 400 ''Operations array is required'', [])))"

subsection \<open>Spot prices\<close>

text \<open>The \<open>POST\<close> handler of the spot price route has two actions: \<open>requested\<close> is a single
  request, \<open>batch\<close> is the batch.\<close>

definition is_array :: "json option \<Rightarrow> bool" where
  "is_array v = (case v of Some (JArr xs) \<Rightarrow> True | _ \<Rightarrow> False)"

definition spot_entry :: "env \<Rightarrow> json \<Rightarrow> json option \<Rightarrow> json \<Rightarrow> js_error + json" where
  "spot_entry env finalChainId chain data =
     (if data = JNull then Inl entries_of_null
      else Inr (JObj
        [(''success'', JBool True),
         (''chainId'', finalChainId),
         (''chain'', js_or chain (JStr ''ethereum'')),
         (''data'', data),
         (''formattedPrices'', JObj (format_prices env data))]))"

definition spot_failure :: "json \<Rightarrow> js_error \<Rightarrow> json" where
  "spot_failure chainRequest e =
     (let chain = get_prop chainRequest ''chain'';
          reqChainId = get_prop chainRequest ''chainId''
      in JObj [(''success'', JBool False),
               (''chainId'', js_or reqChainId (JStr ''1'')),
               (''chain'', js_or chain (JStr ''ethereum'')),
               (''error'', JStr e)])"

definition spot_try :: "env \<Rightarrow> log \<Rightarrow> json \<Rightarrow> (js_error + json) \<times> log" where
  "spot_try env lg chainRequest =
     (let chain = get_prop chainRequest ''chain'';
          reqChainId = get_prop chainRequest ''chainId'';
          reqTokens = get_prop chainRequest ''tokens'';
          addresses = get_prop chainRequest ''addresses'';
          finalChainId = final_chain_id SPOT_SUPPORTED_CHAINS reqChainId chain;
          entry = spot_entry env finalChainId chain
      in if is_array reqTokens then
           then_entry
             (makeRequest_spot env lg (SPOT_BASE_URL @ ''/'' @ to_string finalChainId) ''POST''
                (Some (JObj [(''tokens'', the reqTokens)]))) entry
         else if \<not> falsy addresses then
           then_entry
             (makeRequest_spot env lg
                (SPOT_BASE_URL @ ''/'' @ to_string finalChainId @ ''/''
                   @ to_string_opt addresses) ''GET'' None) entry
         else
           then_entry
             (makeRequest_spot env lg (SPOT_BASE_URL @ ''/'' @ to_string finalChainId) ''GET''
                None) entry)"

definition spot_item :: "env \<Rightarrow> log \<Rightarrow> json \<Rightarrow> json \<times> log" where
  "spot_item env lg chainRequest =
     try_item (spot_failure chainRequest) (spot_try env lg chainRequest)"

definition spot_requested :: "env \<Rightarrow> json \<Rightarrow> json \<Rightarrow> json list \<Rightarrow> response \<times> log" where
  "spot_requested env action chainId tokens =
     (if \<not> list_all (\<lambda>token. is_hex_address (to_string token)) tokens then
        (error_response 400 ''Invalid token address format'', [])
      else respond ''Failed to process spot price request''
             (\<lambda>data. if data = JNull then Inl entries_of_null
                      else Inr (json_response 200
                        [(''success'', JBool True),
                         (''action'', action),
                         (''chainId'', chainId),
                         (''requestedTokens'', JArr tokens),
                         (''data'', JObj (set_props [] (spread data))),
                         (''formattedPrices'', JObj (format_prices env data)),
                         (''timestamp'', JStr (now env))]))
             (makeRequest_spot env [] (SPOT_BASE_URL @ ''/'' @ to_string chainId) ''POST''
                (Some (JObj [(''tokens'', JArr tokens)]))))"

definition spot_POST :: "env \<Rightarrow> js_error + json \<Rightarrow> response \<times> log" where
  "spot_POST env request_json =
     (let what = ''Failed to process spot price request'' in
      case request_json of
        Inl e \<Rightarrow> (failure_response what e, [])
      | Inr reqBody \<Rightarrow>
          if reqBody = JNull
            then (failure_response what (destructure_null ''action'' ''body''), [])
          else
            (let action = get_prop reqBody ''action'';
                 chainId = with_default (get_prop reqBody ''chainId'') (JStr ''1'')
             in if is_action action ''requested'' then
                  (case get_prop reqBody ''tokens'' of
                     Some (JArr tokens) \<Rightarrow> spot_requested env (the action) chainId tokens
                   | _ \<Rightarrow>
                       (error_response 400 ''Tokens array is required for requested action'', []))
                else if is_action action ''batch'' then
                  (case get_prop reqBody ''chains'' of
                     Some (JArr chainRequests) \<Rightarrow>
                       (case batch_loop (destructure_null ''chain'' ''chainRequest'')
                               (spot_item env) [] [] chainRequests of
                          (Inl e, lg) \<Rightarrow> (failure_response what e, lg)
                        | (Inr results, lg) \<Rightarrow>
                            (json_response 200
                               ([(''success'', JBool True), (''action'', the action)]
                                  @ batch_counts results (length chainRequests)
                                  @ [(''timestamp'', JStr (now env))]), lg))
                   | _ \<Rightarrow> (error_response 400 ''Chains array is required for batch action'', []))
                else (error_response 400 ''Invalid action. Use: requested or batch'', [])))"

section \<open>The wallet provider module\<close>

text \<open>
  The module \<open>provider.tsx\<close> reads \<open>NEXT_PUBLIC_WALLETCONNECT_PROJECT_ID\<close> when it is loaded,
  throws when the variable is not set or empty, and otherwise passes the configuration
  below to \<open>getDefaultConfig\<close>. Loading the module gives the error thrown or that
  configuration; the chains are given by the names they are imported under.
\<close>

record wallet_config =
  appName :: string
  projectId :: string
  chainNames :: "string list"
  ssr :: bool

definition provider_module :: "string option \<Rightarrow> js_error + wallet_config" where
  "provider_module WALLETCONNECT_ID =
     (if missing WALLETCONNECT_ID then Inl ''Please enter the project id in .env.local''
      else Inr \<lparr>appName = ''Cardano 1inch Fusion+'',
                projectId = the WALLETCONNECT_ID,
                chainNames =
                  [''mainnet'', ''sepolia'', ''polygon'', ''polygonMumbai'', ''arbitrum'',
                   ''arbitrumSepolia'', ''optimism'', ''optimismSepolia'', ''base'',
                   ''baseSepolia'', ''bsc'', ''bscTestnet'', ''avalanche'', ''avalancheFuji''],
                ssr = False\<rparr>)"

section \<open>Notions used in the statements\<close>

text \<open>\<open>upstream_failure env lg res\<close>: one of the requests of the log \<open>lg\<close> was answered by
  the upstream API with the response \<open>res\<close>, whose status is not a success status
  (\<open>response.ok\<close> is false).\<close>

definition upstream_failure :: "env \<Rightarrow> log \<Rightarrow> fetch_response \<Rightarrow> bool" where
  "upstream_failure env lg res =
     list_ex (\<lambda>i. upstream env (take i lg) (lg ! i) = Inr res \<and> \<not> res_ok res) [0..<length lg]"

text \<open>\<open>reports_failure env what r\<close>: whenever a request of the handler outcome \<open>r\<close> met
  an upstream failure, the outcome is the response of the \<open>catch\<close> block, status 500, whose
  \<open>details\<close> are the message \<open>makeRequest\<close> throws for that failure.\<close>

definition reports_failure :: "env \<Rightarrow> string \<Rightarrow> response \<times> log \<Rightarrow> bool" where
  "reports_failure env what r =
     (\<forall>res. upstream_failure env (snd r) res \<longrightarrow>
        fst r = failure_response what (api_request_failed res))"

text \<open>\<open>rejected r\<close>: the outcome \<open>r\<close> is a response of status 400 with an error message,
  and no upstream request was made.\<close>

definition rejected :: "response \<times> log \<Rightarrow> bool" where
  "rejected r = (\<exists>msg. msg \<noteq> [] \<and> r = (error_response 400 msg, []))"

text \<open>The case labels of the \<open>switch (action)\<close> of each \<open>GET\<close> handler.\<close>

definition portfolio_actions :: "string list" where
  "portfolio_actions = [''currentValue'', ''profitAndLoss'', ''tokenDetails'', ''all'']"

definition trace_actions :: "string list" where
  "trace_actions = [''syncedInterval'', ''blockTrace'', ''txTrace'']"

definition domain_actions :: "string list" where
  "domain_actions = [''lookup'', ''reverseLookup'', ''providersData'']"

definition token_actions :: "string list" where
  "token_actions = [''search'', ''custom'', ''all'', ''tokenList'']"

definition spot_actions :: "string list" where
  "spot_actions = [''whitelisted'', ''addresses'']"

text \<open>\<open>occurs_in a s\<close>: the text \<open>a\<close> occurs in \<open>s\<close>. A message names a list of actions when
  each of them occurs in it.\<close>

fun occurs_in :: "string \<Rightarrow> string \<Rightarrow> bool" where
  "occurs_in a [] = (a = [])"
| "occurs_in a (c # cs) = (take (length a) (c # cs) = a \<or> occurs_in a cs)"

definition names_actions :: "string list \<Rightarrow> string \<Rightarrow> bool" where
  "names_actions actions msg = list_all (\<lambda>a. occurs_in a msg) actions"

text \<open>\<open>rejected_naming actions r\<close>: the outcome \<open>r\<close> is a response of status 400 whose
  message names the actions, and no upstream request was made.\<close>

definition rejected_naming :: "string list \<Rightarrow> response \<times> log \<Rightarrow> bool" where
  "rejected_naming actions r =
     (\<exists>msg. r = (error_response 400 msg, []) \<and> names_actions actions msg)"

text \<open>
  For the batch handlers: \<open>log_after process lg items\<close> is the log of upstream requests
  once \<open>items\<close> have been processed in order, starting from the log \<open>lg\<close>, and
  \<open>batch_results process lg items\<close> are the entries pushed for them.
\<close>

fun log_after :: "(log \<Rightarrow> json \<Rightarrow> json \<times> log) \<Rightarrow> log \<Rightarrow> json list \<Rightarrow> log" where
  "log_after process lg [] = lg"
| "log_after process lg (item # items) = log_after process (snd (process lg item)) items"

fun batch_results :: "(log \<Rightarrow> json \<Rightarrow> json \<times> log) \<Rightarrow> log \<Rightarrow> json list \<Rightarrow> json list" where
  "batch_results process lg [] = []"
| "batch_results process lg (item # items) =
     fst (process lg item) # batch_results process (snd (process lg item)) items"

text \<open>
  \<open>records outcome entry\<close>: the entry records the outcome of a \<open>try\<close> block. When the block
  threw an error with message \<open>e\<close>, the entry has \<open>success: false\<close> and \<open>error: e\<close>; when it
  completed, the entry is the one the block built, and it has \<open>success: true\<close>.
\<close>

definition records :: "(js_error + json) \<times> log \<Rightarrow> json \<Rightarrow> bool" where
  "records outcome entry =
     (case fst outcome of
        Inl e \<Rightarrow> get_prop entry ''success'' = Some (JBool False)
                 \<and> get_prop entry ''error'' = Some (JStr e)
      | Inr built \<Rightarrow> entry = built \<and> get_prop entry ''success'' = Some (JBool True))"

text \<open>
  \<open>batch_entries attempt process items results\<close>: there is one entry for each item, and
  entry \<open>i\<close> records the outcome of the \<open>try\<close> block \<open>attempt\<close> for item \<open>i\<close>, run after the
  items before it have been processed.
\<close>

definition batch_entries :: "(log \<Rightarrow> json \<Rightarrow> (js_error + json) \<times> log)
    \<Rightarrow> (log \<Rightarrow> json \<Rightarrow> json \<times> log) \<Rightarrow> json list \<Rightarrow> json list \<Rightarrow> bool" where
  "batch_entries attempt process items results =
     (length results = length items
      \<and> list_all (\<lambda>i. records (attempt (log_after process [] (take i items)) (items ! i))
                         (results ! i)) [0..<length items])"

text \<open>\<open>batch_answer attempt process items resp\<close>: the response has status 200 and its
  \<open>results\<close> are the entries of the items.\<close>

definition batch_answer :: "(log \<Rightarrow> json \<Rightarrow> (js_error + json) \<times> log)
    \<Rightarrow> (log \<Rightarrow> json \<Rightarrow> json \<times> log) \<Rightarrow> json list \<Rightarrow> response \<Rightarrow> bool" where
  "batch_answer attempt process items resp =
     (status resp = 200
      \<and> (case get_prop (body resp) ''results'' of
            Some (JArr results) \<Rightarrow> batch_entries attempt process items results
          | _ \<Rightarrow> False))"

text \<open>The number of entries with \<open>success: b\<close>.\<close>

definition count_success :: "bool \<Rightarrow> json list \<Rightarrow> nat" where
  "count_success b results =
     length (filter (\<lambda>r. get_prop r ''success'' = Some (JBool b)) results)"

text \<open>
  \<open>batch_summary items b\<close>: in the body \<open>b\<close> of a batch response, \<open>total\<close> is the number of
  items, \<open>successful\<close> and \<open>failed\<close> count the entries of \<open>results\<close> with \<open>success: true\<close> and
  with \<open>success: false\<close>, the two add up to \<open>total\<close>, and \<open>success\<close> is \<open>true\<close>.
\<close>

definition batch_summary :: "json list \<Rightarrow> json \<Rightarrow> bool" where
  "batch_summary items b =
     (case get_prop b ''results'' of
        Some (JArr results) \<Rightarrow>
          get_prop b ''total'' = Some (JNum (int (length items)))
          \<and> get_prop b ''successful'' = Some (JNum (int (count_success True results)))
          \<and> get_prop b ''failed'' = Some (JNum (int (count_success False results)))
          \<and> count_success True results + count_success False results = length items
          \<and> get_prop b ''success'' = Some (JBool True)
      | _ \<Rightarrow> False)"

text \<open>\<open>builds_success r\<close>: when the outcome \<open>r\<close> of a \<open>try\<close> block is an entry, the entry has
  \<open>success: true\<close>.\<close>

definition builds_success :: "(js_error + json) \<times> log \<Rightarrow> bool" where
  "builds_success r =
     (case fst r of Inl e \<Rightarrow> True | Inr entry \<Rightarrow> get_prop entry ''success'' = Some (JBool True))"

section \<open>Example environments\<close>

text \<open>Concrete upstream responses and environments, at which the theorems below are
  instantiated.\<close>

definition ok_response :: "json \<Rightarrow> fetch_response" where
  "ok_response data =
     \<lparr>res_status = 200, res_statusText = ''OK'', res_text = [], res_json = Inr data\<rparr>"

definition failed_response :: "nat \<Rightarrow> string \<Rightarrow> string \<Rightarrow> fetch_response" where
  "failed_response st statusText text =
     \<lparr>res_status = st, res_statusText = statusText, res_text = text,
      res_json = Inl ''Unexpected end of JSON input''\<rparr>"

definition example_env :: "string option \<Rightarrow> fetch_response \<Rightarrow> env" where
  "example_env key res =
     \<lparr>ONEINCH_API_KEY = key, upstream = (\<lambda>lg req. Inr res),
      now = ''2025-01-01T00:00:00.000Z'', div_toFixed = (\<lambda>x e d. ''0.00'')\<rparr>"

text \<open>An upstream API that answers by the URL of the request.\<close>

definition example_env_by_url :: "(string \<times> fetch_response) list \<Rightarrow> fetch_response \<Rightarrow> env" where
  "example_env_by_url answers other =
     \<lparr>ONEINCH_API_KEY = Some ''key'',
      upstream = (\<lambda>lg req. Inr (case map_of answers (req_url req) of
                                    None \<Rightarrow> other | Some res \<Rightarrow> res)),
      now = ''2025-01-01T00:00:00.000Z'', div_toFixed = (\<lambda>x e d. ''0.00'')\<rparr>"

definition example_batch_env :: env where
  "example_batch_env =
     example_env_by_url
       [(''https://api.1inch.dev/gas-price/v1.4/137'', ok_response (JObj []))]
       (failed_response 503 ''Service Unavailable'' ''busy'')"

section \<open>Upstream requests and failures\<close>

lemma upstream_failure_Nil [simp]: "\<not> upstream_failure env [] res"
  by (simp add: upstream_failure_def)

lemma upstream_failure_snoc:
  "upstream_failure env (lg @ [req]) res
     = (upstream_failure env lg res \<or> (upstream env lg req = Inr res \<and> \<not> res_ok res))"
proof -
  have "\<And>i. i < length lg \<Longrightarrow> take i (lg @ [req]) = take i lg \<and> (lg @ [req]) ! i = lg ! i"
    by (simp add: nth_append)
  then show ?thesis
    by (auto simp: upstream_failure_def list_ex_iff less_Suc_eq)
qed

lemma upstream_failure_single:
  "upstream_failure env [req] res = (upstream env [] req = Inr res \<and> \<not> res_ok res)"
  using upstream_failure_snoc [of env "[]" req res] by simp

lemma snd_makeRequest [simp]: "snd (makeRequest env lg url) = lg @ [get_request env url]"
  by (simp add: makeRequest_def)

lemma snd_makeRequest_spot [simp]:
  "snd (makeRequest_spot env lg url m b) = lg @ [spot_request env url m b]"
  by (simp add: makeRequest_spot_def)

lemma snd_makeRequest_token [simp]:
  "snd (makeRequest_token env lg url) = lg @ [token_request env url]"
  by (simp add: makeRequest_token_def)


lemma makeRequest_failure:
  assumes "upstream_failure env (snd (makeRequest env lg url)) res"
    and "\<not> upstream_failure env lg res"
  shows "fst (makeRequest env lg url) = Inl (api_request_failed res)"
  using assms
  by (auto simp: makeRequest_def upstream_failure_snoc read_response_def)

lemma makeRequest_Inr:
  assumes "fst (makeRequest env lg url) = Inr data"
  shows "upstream_failure env (snd (makeRequest env lg url)) res = upstream_failure env lg res"
  using assms
  by (auto simp: makeRequest_def upstream_failure_snoc read_response_def split: sum.splits)

lemma makeRequest_spot_failure:
  assumes "upstream_failure env (snd (makeRequest_spot env [] url m b)) res"
  shows "fst (makeRequest_spot env [] url m b) = Inl (api_request_failed res)"
  using assms
  by (auto simp: makeRequest_spot_def upstream_failure_single read_response_def)

lemma makeRequest_token_failure:
  assumes "upstream_failure env (snd (makeRequest_token env [] url)) res"
  shows "fst (makeRequest_token env [] url) = Inl (api_request_failed res)"
  using assms
  by (auto simp: makeRequest_token_def upstream_failure_single read_response_def)

lemma respond_Inl: "fst r = Inl e \<Longrightarrow> fst (respond what k r) = failure_response what e"
  by (cases r) (simp add: respond_def)

lemma respond_Inr:
  "fst r = Inr data \<Longrightarrow> k data = Inr resp \<Longrightarrow> fst (respond what k r) = resp"
  by (cases r) (simp add: respond_def)

lemma snd_respond [simp]: "snd (respond what k r) = snd r"
  by (cases r) (auto simp: respond_def split: sum.splits)

lemma status_failure_response [simp]: "status (failure_response what e) = 500"
  by (simp add: failure_response_def json_response_def)

lemma status_error_response [simp]: "status (error_response st msg) = st"
  by (simp add: error_response_def json_response_def)

lemma status_json_response [simp]: "status (json_response st fs) = st"
  by (simp add: json_response_def)

lemma body_json_response [simp]: "body (json_response st fs) = JObj fs"
  by (simp add: json_response_def)


section \<open>Properties of the NFT route\<close>














section \<open>Properties of the wallet history route\<close>

lemma history_GET_missing:
  assumes "missing (param searchParams ''address'')"
  shows "history_GET env searchParams = (error_response 400 ''wallet address is Required'', [])"
  using assms by (simp add: history_GET_def Let_def)

lemma history_GET_requests:
  assumes "\<not> missing (param searchParams ''address'')"
  shows "snd (history_GET env searchParams)
       = [history_request env (history_url (the (param searchParams ''address''))
            (or_default (param searchParams ''limit'') ''10''))]"
  using assms
  by (simp add: history_GET_def Let_def split: sum.split)

lemma history_GET_failure:
  "\<forall>res. upstream_failure env (snd (history_GET env searchParams)) res \<longrightarrow>
     fst (history_GET env searchParams)
       = (if res_status res = 401 then error_response 401 ''Invalid API key''
          else if res_status res = 429 then error_response 429 ''Rate limit exceeded''
          else failure_response ''Failed to fetch wallet transactions''
                 (''1inch API error: '' @ decimal_of_nat (res_status res) @ '' ''
                    @ res_statusText res))"
proof (cases "missing (param searchParams ''address'')")
  case True
  then show ?thesis by (simp add: history_GET_missing)
next
  case False
  let ?req = "history_request env (history_url (the (param searchParams ''address''))
            (or_default (param searchParams ''limit'') ''10''))"
  show ?thesis
  proof (intro allI impI)
    fix res
    assume "upstream_failure env (snd (history_GET env searchParams)) res"
    then have u: "upstream env [] ?req = Inr res" and n: "\<not> res_ok res"
      by (simp_all add: history_GET_requests [OF False] upstream_failure_single)
    from False u n show "fst (history_GET env searchParams)
       = (if res_status res = 401 then error_response 401 ''Invalid API key''
          else if res_status res = 429 then error_response 429 ''Rate limit exceeded''
          else failure_response ''Failed to fetch wallet transactions''
                 (''1inch API error: '' @ decimal_of_nat (res_status res) @ '' ''
                    @ res_statusText res))"
      by (simp add: history_GET_def Let_def)
  qed
qed

text \<open>
  Claim C2. The claim says that the upstream URL of the wallet history handler carries
  the \<open>chainId\<close> parameter of the client. The handler reads that parameter, and echoes it
  in its response, but the URL it fetches always says \<open>chainId=1\<close>: here for a request
  with \<open>chainId=137\<close>.
\<close>

theorem history_GET_url_ignores_chainId:
  "map req_url (snd (history_GET env
      [(''address'', ''0x1111111111111111111111111111111111111111''),
       (''chainId'', ''137''), (''limit'', ''5'')]))
   = [''https://api.1inch.dev/history/v2.0/history/0x1111111111111111111111111111111111111111/events?chainId=1&limit=5'']"
proof -
  let ?sp = "[(''address'', ''0x1111111111111111111111111111111111111111''),
       (''chainId'', ''137''), (''limit'', ''5'')]"
  have m: "\<not> missing (param ?sp ''address'')" by code_simp
  have a: "the (param ?sp ''address'') = ''0x1111111111111111111111111111111111111111''"
    by code_simp
  have l: "or_default (param ?sp ''limit'') ''10'' = ''5''" by code_simp
  have u: "history_url ''0x1111111111111111111111111111111111111111'' ''5''
    = ''https://api.1inch.dev/history/v2.0/history/0x1111111111111111111111111111111111111111/events?chainId=1&limit=5''"
    by code_simp
  show ?thesis
    unfolding history_GET_requests [OF m] a l u by (simp add: history_request_def)
qed

section \<open>Upstream failures of single requests\<close>

lemma reports_failure_none [simp]: "reports_failure env what (resp, [])"
  by (simp add: reports_failure_def)

lemma reports_failure_makeRequest [simp]:
  "reports_failure env what (respond what k (makeRequest env [] url))"
  unfolding reports_failure_def
proof (intro allI impI)
  fix res
  assume "upstream_failure env (snd (respond what k (makeRequest env [] url))) res"
  then have "upstream_failure env (snd (makeRequest env [] url)) res" by simp
  from makeRequest_failure [OF this] show
    "fst (respond what k (makeRequest env [] url)) = failure_response what (api_request_failed res)"
    by (simp add: respond_Inl)
qed

lemma reports_failure_makeRequest_spot [simp]:
  "reports_failure env what (respond what k (makeRequest_spot env [] url m b))"
  unfolding reports_failure_def
proof (intro allI impI)
  fix res
  assume "upstream_failure env (snd (respond what k (makeRequest_spot env [] url m b))) res"
  then have "upstream_failure env (snd (makeRequest_spot env [] url m b)) res"
    by (simp only: snd_respond)
  from makeRequest_spot_failure [OF this] show
    "fst (respond what k (makeRequest_spot env [] url m b))
       = failure_response what (api_request_failed res)"
    by (simp add: respond_Inl)
qed

lemma reports_failure_makeRequest_token [simp]:
  "reports_failure env what (respond what k (makeRequest_token env [] url))"
  unfolding reports_failure_def
proof (intro allI impI)
  fix res
  assume "upstream_failure env (snd (respond what k (makeRequest_token env [] url))) res"
  then have "upstream_failure env (snd (makeRequest_token env [] url)) res"
    by (simp only: snd_respond)
  from makeRequest_token_failure [OF this] show
    "fst (respond what k (makeRequest_token env [] url))
       = failure_response what (api_request_failed res)"
    by (simp add: respond_Inl)
qed

lemma portfolio_all_unfold:
  "portfolio_all env a c f t =
     (let r1 = makeRequest env [] (current_value_url a c);
          r2 = makeRequest env (snd r1) (details_url a c);
          r3 = makeRequest env (snd r2) (profit_and_loss_url a c (the f) (the t))
      in case fst r1 of
           Inl e \<Rightarrow> (Inl e, snd r1)
         | Inr currentValue \<Rightarrow>
             (case fst r2 of
                Inl e \<Rightarrow> (Inl e, snd r2)
              | Inr tokenDetails \<Rightarrow>
                  if \<not> missing f \<and> \<not> missing t then
                    (case fst r3 of
                       Inl e \<Rightarrow> (Inl e, snd r3)
                     | Inr profitAndLoss \<Rightarrow>
                         (Inr (JObj [(''currentValue'', currentValue),
                                     (''tokenDetails'', tokenDetails),
                                     (''profitAndLoss'', profitAndLoss)]), snd r3))
                  else (Inr (JObj [(''currentValue'', currentValue),
                                   (''tokenDetails'', tokenDetails),
                                   (''profitAndLoss'', JNull)]), snd r2)))"
  by (simp add: portfolio_all_def makeRequest_def Let_def split: prod.splits sum.splits)

lemma portfolio_all_failure:
  assumes "upstream_failure env (snd (portfolio_all env a c f t)) res"
  shows "fst (portfolio_all env a c f t) = Inl (api_request_failed res)"
proof -
  let ?r1 = "makeRequest env [] (current_value_url a c)"
  let ?r2 = "makeRequest env (snd ?r1) (details_url a c)"
  let ?r3 = "makeRequest env (snd ?r2) (profit_and_loss_url a c (the f) (the t))"
  note u = portfolio_all_unfold Let_def
  note [simp del] = snd_makeRequest
  show ?thesis
  proof (cases "fst ?r1")
    case (Inl e)
    with assms have "upstream_failure env (snd ?r1) res"
      by (simp add: u)
    from makeRequest_failure [OF this] Inl show ?thesis
      by (simp add: u)
  next
    case r1: (Inr currentValue)
    have n1: "\<not> upstream_failure env (snd ?r1) res"
      by (simp add: makeRequest_Inr [OF r1])
    show ?thesis
    proof (cases "fst ?r2")
      case (Inl e)
      with assms r1 have "upstream_failure env (snd ?r2) res"
        by (simp add: u)
      from makeRequest_failure [OF this n1] Inl r1 show ?thesis
        by (simp add: u)
    next
      case r2: (Inr tokenDetails)
      have n2: "\<not> upstream_failure env (snd ?r2) res"
        by (simp add: makeRequest_Inr [OF r2] n1)
      show ?thesis
      proof (cases "\<not> missing f \<and> \<not> missing t")
        case False
        with assms r1 r2 n2 show ?thesis
          by (auto simp: u)
      next
        case True
        show ?thesis
        proof (cases "fst ?r3")
          case (Inl e)
          with assms r1 r2 True have "upstream_failure env (snd ?r3) res"
            by (simp add: u)
          from makeRequest_failure [OF this n2] Inl r1 r2 True show ?thesis
            by (simp add: u)
        next
          case r3: (Inr profitAndLoss)
          have "\<not> upstream_failure env (snd ?r3) res"
            by (simp add: makeRequest_Inr [OF r3] n2)
          with assms r1 r2 r3 True show ?thesis
            by (simp add: u)
        qed
      qed
    qed
  qed
qed

lemma reports_failure_portfolio_all [simp]:
  "reports_failure env what (respond what k (portfolio_all env a c f t))"
  by (simp add: reports_failure_def respond_Inl portfolio_all_failure)

lemma gasprice_GET_reports:
  "reports_failure env ''Failed to fetch gas prices'' (gasprice_GET env searchParams)"
  unfolding gasprice_GET_def Let_def by simp

lemma nft_GET_reports:
  "reports_failure env ''Failed to fetch NFT data'' (nft_GET env searchParams)"
  unfolding nft_GET_def Let_def by simp

lemma portfolio_GET_reports:
  "reports_failure env ''Failed to fetch portfolio data'' (portfolio_GET env searchParams)"
  unfolding portfolio_GET_def Let_def by simp

lemma trace_GET_reports:
  "reports_failure env ''Failed to fetch trace data'' (trace_GET env searchParams)"
  unfolding trace_GET_def Let_def by simp

lemma domain_GET_reports:
  "reports_failure env ''Failed to fetch domain data'' (domain_GET env searchParams)"
  unfolding domain_GET_def Let_def by simp

lemma spot_GET_reports:
  "reports_failure env ''Failed to fetch spot prices'' (spot_GET env searchParams)"
  unfolding spot_GET_def Let_def by simp

lemma token_GET_reports:
  "reports_failure env ''Failed to fetch token data'' (token_GET env searchParams)"
  unfolding token_GET_def Let_def by simp

lemma spot_requested_reports:
  "reports_failure env ''Failed to process spot price request''
     (spot_requested env action chainId tokens)"
  unfolding spot_requested_def by simp

lemma spot_POST_requested_reports:
  assumes "get_prop reqBody ''action'' = Some (JStr ''requested'')"
  shows "reports_failure env ''Failed to process spot price request''
     (spot_POST env (Inr reqBody))"
proof -
  from assms have "reqBody \<noteq> JNull" by auto
  with assms show ?thesis
    by (simp add: spot_POST_def Let_def is_action_def spot_requested_reports
          split: option.split json.split)
qed

text \<open>
  Claim C4. When the upstream API answers a request of a single-request handler (the
  \<open>GET\<close> handlers, and the action \<open>requested\<close> of the spot price \<open>POST\<close> handler) with a
  status that is not a success status, the handler responds with status 500 and an
  object whose \<open>details\<close> are the message made from the upstream status line and body;
  the wallet history handler responds 401 \<open>Invalid API key\<close> to an upstream 401 and 429
  \<open>Rate limit exceeded\<close> to an upstream 429, and 500 with the upstream status line in
  \<open>details\<close> otherwise.
\<close>

theorem upstream_failure_is_reported:
  "(upstream_failure env (snd (gasprice_GET env searchParams)) res \<longrightarrow>
      fst (gasprice_GET env searchParams)
        = json_response 500 [(''error'', JStr ''Failed to fetch gas prices''),
                             (''details'', JStr (api_request_failed res))])
 \<and> (upstream_failure env (snd (nft_GET env searchParams)) res \<longrightarrow>
      fst (nft_GET env searchParams)
        = json_response 500 [(''error'', JStr ''Failed to fetch NFT data''),
                             (''details'', JStr (api_request_failed res))])
 \<and> (upstream_failure env (snd (portfolio_GET env searchParams)) res \<longrightarrow>
      fst (portfolio_GET env searchParams)
        = json_response 500 [(''error'', JStr ''Failed to fetch portfolio data''),
                             (''details'', JStr (api_request_failed res))])
 \<and> (upstream_failure env (snd (trace_GET env searchParams)) res \<longrightarrow>
      fst (trace_GET env searchParams)
        = json_response 500 [(''error'', JStr ''Failed to fetch trace data''),
                             (''details'', JStr (api_request_failed res))])
 \<and> (upstream_failure env (snd (domain_GET env searchParams)) res \<longrightarrow>
      fst (domain_GET env searchParams)
        = json_response 500 [(''error'', JStr ''Failed to fetch domain data''),
                             (''details'', JStr (api_request_failed res))])
 \<and> (upstream_failure env (snd (spot_GET env searchParams)) res \<longrightarrow>
      fst (spot_GET env searchParams)
        = json_response 500 [(''error'', JStr ''Failed to fetch spot prices''),
                             (''details'', JStr (api_request_failed res))])
 \<and> (upstream_failure env (snd (token_GET env searchParams)) res \<longrightarrow>
      fst (token_GET env searchParams)
        = json_response 500 [(''error'', JStr ''Failed to fetch token data''),
                             (''details'', JStr (api_request_failed res))])
 \<and> (get_prop reqBody ''action'' = Some (JStr ''requested'')
      \<and> upstream_failure env (snd (spot_POST env (Inr reqBody))) res \<longrightarrow>
      fst (spot_POST env (Inr reqBody))
        = json_response 500 [(''error'', JStr ''Failed to process spot price request''),
                             (''details'', JStr (api_request_failed res))])
 \<and> (upstream_failure env (snd (history_GET env searchParams)) res \<longrightarrow>
      fst (history_GET env searchParams)
        = (if res_status res = 401 then json_response 401 [(''error'', JStr ''Invalid API key'')]
           else if res_status res = 429
             then json_response 429 [(''error'', JStr ''Rate limit exceeded'')]
           else json_response 500
                  [(''error'', JStr ''Failed to fetch wallet transactions''),
                   (''details'', JStr (''1inch API error: '' @ decimal_of_nat (res_status res)
                                        @ '' '' @ res_statusText res))]))"
  using gasprice_GET_reports [of env searchParams] nft_GET_reports [of env searchParams]
    portfolio_GET_reports [of env searchParams] trace_GET_reports [of env searchParams]
    domain_GET_reports [of env searchParams] spot_GET_reports [of env searchParams]
    token_GET_reports [of env searchParams] history_GET_failure [of env searchParams]
    spot_POST_requested_reports [of reqBody env]
  unfolding reports_failure_def failure_response_def error_response_def
  by blast

theorem upstream_failure_is_reported_witness:
  "fst (gasprice_GET (example_env (Some ''key'') (failed_response 401 ''Unauthorized'' ''bad key'')) [])
     = json_response 500 [(''error'', JStr ''Failed to fetch gas prices''),
          (''details'', JStr ''API request failed: 401 Unauthorized - bad key'')]
 \<and> fst (nft_GET (example_env (Some ''key'') (failed_response 401 ''Unauthorized'' ''bad key''))
        [(''address'', ''0x1111111111111111111111111111111111111111'')])
     = json_response 500 [(''error'', JStr ''Failed to fetch NFT data''),
          (''details'', JStr ''API request failed: 401 Unauthorized - bad key'')]
 \<and> fst (portfolio_GET (example_env (Some ''key'') (failed_response 401 ''Unauthorized'' ''bad key''))
        [(''action'', ''all''), (''addresses'', ''0x1111111111111111111111111111111111111111'')])
     = json_response 500 [(''error'', JStr ''Failed to fetch portfolio data''),
          (''details'', JStr ''API request failed: 401 Unauthorized - bad key'')]
 \<and> fst (trace_GET (example_env (Some ''key'') (failed_response 401 ''Unauthorized'' ''bad key''))
        [(''action'', ''syncedInterval'')])
     = json_response 500 [(''error'', JStr ''Failed to fetch trace data''),
          (''details'', JStr ''API request failed: 401 Unauthorized - bad key'')]
 \<and> fst (domain_GET (example_env (Some ''key'') (failed_response 401 ''Unauthorized'' ''bad key''))
        [(''action'', ''providersData'')])
     = json_response 500 [(''error'', JStr ''Failed to fetch domain data''),
          (''details'', JStr ''API request failed: 401 Unauthorized - bad key'')]
 \<and> fst (spot_GET (example_env (Some ''key'') (failed_response 401 ''Unauthorized'' ''bad key'')) [])
     = json_response 500 [(''error'', JStr ''Failed to fetch spot prices''),
          (''details'', JStr ''API request failed: 401 Unauthorized - bad key'')]
 \<and> fst (token_GET (example_env (Some ''key'') (failed_response 401 ''Unauthorized'' ''bad key'')) [])
     = json_response 500 [(''error'', JStr ''Failed to fetch token data''),
          (''details'', JStr ''API request failed: 401 Unauthorized - bad key'')]
 \<and> fst (spot_POST (example_env (Some ''key'') (failed_response 401 ''Unauthorized'' ''bad key''))
        (Inr (JObj [(''action'', JStr ''requested''), (''tokens'', JArr [])])))
     = json_response 500 [(''error'', JStr ''Failed to process spot price request''),
          (''details'', JStr ''API request failed: 401 Unauthorized - bad key'')]
 \<and> fst (history_GET (example_env (Some ''key'') (failed_response 401 ''Unauthorized'' ''bad key''))
        [(''address'', ''0x1111111111111111111111111111111111111111'')])
     = json_response 401 [(''error'', JStr ''Invalid API key'')]"
proof -
  let ?res = "failed_response 401 ''Unauthorized'' ''bad key''"
  let ?env = "example_env (Some ''key'') ?res"
  let ?a = "(''address'', ''0x1111111111111111111111111111111111111111'')"
  have m: "api_request_failed ?res = ''API request failed: 401 Unauthorized - bad key''"
    by code_simp
  have s: "res_status ?res = 401" by (simp add: failed_response_def)
  have "upstream_failure ?env (snd (gasprice_GET ?env [])) ?res" by code_simp
  note c1 = upstream_failure_is_reported [of ?env "[]" ?res _, THEN conjunct1, rule_format, OF this]
  have "upstream_failure ?env (snd (nft_GET ?env [?a])) ?res" by code_simp
  note c2 = upstream_failure_is_reported [of ?env "[?a]" ?res _, THEN conjunct2, THEN conjunct1,
      rule_format, OF this]
  have "upstream_failure ?env (snd (portfolio_GET ?env
      [(''action'', ''all''), (''addresses'', ''0x1111111111111111111111111111111111111111'')])) ?res"
    by code_simp
  note c3 = upstream_failure_is_reported [of ?env _ ?res _, THEN conjunct2, THEN conjunct2,
      THEN conjunct1, rule_format, OF this]
  have "upstream_failure ?env (snd (trace_GET ?env [(''action'', ''syncedInterval'')])) ?res"
    by code_simp
  note c4 = upstream_failure_is_reported [of ?env _ ?res _, THEN conjunct2, THEN conjunct2,
      THEN conjunct2, THEN conjunct1, rule_format, OF this]
  have "upstream_failure ?env (snd (domain_GET ?env [(''action'', ''providersData'')])) ?res"
    by code_simp
  note c5 = upstream_failure_is_reported [of ?env _ ?res _, THEN conjunct2, THEN conjunct2,
      THEN conjunct2, THEN conjunct2, THEN conjunct1, rule_format, OF this]
  have "upstream_failure ?env (snd (spot_GET ?env [])) ?res" by code_simp
  note c6 = upstream_failure_is_reported [of ?env _ ?res _, THEN conjunct2, THEN conjunct2,
      THEN conjunct2, THEN conjunct2, THEN conjunct2, THEN conjunct1, rule_format, OF this]
  have "upstream_failure ?env (snd (token_GET ?env [])) ?res" by code_simp
  note c7 = upstream_failure_is_reported [of ?env _ ?res _, THEN conjunct2, THEN conjunct2,
      THEN conjunct2, THEN conjunct2, THEN conjunct2, THEN conjunct2, THEN conjunct1,
      rule_format, OF this]
  have "upstream_failure ?env (snd (history_GET ?env [?a])) ?res" by code_simp
  note c8 = upstream_failure_is_reported [of ?env _ ?res _, THEN conjunct2, THEN conjunct2,
      THEN conjunct2, THEN conjunct2, THEN conjunct2, THEN conjunct2, THEN conjunct2,
      THEN conjunct2, rule_format, OF this]
  let ?b = "JObj [(''action'', JStr ''requested''), (''tokens'', JArr [])]"
  have "upstream_failure ?env (snd (spot_POST ?env (Inr ?b))) ?res" by code_simp
  then have "get_prop ?b ''action'' = Some (JStr ''requested'')
      \<and> upstream_failure ?env (snd (spot_POST ?env (Inr ?b))) ?res" by simp
  note c9 = upstream_failure_is_reported [of ?env _ ?res ?b, THEN conjunct2, THEN conjunct2,
      THEN conjunct2, THEN conjunct2, THEN conjunct2, THEN conjunct2, THEN conjunct2,
      THEN conjunct1, rule_format, OF this]
  from c1 c2 c3 c4 c5 c6 c7 c9 c8 show ?thesis
    unfolding m s by simp
qed

section \<open>Address checks\<close>

lemma missing_not_hex: "missing p \<Longrightarrow> \<not> (\<exists>a. p = Some a \<and> is_hex_address a)"
  by (auto simp: missing_def is_hex_address_def)

lemma rejectedI [simp]: "msg \<noteq> [] \<Longrightarrow> rejected (error_response 400 msg, [])"
  by (auto simp: rejected_def)








section \<open>Unknown actions\<close>

lemma names_trace:
  "names_actions trace_actions
     ''Action parameter is required. Use: syncedInterval, blockTrace, or txTrace''"
  "names_actions trace_actions ''Invalid action. Use: syncedInterval, blockTrace, or txTrace''"
  by code_simp+

lemma names_domain:
  "names_actions domain_actions
     ''Action parameter is required. Use: lookup, reverseLookup, or providersData''"
  "names_actions domain_actions ''Invalid action. Use: lookup, reverseLookup, or providersData''"
  by code_simp+

lemma names_portfolio:
  "names_actions portfolio_actions
     ''Action parameter is required. Use: currentValue, profitAndLoss, tokenDetails, or all''"
  "names_actions portfolio_actions
     ''Invalid action. Use: currentValue, profitAndLoss, tokenDetails, or all''"
  by code_simp+

lemma names_token:
  "names_actions token_actions ''Invalid action. Use: search, custom, all, or tokenList''"
  by code_simp

lemma names_spot:
  "names_actions spot_actions ''Invalid action. Use: whitelisted or addresses''"
  by code_simp

lemma rejected_namingI [simp]:
  "names_actions actions msg \<Longrightarrow> rejected_naming actions (error_response 400 msg, [])"
  by (auto simp: rejected_naming_def)

lemma trace_GET_action:
  assumes "missing (param searchParams ''action'')
         \<or> the (param searchParams ''action'') \<notin> set trace_actions"
  shows "rejected_naming trace_actions (trace_GET env searchParams)"
proof (cases "missing (param searchParams ''action'')")
  case True
  then show ?thesis by (simp add: trace_GET_def Let_def names_trace)
next
  case False
  with assms have "the (param searchParams ''action'') \<noteq> ''syncedInterval''"
    "the (param searchParams ''action'') \<noteq> ''blockTrace''"
    "the (param searchParams ''action'') \<noteq> ''txTrace''"
    by (auto simp: trace_actions_def)
  with False show ?thesis by (simp add: trace_GET_def Let_def names_trace)
qed

lemma domain_GET_action:
  assumes "missing (param searchParams ''action'')
         \<or> the (param searchParams ''action'') \<notin> set domain_actions"
  shows "rejected_naming domain_actions (domain_GET env searchParams)"
proof (cases "missing (param searchParams ''action'')")
  case True
  then show ?thesis by (simp add: domain_GET_def Let_def names_domain)
next
  case False
  with assms have "the (param searchParams ''action'') \<noteq> ''lookup''"
    "the (param searchParams ''action'') \<noteq> ''reverseLookup''"
    "the (param searchParams ''action'') \<noteq> ''providersData''"
    by (auto simp: domain_actions_def)
  with False show ?thesis by (simp add: domain_GET_def Let_def names_domain)
qed

lemma token_GET_action:
  assumes "or_default (param searchParams ''action'') ''all'' \<notin> set token_actions"
  shows "rejected_naming token_actions (token_GET env searchParams)"
proof -
  from assms have "or_default (param searchParams ''action'') ''all'' \<noteq> ''search''"
    "or_default (param searchParams ''action'') ''all'' \<noteq> ''custom''"
    "or_default (param searchParams ''action'') ''all'' \<noteq> ''all''"
    "or_default (param searchParams ''action'') ''all'' \<noteq> ''tokenList''"
    by (auto simp: token_actions_def)
  then show ?thesis by (simp add: token_GET_def Let_def names_token)
qed

lemma spot_GET_action:
  assumes "or_default (param searchParams ''action'') ''whitelisted'' \<notin> set spot_actions"
  shows "rejected_naming spot_actions (spot_GET env searchParams)"
proof -
  from assms have "or_default (param searchParams ''action'') ''whitelisted'' \<noteq> ''whitelisted''"
    "or_default (param searchParams ''action'') ''whitelisted'' \<noteq> ''addresses''"
    by (auto simp: spot_actions_def)
  then show ?thesis by (simp add: spot_GET_def Let_def names_spot)
qed

lemma portfolio_GET_action:
  assumes "missing (param searchParams ''action'')
         \<or> the (param searchParams ''action'') \<notin> set portfolio_actions"
  shows "rejected (portfolio_GET env searchParams)"
    and "missing (param searchParams ''action'')
         \<or> (\<not> missing (param searchParams ''addresses'')
            \<and> list_all (\<lambda>addr. is_hex_address (trim addr))
                 (split_comma (the (param searchParams ''addresses''))))
       \<Longrightarrow> rejected_naming portfolio_actions (portfolio_GET env searchParams)"
proof -
  show "rejected (portfolio_GET env searchParams)"
  proof (cases "missing (param searchParams ''action'')")
    case True
    then show ?thesis by (simp add: portfolio_GET_def Let_def)
  next
    case False
    with assms have "the (param searchParams ''action'') \<noteq> ''currentValue''"
      "the (param searchParams ''action'') \<noteq> ''profitAndLoss''"
      "the (param searchParams ''action'') \<noteq> ''tokenDetails''"
      "the (param searchParams ''action'') \<noteq> ''all''"
      by (auto simp: portfolio_actions_def)
    with False show ?thesis by (simp add: portfolio_GET_def Let_def)
  qed
  assume b: "missing (param searchParams ''action'')
         \<or> (\<not> missing (param searchParams ''addresses'')
            \<and> list_all (\<lambda>addr. is_hex_address (trim addr))
                 (split_comma (the (param searchParams ''addresses''))))"
  show "rejected_naming portfolio_actions (portfolio_GET env searchParams)"
  proof (cases "missing (param searchParams ''action'')")
    case True
    then show ?thesis by (simp add: portfolio_GET_def Let_def names_portfolio)
  next
    case False
    with assms have "the (param searchParams ''action'') \<noteq> ''currentValue''"
      "the (param searchParams ''action'') \<noteq> ''profitAndLoss''"
      "the (param searchParams ''action'') \<noteq> ''tokenDetails''"
      "the (param searchParams ''action'') \<noteq> ''all''"
      by (auto simp: portfolio_actions_def)
    with False b show ?thesis by (simp add: portfolio_GET_def Let_def names_portfolio)
  qed
qed

text \<open>
  Claim C7, as amended. In the trace, domain, token and spot price handlers a request
  whose action is missing (trace, domain: the parameter is required; token, spot price:
  a missing action has a default) or is not a case label of the handler is answered
  with status 400 and a message that names the valid actions, and no upstream request
  is made. The portfolio handler answers such a request with status 400 and an error
  message too, without an upstream request; its message names the valid actions when
  the action is missing, or when the addresses parameter is present and well formed.
\<close>

theorem unknown_action_rejected:
  "(missing (param searchParams ''action'')
      \<or> the (param searchParams ''action'') \<notin> set trace_actions \<longrightarrow>
      (\<exists>msg. trace_GET env searchParams = (error_response 400 msg, [])
            \<and> names_actions trace_actions msg))
 \<and> (missing (param searchParams ''action'')
      \<or> the (param searchParams ''action'') \<notin> set domain_actions \<longrightarrow>
      (\<exists>msg. domain_GET env searchParams = (error_response 400 msg, [])
            \<and> names_actions domain_actions msg))
 \<and> (or_default (param searchParams ''action'') ''all'' \<notin> set token_actions \<longrightarrow>
      (\<exists>msg. token_GET env searchParams = (error_response 400 msg, [])
            \<and> names_actions token_actions msg))
 \<and> (or_default (param searchParams ''action'') ''whitelisted'' \<notin> set spot_actions \<longrightarrow>
      (\<exists>msg. spot_GET env searchParams = (error_response 400 msg, [])
            \<and> names_actions spot_actions msg))
 \<and> (missing (param searchParams ''action'')
      \<or> the (param searchParams ''action'') \<notin> set portfolio_actions \<longrightarrow>
      (\<exists>msg. msg \<noteq> [] \<and> portfolio_GET env searchParams = (error_response 400 msg, [])
            \<and> (missing (param searchParams ''action'')
                 \<or> (\<not> missing (param searchParams ''addresses'')
                    \<and> list_all (\<lambda>addr. is_hex_address (trim addr))
                         (split_comma (the (param searchParams ''addresses'')))) \<longrightarrow>
                names_actions portfolio_actions msg)))"
proof -
  have "missing (param searchParams ''action'')
      \<or> the (param searchParams ''action'') \<notin> set portfolio_actions \<longrightarrow>
      (\<exists>msg. msg \<noteq> [] \<and> portfolio_GET env searchParams = (error_response 400 msg, [])
            \<and> (missing (param searchParams ''action'')
                 \<or> (\<not> missing (param searchParams ''addresses'')
                    \<and> list_all (\<lambda>addr. is_hex_address (trim addr))
                         (split_comma (the (param searchParams ''addresses'')))) \<longrightarrow>
                names_actions portfolio_actions msg))"
  proof
    assume a: "missing (param searchParams ''action'')
      \<or> the (param searchParams ''action'') \<notin> set portfolio_actions"
    from portfolio_GET_action(1) [OF a, of env] obtain msg where
      m: "msg \<noteq> []" "portfolio_GET env searchParams = (error_response 400 msg, [])"
      by (auto simp: rejected_def)
    have "names_actions portfolio_actions msg"
      if "missing (param searchParams ''action'')
                 \<or> (\<not> missing (param searchParams ''addresses'')
                    \<and> list_all (\<lambda>addr. is_hex_address (trim addr))
                         (split_comma (the (param searchParams ''addresses''))))"
      using portfolio_GET_action(2) [OF a that, of env] m(2)
      by (auto simp: rejected_naming_def error_response_def json_response_def)
    with m show "\<exists>msg. msg \<noteq> [] \<and> portfolio_GET env searchParams = (error_response 400 msg, [])
            \<and> (missing (param searchParams ''action'')
                 \<or> (\<not> missing (param searchParams ''addresses'')
                    \<and> list_all (\<lambda>addr. is_hex_address (trim addr))
                         (split_comma (the (param searchParams ''addresses'')))) \<longrightarrow>
                names_actions portfolio_actions msg)"
      by blast
  qed
  then show ?thesis
    using trace_GET_action [of searchParams env] domain_GET_action [of searchParams env]
      token_GET_action [of searchParams env] spot_GET_action [of searchParams env]
    unfolding rejected_naming_def by blast
qed

text \<open>The portfolio handler checks the addresses before the action: a request with an
  unknown action and no addresses is answered with a message about the addresses.\<close>

theorem portfolio_GET_unknown_action_message:
  "\<forall>env. portfolio_GET env [(''action'', ''balance'')]
      = (error_response 400 ''Wallet addresses parameter is required'', [])
    \<and> ''balance'' \<notin> set portfolio_actions
    \<and> \<not> names_actions portfolio_actions ''Wallet addresses parameter is required''"
proof -
  have "''balance'' \<notin> set portfolio_actions
    \<and> \<not> names_actions portfolio_actions ''Wallet addresses parameter is required''"
    by code_simp
  moreover have "portfolio_GET env [(''action'', ''balance'')]
      = (error_response 400 ''Wallet addresses parameter is required'', [])" for env
    by (simp add: portfolio_GET_def Let_def param_def missing_def)
  ultimately show ?thesis by blast
qed

theorem unknown_action_rejected_witness:
  "(\<forall>env. \<exists>msg. trace_GET env [(''action'', ''balance'')] = (error_response 400 msg, [])
       \<and> names_actions trace_actions msg)
 \<and> (\<forall>env. \<exists>msg. domain_GET env [] = (error_response 400 msg, [])
       \<and> names_actions domain_actions msg)
 \<and> (\<forall>env. \<exists>msg. token_GET env [(''action'', ''balance'')] = (error_response 400 msg, [])
       \<and> names_actions token_actions msg)
 \<and> (\<forall>env. \<exists>msg. spot_GET env [(''action'', ''balance'')] = (error_response 400 msg, [])
       \<and> names_actions spot_actions msg)
 \<and> (\<forall>env. \<exists>msg. portfolio_GET env
         [(''action'', ''balance''), (''addresses'', ''0x1111111111111111111111111111111111111111'')]
         = (error_response 400 msg, [])
       \<and> names_actions portfolio_actions msg)"
proof -
  let ?b = "[(''action'', ''balance'')]"
  let ?p = "[(''action'', ''balance''),
             (''addresses'', ''0x1111111111111111111111111111111111111111'')]"
  have t: "missing (param ?b ''action'') \<or> the (param ?b ''action'') \<notin> set trace_actions"
    by code_simp
  have d: "missing (param [] ''action'') \<or> the (param [] ''action'') \<notin> set domain_actions"
    by (simp add: param_def missing_def)
  have k: "or_default (param ?b ''action'') ''all'' \<notin> set token_actions" by code_simp
  have s: "or_default (param ?b ''action'') ''whitelisted'' \<notin> set spot_actions" by code_simp
  have p: "missing (param ?p ''action'') \<or> the (param ?p ''action'') \<notin> set portfolio_actions"
    by code_simp
  have q: "missing (param ?p ''action'')
       \<or> (\<not> missing (param ?p ''addresses'')
          \<and> list_all (\<lambda>addr. is_hex_address (trim addr))
               (split_comma (the (param ?p ''addresses''))))"
    by code_simp
  show ?thesis
  proof (intro conjI allI)
    fix env
    from unknown_action_rejected [of ?b env] t
    show "\<exists>msg. trace_GET env ?b = (error_response 400 msg, [])
       \<and> names_actions trace_actions msg" by blast
    from unknown_action_rejected [of "[]" env] d
    show "\<exists>msg. domain_GET env [] = (error_response 400 msg, [])
       \<and> names_actions domain_actions msg" by blast
    from unknown_action_rejected [of ?b env] k
    show "\<exists>msg. token_GET env ?b = (error_response 400 msg, [])
       \<and> names_actions token_actions msg" by blast
    from unknown_action_rejected [of ?b env] s
    show "\<exists>msg. spot_GET env ?b = (error_response 400 msg, [])
       \<and> names_actions spot_actions msg" by blast
    from unknown_action_rejected [of ?p env] p q
    show "\<exists>msg. portfolio_GET env ?p = (error_response 400 msg, [])
       \<and> names_actions portfolio_actions msg" by blast
  qed
qed

section \<open>The batch loop\<close>

lemma batch_loop_results:
  assumes "JNull \<notin> set items"
  shows "batch_loop null_item process lg results items
       = (Inr (results @ batch_results process lg items), log_after process lg items)"
  using assms
  by (induction items arbitrary: lg results) (auto split: prod.splits)

lemma batch_loop_Inr:
  assumes "fst (batch_loop null_item process lg results items) = Inr rs"
  shows "JNull \<notin> set items"
  using assms
  by (induction items arbitrary: lg results) (auto split: prod.splits if_splits)

lemma batch_loop_null:
  assumes "JNull \<in> set items"
  shows "\<exists>lg'. batch_loop null_item process lg results items = (Inl null_item, lg')"
  using assms
  by (induction items arbitrary: lg results) (auto split: prod.splits)

lemma length_batch_results [simp]: "length (batch_results process lg items) = length items"
  by (induction items arbitrary: lg) auto

lemma batch_results_nth:
  assumes "i < length items"
  shows "batch_results process lg items ! i
       = fst (process (log_after process lg (take i items)) (items ! i))"
  using assms
proof (induction items arbitrary: lg i)
  case Nil
  then show ?case by simp
next
  case (Cons x xs)
  then show ?case by (cases i) auto
qed

lemma records_try_item:
  assumes "builds_success r"
    and "\<And>e. get_prop (failure e) ''success'' = Some (JBool False)
            \<and> get_prop (failure e) ''error'' = Some (JStr e)"
  shows "records r (fst (try_item failure r))"
  using assms
  by (cases r) (auto simp: records_def try_item_def builds_success_def split: sum.splits)

lemma batch_entries_results:
  assumes "\<And>lg item. records (attempt lg item) (fst (process lg item))"
  shows "batch_entries attempt process items (batch_results process [] items)"
  using assms by (simp add: batch_entries_def list_all_iff batch_results_nth)

lemma builds_success_Inl [simp]: "builds_success (Inl e, lg)"
  by (simp add: builds_success_def)

lemma builds_success_then_entry:
  assumes "\<And>data entry. k data = Inr entry \<Longrightarrow> get_prop entry ''success'' = Some (JBool True)"
  shows "builds_success (then_entry r k)"
  using assms
  by (cases r) (auto simp: builds_success_def then_entry_def split: sum.splits)

lemma batch_results_boolean:
  assumes "\<And>lg item. records (attempt lg item) (fst (process lg item))"
    and "r \<in> set (batch_results process lg items)"
  shows "get_prop r ''success'' = Some (JBool True) \<or> get_prop r ''success'' = Some (JBool False)"
  using assms(2)
proof (induction items arbitrary: lg)
  case Nil
  then show ?case by simp
next
  case (Cons x xs)
  from assms(1) [of lg x] have "get_prop (fst (process lg x)) ''success'' = Some (JBool True)
      \<or> get_prop (fst (process lg x)) ''success'' = Some (JBool False)"
    by (auto simp: records_def split: sum.splits)
  with Cons show ?case by auto
qed

lemma entry_success_boolean:
  assumes "get_prop r ''success'' = Some (JBool True) \<or> get_prop r ''success'' = Some (JBool False)"
  shows "entry_success r = (get_prop r ''success'' = Some (JBool True))"
    and "(\<not> entry_success r) = (get_prop r ''success'' = Some (JBool False))"
  using assms by (auto simp: entry_success_def falsy_def)

lemma counts_of_boolean_entries:
  assumes "\<And>r. r \<in> set results \<Longrightarrow>
      get_prop r ''success'' = Some (JBool True) \<or> get_prop r ''success'' = Some (JBool False)"
  shows "length (filter entry_success results) = count_success True results"
    and "length (filter (\<lambda>r. \<not> entry_success r) results) = count_success False results"
    and "count_success True results + count_success False results = length results"
proof -
  have "filter entry_success results
      = filter (\<lambda>r. get_prop r ''success'' = Some (JBool True)) results"
    by (rule filter_cong [OF refl]) (simp add: entry_success_boolean(1) assms)
  then show "length (filter entry_success results) = count_success True results"
    by (simp add: count_success_def)
  have "filter (\<lambda>r. \<not> entry_success r) results
      = filter (\<lambda>r. get_prop r ''success'' = Some (JBool False)) results"
    by (rule filter_cong [OF refl]) (simp add: entry_success_boolean(2) assms)
  then show "length (filter (\<lambda>r. \<not> entry_success r) results) = count_success False results"
    by (simp add: count_success_def)
  from assms show "count_success True results + count_success False results = length results"
    by (induction results) (auto simp: count_success_def)
qed

lemma batch_summary_counts:
  assumes "\<And>lg item. records (attempt lg item) (fst (process lg item))"
    and "map_of pre ''results'' = None" and "map_of pre ''total'' = None"
    and "map_of pre ''successful'' = None" and "map_of pre ''failed'' = None"
  shows "batch_summary items
      (JObj ((''success'', JBool True) # pre
         @ batch_counts (batch_results process [] items) (length items) @ extra))"
proof -
  have b: "get_prop r ''success'' = Some (JBool True) \<or> get_prop r ''success'' = Some (JBool False)"
    if "r \<in> set (batch_results process [] items)" for r
    using batch_results_boolean [of attempt process r "[]" items] assms(1) that by blast
  from counts_of_boolean_entries [of "batch_results process [] items", OF b] assms(2-)
  show ?thesis
    by (simp add: batch_summary_def batch_counts_def map_add_def)
qed

lemma batch_answer_results:
  assumes "\<And>lg item. records (attempt lg item) (fst (process lg item))"
    and "map_of pre ''results'' = None"
  shows "batch_answer attempt process items
      (json_response 200 ((''success'', JBool True) # pre
         @ batch_counts (batch_results process [] items) n @ extra))"
  using batch_entries_results [of attempt process items, OF assms(1)] assms(2)
  by (simp add: batch_answer_def batch_counts_def map_add_def)

lemma map_of_defined_props:
  assumes "distinct (map fst ps)"
  shows "map_of (defined_props ps) k = (case map_of ps k of None \<Rightarrow> None | Some v \<Rightarrow> v)"
  using assms
proof (induction ps rule: defined_props.induct)
  case 1
  then show ?case by simp
next
  case (2 k' ps)
  then show ?case
    by (auto simp: map_of_eq_None_iff image_iff split: option.splits)
next
  case (3 k' v ps)
  then show ?case by auto
qed

lemma map_of_when_truthy:
  "map_of (when_truthy k' v) k = (if k = k' \<and> \<not> falsy v then v else None)"
  by (auto simp: when_truthy_def falsy_def split: option.splits)

subsection \<open>Gas price\<close>

lemma gas_entry_success [simp]:
  "builds_success (then_entry r (gas_entry env finalChainId chain))"
  by (rule builds_success_then_entry)
     (auto simp: gas_entry_def  map_of_defined_props map_of_when_truthy map_add_def
        update_conv' split: if_splits sum.splits)

lemma gas_try_builds: "builds_success (gas_try env lg item)"
  unfolding gas_try_def Let_def by (simp split: sum.split)

lemma gas_failure_fields:
  "get_prop (gas_failure item e) ''success'' = Some (JBool False)
   \<and> get_prop (gas_failure item e) ''error'' = Some (JStr e)"
  by (simp add: gas_failure_def Let_def map_of_defined_props map_of_when_truthy map_add_def)

lemma gas_item_records: "records (gas_try env lg item) (fst (gas_item env lg item))"
  unfolding gas_item_def
  by (rule records_try_item [OF gas_try_builds]) (rule gas_failure_fields)

lemma gasprice_POST_batch:
  assumes "get_prop reqBody ''chains'' = Some (JArr items)" and "JNull \<notin> set items"
  shows "gasprice_POST env (Inr reqBody)
       = (json_response 200 ((''success'', JBool True) # []
            @ batch_counts (batch_results (gas_item env) [] items) (length items)
            @ [(''timestamp'', JStr (now env))]), log_after (gas_item env) [] items)"
proof -
  from assms have "reqBody \<noteq> JNull" by auto
  with assms show ?thesis
    by (simp add: gasprice_POST_def batch_loop_results)
qed

lemma gasprice_POST_status_200:
  assumes "get_prop reqBody ''chains'' = Some (JArr items)"
    and "status (fst (gasprice_POST env (Inr reqBody))) = 200"
  shows "JNull \<notin> set items"
proof
  assume "JNull \<in> set items"
  from batch_loop_null [OF this] obtain lg where
    "batch_loop (destructure_null ''chain'' ''chainRequest'') (gas_item env) [] [] items
      = (Inl (destructure_null ''chain'' ''chainRequest''), lg)"
    by blast
  with assms show False
    by (simp add: gasprice_POST_def Let_def split: if_splits)
qed

subsection \<open>NFT\<close>

lemma nft_entry_success [simp]:
  "builds_success (then_entry r (nft_entry address chainIds numericLimit numericOffset))"
  by (rule builds_success_then_entry)
     (auto simp: nft_entry_def nft_transform_def map_of_defined_props map_of_when_truthy map_add_def
        update_conv' split: if_splits sum.splits)

lemma nft_try_builds: "builds_success (nft_try env lg item)"
  unfolding nft_try_def Let_def by (simp split: sum.split)

lemma nft_failure_fields:
  "get_prop (nft_failure item e) ''success'' = Some (JBool False)
   \<and> get_prop (nft_failure item e) ''error'' = Some (JStr e)"
  by (simp add: nft_failure_def Let_def map_of_defined_props map_of_when_truthy map_add_def)

lemma nft_item_records: "records (nft_try env lg item) (fst (nft_item env lg item))"
  unfolding nft_item_def
  by (rule records_try_item [OF nft_try_builds]) (rule nft_failure_fields)

lemma nft_POST_batch:
  assumes "get_prop reqBody ''requests'' = Some (JArr items)" and "JNull \<notin> set items"
  shows "nft_POST env (Inr reqBody)
       = (json_response 200 ((''success'', JBool True) # []
            @ batch_counts (batch_results (nft_item env) [] items) (length items)
            @ [(''timestamp'', JStr (now env))]), log_after (nft_item env) [] items)"
proof -
  from assms have "reqBody \<noteq> JNull" by auto
  with assms show ?thesis
    by (simp add: nft_POST_def batch_loop_results)
qed

lemma nft_POST_status_200:
  assumes "get_prop reqBody ''requests'' = Some (JArr items)"
    and "status (fst (nft_POST env (Inr reqBody))) = 200"
  shows "JNull \<notin> set items"
proof
  assume "JNull \<in> set items"
  from batch_loop_null [OF this] obtain lg where
    "batch_loop (destructure_null ''address'' ''nftRequest'') (nft_item env) [] [] items
      = (Inl (destructure_null ''address'' ''nftRequest''), lg)"
    by blast
  with assms show False
    by (simp add: nft_POST_def Let_def split: if_splits)
qed

subsection \<open>Portfolio\<close>

lemma portfolio_entry_success [simp]:
  "builds_success (then_entry r (portfolio_entry action addresses chainId))"
  by (rule builds_success_then_entry)
     (auto simp: portfolio_entry_def  map_of_defined_props map_of_when_truthy map_add_def
        update_conv' split: if_splits sum.splits)

lemma portfolio_try_builds: "builds_success (portfolio_try env lg item)"
  unfolding portfolio_try_def Let_def by (simp split: sum.split)

lemma portfolio_failure_fields:
  "get_prop (portfolio_failure item e) ''success'' = Some (JBool False)
   \<and> get_prop (portfolio_failure item e) ''error'' = Some (JStr e)"
  by (simp add: portfolio_failure_def Let_def map_of_defined_props map_of_when_truthy map_add_def)

lemma portfolio_item_records: "records (portfolio_try env lg item) (fst (portfolio_item env lg item))"
  unfolding portfolio_item_def
  by (rule records_try_item [OF portfolio_try_builds]) (rule portfolio_failure_fields)

lemma portfolio_POST_batch:
  assumes "get_prop reqBody ''operations'' = Some (JArr items)" and "JNull \<notin> set items"
  shows "portfolio_POST env (Inr reqBody)
       = (json_response 200 ((''success'', JBool True) # []
            @ batch_counts (batch_results (portfolio_item env) [] items) (length items)
            @ []), log_after (portfolio_item env) [] items)"
proof -
  from assms have "reqBody \<noteq> JNull" by auto
  with assms show ?thesis
    by (simp add: portfolio_POST_def batch_loop_results)
qed

lemma portfolio_POST_status_200:
  assumes "get_prop reqBody ''operations'' = Some (JArr items)"
    and "status (fst (portfolio_POST env (Inr reqBody))) = 200"
  shows "JNull \<notin> set items"
proof
  assume "JNull \<in> set items"
  from batch_loop_null [OF this] obtain lg where
    "batch_loop (destructure_null ''action'' ''operation'') (portfolio_item env) [] [] items
      = (Inl (destructure_null ''action'' ''operation''), lg)"
    by blast
  with assms show False
    by (simp add: portfolio_POST_def Let_def split: if_splits)
qed

subsection \<open>Traces\<close>

lemma trace_entry_success [simp]:
  "builds_success (then_entry r (trace_entry action chain blockNumber txHash))"
  by (rule builds_success_then_entry)
     (auto simp: trace_entry_def  map_of_defined_props map_of_when_truthy map_add_def
        update_conv' split: if_splits sum.splits)

lemma trace_try_builds: "builds_success (trace_try env lg item)"
  unfolding trace_try_def Let_def by (simp split: sum.split)

lemma trace_failure_fields:
  "get_prop (trace_failure item e) ''success'' = Some (JBool False)
   \<and> get_prop (trace_failure item e) ''error'' = Some (JStr e)"
  by (simp add: trace_failure_def Let_def map_of_defined_props map_of_when_truthy map_add_def)

lemma trace_item_records: "records (trace_try env lg item) (fst (trace_item env lg item))"
  unfolding trace_item_def
  by (rule records_try_item [OF trace_try_builds]) (rule trace_failure_fields)

lemma trace_POST_batch:
  assumes "get_prop reqBody ''operations'' = Some (JArr items)" and "JNull \<notin> set items"
  shows "trace_POST env (Inr reqBody)
       = (json_response 200 ((''success'', JBool True) # []
            @ batch_counts (batch_results (trace_item env) [] items) (length items)
            @ []), log_after (trace_item env) [] items)"
proof -
  from assms have "reqBody \<noteq> JNull" by auto
  with assms show ?thesis
    by (simp add: trace_POST_def batch_loop_results)
qed

lemma trace_POST_status_200:
  assumes "get_prop reqBody ''operations'' = Some (JArr items)"
    and "status (fst (trace_POST env (Inr reqBody))) = 200"
  shows "JNull \<notin> set items"
proof
  assume "JNull \<in> set items"
  from batch_loop_null [OF this] obtain lg where
    "batch_loop (destructure_null ''action'' ''operation'') (trace_item env) [] [] items
      = (Inl (destructure_null ''action'' ''operation''), lg)"
    by blast
  with assms show False
    by (simp add: trace_POST_def Let_def split: if_splits)
qed

subsection \<open>Domains\<close>

lemma domain_entry_success [simp]:
  "builds_success (then_entry r (domain_entry action domain address))"
  by (rule builds_success_then_entry)
     (auto simp: domain_entry_def  map_of_defined_props map_of_when_truthy map_add_def
        update_conv' split: if_splits sum.splits)

lemma domain_try_builds: "builds_success (domain_try env lg item)"
  unfolding domain_try_def Let_def by (simp split: sum.split)

lemma domain_failure_fields:
  "get_prop (domain_failure item e) ''success'' = Some (JBool False)
   \<and> get_prop (domain_failure item e) ''error'' = Some (JStr e)"
  by (simp add: domain_failure_def Let_def map_of_defined_props map_of_when_truthy map_add_def)

lemma domain_item_records: "records (domain_try env lg item) (fst (domain_item env lg item))"
  unfolding domain_item_def
  by (rule records_try_item [OF domain_try_builds]) (rule domain_failure_fields)

lemma domain_POST_batch:
  assumes "get_prop reqBody ''operations'' = Some (JArr items)" and "JNull \<notin> set items"
  shows "domain_POST env (Inr reqBody)
       = (json_response 200 ((''success'', JBool True) # []
            @ batch_counts (batch_results (domain_item env) [] items) (length items)
            @ [(''timestamp'', JStr (now env))]), log_after (domain_item env) [] items)"
proof -
  from assms have "reqBody \<noteq> JNull" by auto
  with assms show ?thesis
    by (simp add: domain_POST_def batch_loop_results)
qed

lemma domain_POST_status_200:
  assumes "get_prop reqBody ''operations'' = Some (JArr items)"
    and "status (fst (domain_POST env (Inr reqBody))) = 200"
  shows "JNull \<notin> set items"
proof
  assume "JNull \<in> set items"
  from batch_loop_null [OF this] obtain lg where
    "batch_loop (destructure_null ''action'' ''operation'') (domain_item env) [] [] items
      = (Inl (destructure_null ''action'' ''operation''), lg)"
    by blast
  with assms show False
    by (simp add: domain_POST_def Let_def split: if_splits)
qed

subsection \<open>Tokens\<close>

lemma token_entry_success [simp]:
  "builds_success (then_entry r (token_entry action finalChainId chain query addresses provider))"
  by (rule builds_success_then_entry)
     (auto simp: token_entry_def  map_of_defined_props map_of_when_truthy map_add_def
        update_conv' split: if_splits sum.splits)

lemma token_try_builds: "builds_success (token_try env lg item)"
  unfolding token_try_def Let_def by (simp split: sum.split)

lemma token_failure_fields:
  "get_prop (token_failure item e) ''success'' = Some (JBool False)
   \<and> get_prop (token_failure item e) ''error'' = Some (JStr e)"
  by (simp add: token_failure_def Let_def map_of_defined_props map_of_when_truthy map_add_def)

lemma token_item_records: "records (token_try env lg item) (fst (token_item env lg item))"
  unfolding token_item_def
  by (rule records_try_item [OF token_try_builds]) (rule token_failure_fields)

lemma token_POST_batch:
  assumes "get_prop reqBody ''operations'' = Some (JArr items)" and "JNull \<notin> set items"
  shows "token_POST env (Inr reqBody)
       = (json_response 200 ((''success'', JBool True) # []
            @ batch_counts (batch_results (token_item env) [] items) (length items)
            @ [(''timestamp'', JStr (now env))]), log_after (token_item env) [] items)"
proof -
  from assms have "reqBody \<noteq> JNull" by auto
  with assms show ?thesis
    by (simp add: token_POST_def batch_loop_results)
qed

lemma token_POST_status_200:
  assumes "get_prop reqBody ''operations'' = Some (JArr items)"
    and "status (fst (token_POST env (Inr reqBody))) = 200"
  shows "JNull \<notin> set items"
proof
  assume "JNull \<in> set items"
  from batch_loop_null [OF this] obtain lg where
    "batch_loop (destructure_null ''action'' ''operation'') (token_item env) [] [] items
      = (Inl (destructure_null ''action'' ''operation''), lg)"
    by blast
  with assms show False
    by (simp add: token_POST_def Let_def split: if_splits)
qed

subsection \<open>Spot prices\<close>

lemma spot_entry_success [simp]:
  "builds_success (then_entry r (spot_entry env finalChainId chain))"
  by (rule builds_success_then_entry)
     (auto simp: spot_entry_def  map_of_defined_props map_of_when_truthy map_add_def
        update_conv' split: if_splits sum.splits)

lemma spot_try_builds: "builds_success (spot_try env lg item)"
  unfolding spot_try_def Let_def by (simp split: sum.split)

lemma spot_failure_fields:
  "get_prop (spot_failure item e) ''success'' = Some (JBool False)
   \<and> get_prop (spot_failure item e) ''error'' = Some (JStr e)"
  by (simp add: spot_failure_def Let_def map_of_defined_props map_of_when_truthy map_add_def)

lemma spot_item_records: "records (spot_try env lg item) (fst (spot_item env lg item))"
  unfolding spot_item_def
  by (rule records_try_item [OF spot_try_builds]) (rule spot_failure_fields)

lemma spot_POST_batch:
  assumes "get_prop reqBody ''action'' = Some (JStr ''batch'')" and "get_prop reqBody ''chains'' = Some (JArr items)" and "JNull \<notin> set items"
  shows "spot_POST env (Inr reqBody)
       = (json_response 200 ((''success'', JBool True) # [(''action'', JStr ''batch'')]
            @ batch_counts (batch_results (spot_item env) [] items) (length items)
            @ [(''timestamp'', JStr (now env))]), log_after (spot_item env) [] items)"
proof -
  from assms have "reqBody \<noteq> JNull" by auto
  with assms show ?thesis
    by (simp add: spot_POST_def batch_loop_results is_action_def)
qed

lemma spot_POST_status_200:
  assumes "get_prop reqBody ''action'' = Some (JStr ''batch'')" and "get_prop reqBody ''chains'' = Some (JArr items)"
    and "status (fst (spot_POST env (Inr reqBody))) = 200"
  shows "JNull \<notin> set items"
proof
  assume "JNull \<in> set items"
  from batch_loop_null [OF this] obtain lg where
    "batch_loop (destructure_null ''chain'' ''chainRequest'') (spot_item env) [] [] items
      = (Inl (destructure_null ''chain'' ''chainRequest''), lg)"
    by blast
  with assms show False
    by (simp add: spot_POST_def Let_def is_action_def split: if_splits)
qed

section \<open>Properties of the batch handlers\<close>

text \<open>
  Claim C3, as amended. For every batch handler and every list of items none of which is
  \<open>null\<close>, the response has status 200 and its \<open>results\<close> array has one entry for each item,
  in the order of the items: entry \<open>i\<close> records the outcome of the \<open>try\<close> block for item \<open>i\<close>,
  run after the items before it. When that block throws, the entry has \<open>success: false\<close>
  and the message of the error as \<open>error\<close>, and the items after it are processed all the
  same.
\<close>

theorem batch_results_in_order:
  "(get_prop reqBody ''chains'' = Some (JArr items) \<and> JNull \<notin> set items \<longrightarrow>
      batch_answer (gas_try env) (gas_item env) items (fst (gasprice_POST env (Inr reqBody))))
 \<and> (get_prop reqBody ''requests'' = Some (JArr items) \<and> JNull \<notin> set items \<longrightarrow>
      batch_answer (nft_try env) (nft_item env) items (fst (nft_POST env (Inr reqBody))))
 \<and> (get_prop reqBody ''operations'' = Some (JArr items) \<and> JNull \<notin> set items \<longrightarrow>
      batch_answer (portfolio_try env) (portfolio_item env) items (fst (portfolio_POST env (Inr reqBody))))
 \<and> (get_prop reqBody ''operations'' = Some (JArr items) \<and> JNull \<notin> set items \<longrightarrow>
      batch_answer (trace_try env) (trace_item env) items (fst (trace_POST env (Inr reqBody))))
 \<and> (get_prop reqBody ''operations'' = Some (JArr items) \<and> JNull \<notin> set items \<longrightarrow>
      batch_answer (domain_try env) (domain_item env) items (fst (domain_POST env (Inr reqBody))))
 \<and> (get_prop reqBody ''operations'' = Some (JArr items) \<and> JNull \<notin> set items \<longrightarrow>
      batch_answer (token_try env) (token_item env) items (fst (token_POST env (Inr reqBody))))
 \<and> (get_prop reqBody ''action'' = Some (JStr ''batch'')
      \<and> get_prop reqBody ''chains'' = Some (JArr items) \<and> JNull \<notin> set items \<longrightarrow>
      batch_answer (spot_try env) (spot_item env) items (fst (spot_POST env (Inr reqBody))))"
proof -
  have g: "batch_answer (gas_try env) (gas_item env) items (fst (gasprice_POST env (Inr reqBody)))"
    if "get_prop reqBody ''chains'' = Some (JArr items)" "JNull \<notin> set items"
    unfolding gasprice_POST_batch [OF that]
    using batch_answer_results [of "gas_try env" "gas_item env" "[]", OF gas_item_records] by simp
  have n: "batch_answer (nft_try env) (nft_item env) items (fst (nft_POST env (Inr reqBody)))"
    if "get_prop reqBody ''requests'' = Some (JArr items)" "JNull \<notin> set items"
    unfolding nft_POST_batch [OF that]
    using batch_answer_results [of "nft_try env" "nft_item env" "[]", OF nft_item_records] by simp
  have p: "batch_answer (portfolio_try env) (portfolio_item env) items
      (fst (portfolio_POST env (Inr reqBody)))"
    if "get_prop reqBody ''operations'' = Some (JArr items)" "JNull \<notin> set items"
    unfolding portfolio_POST_batch [OF that]
    using batch_answer_results [of "portfolio_try env" "portfolio_item env" "[]" items
        "length items" "[]", OF portfolio_item_records] by simp
  have t: "batch_answer (trace_try env) (trace_item env) items (fst (trace_POST env (Inr reqBody)))"
    if "get_prop reqBody ''operations'' = Some (JArr items)" "JNull \<notin> set items"
    unfolding trace_POST_batch [OF that]
    using batch_answer_results [of "trace_try env" "trace_item env" "[]" items
        "length items" "[]", OF trace_item_records] by simp
  have d: "batch_answer (domain_try env) (domain_item env) items
      (fst (domain_POST env (Inr reqBody)))"
    if "get_prop reqBody ''operations'' = Some (JArr items)" "JNull \<notin> set items"
    unfolding domain_POST_batch [OF that]
    using batch_answer_results [of "domain_try env" "domain_item env" "[]", OF domain_item_records]
    by simp
  have k: "batch_answer (token_try env) (token_item env) items (fst (token_POST env (Inr reqBody)))"
    if "get_prop reqBody ''operations'' = Some (JArr items)" "JNull \<notin> set items"
    unfolding token_POST_batch [OF that]
    using batch_answer_results [of "token_try env" "token_item env" "[]", OF token_item_records]
    by simp
  have s: "batch_answer (spot_try env) (spot_item env) items (fst (spot_POST env (Inr reqBody)))"
    if "get_prop reqBody ''action'' = Some (JStr ''batch'')"
      "get_prop reqBody ''chains'' = Some (JArr items)" "JNull \<notin> set items"
    unfolding spot_POST_batch [OF that]
    using batch_answer_results [of "spot_try env" "spot_item env" "[(''action'', JStr ''batch'')]",
        OF spot_item_records] by simp
  from g n p t d k s show ?thesis by blast
qed

text \<open>An item that is \<open>null\<close> ends the whole batch with status 500: the item after it is
  not processed, and there is no \<open>results\<close> array.\<close>

theorem gasprice_POST_null_item:
  "\<forall>env. gasprice_POST env
       (Inr (JObj [(''chains'', JArr [JNull, JObj [(''chain'', JStr ''polygon'')]])]))
     = (json_response 500
          [(''error'', JStr ''Failed to process batch gas price requests''),
           (''details'', JStr (destructure_null ''chain'' ''chainRequest''))], [])"
  by (simp add: gasprice_POST_def failure_response_def)

text \<open>
  Claim C9. In the response of every batch handler, \<open>total\<close> is the length of the input
  list, \<open>successful\<close> is the number of entries of \<open>results\<close> with \<open>success: true\<close>, \<open>failed\<close> the
  number with \<open>success: false\<close>, the two add up to \<open>total\<close>, and the \<open>success\<close> of the
  response is \<open>true\<close>, whatever the entries are.
\<close>

theorem batch_summary_fields:
  "(get_prop reqBody ''chains'' = Some (JArr items)
      \<and> status (fst (gasprice_POST env (Inr reqBody))) = 200 \<longrightarrow>
      batch_summary items (body (fst (gasprice_POST env (Inr reqBody)))))
 \<and> (get_prop reqBody ''requests'' = Some (JArr items)
      \<and> status (fst (nft_POST env (Inr reqBody))) = 200 \<longrightarrow>
      batch_summary items (body (fst (nft_POST env (Inr reqBody)))))
 \<and> (get_prop reqBody ''operations'' = Some (JArr items)
      \<and> status (fst (portfolio_POST env (Inr reqBody))) = 200 \<longrightarrow>
      batch_summary items (body (fst (portfolio_POST env (Inr reqBody)))))
 \<and> (get_prop reqBody ''operations'' = Some (JArr items)
      \<and> status (fst (trace_POST env (Inr reqBody))) = 200 \<longrightarrow>
      batch_summary items (body (fst (trace_POST env (Inr reqBody)))))
 \<and> (get_prop reqBody ''operations'' = Some (JArr items)
      \<and> status (fst (domain_POST env (Inr reqBody))) = 200 \<longrightarrow>
      batch_summary items (body (fst (domain_POST env (Inr reqBody)))))
 \<and> (get_prop reqBody ''operations'' = Some (JArr items)
      \<and> status (fst (token_POST env (Inr reqBody))) = 200 \<longrightarrow>
      batch_summary items (body (fst (token_POST env (Inr reqBody)))))
 \<and> (get_prop reqBody ''action'' = Some (JStr ''batch'')
      \<and> get_prop reqBody ''chains'' = Some (JArr items)
      \<and> status (fst (spot_POST env (Inr reqBody))) = 200 \<longrightarrow>
      batch_summary items (body (fst (spot_POST env (Inr reqBody)))))"
proof -
  have g: "batch_summary items (body (fst (gasprice_POST env (Inr reqBody))))"
    if "get_prop reqBody ''chains'' = Some (JArr items)"
      "status (fst (gasprice_POST env (Inr reqBody))) = 200"
    unfolding gasprice_POST_batch [OF that(1) gasprice_POST_status_200 [OF that]]
    using batch_summary_counts [of "gas_try env" "gas_item env" "[]", OF gas_item_records] by simp
  have n: "batch_summary items (body (fst (nft_POST env (Inr reqBody))))"
    if "get_prop reqBody ''requests'' = Some (JArr items)"
      "status (fst (nft_POST env (Inr reqBody))) = 200"
    unfolding nft_POST_batch [OF that(1) nft_POST_status_200 [OF that]]
    using batch_summary_counts [of "nft_try env" "nft_item env" "[]", OF nft_item_records] by simp
  have p: "batch_summary items (body (fst (portfolio_POST env (Inr reqBody))))"
    if "get_prop reqBody ''operations'' = Some (JArr items)"
      "status (fst (portfolio_POST env (Inr reqBody))) = 200"
    unfolding portfolio_POST_batch [OF that(1) portfolio_POST_status_200 [OF that]]
    using batch_summary_counts [of "portfolio_try env" "portfolio_item env" "[]" items "[]",
        OF portfolio_item_records] by simp
  have t: "batch_summary items (body (fst (trace_POST env (Inr reqBody))))"
    if "get_prop reqBody ''operations'' = Some (JArr items)"
      "status (fst (trace_POST env (Inr reqBody))) = 200"
    unfolding trace_POST_batch [OF that(1) trace_POST_status_200 [OF that]]
    using batch_summary_counts [of "trace_try env" "trace_item env" "[]" items "[]",
        OF trace_item_records] by simp
  have d: "batch_summary items (body (fst (domain_POST env (Inr reqBody))))"
    if "get_prop reqBody ''operations'' = Some (JArr items)"
      "status (fst (domain_POST env (Inr reqBody))) = 200"
    unfolding domain_POST_batch [OF that(1) domain_POST_status_200 [OF that]]
    using batch_summary_counts [of "domain_try env" "domain_item env" "[]", OF domain_item_records]
    by simp
  have k: "batch_summary items (body (fst (token_POST env (Inr reqBody))))"
    if "get_prop reqBody ''operations'' = Some (JArr items)"
      "status (fst (token_POST env (Inr reqBody))) = 200"
    unfolding token_POST_batch [OF that(1) token_POST_status_200 [OF that]]
    using batch_summary_counts [of "token_try env" "token_item env" "[]", OF token_item_records]
    by simp
  have s: "batch_summary items (body (fst (spot_POST env (Inr reqBody))))"
    if "get_prop reqBody ''action'' = Some (JStr ''batch'')"
      "get_prop reqBody ''chains'' = Some (JArr items)"
      "status (fst (spot_POST env (Inr reqBody))) = 200"
    unfolding spot_POST_batch [OF that(1,2) spot_POST_status_200 [OF that]]
    using batch_summary_counts [of "spot_try env" "spot_item env" "[(''action'', JStr ''batch'')]",
        OF spot_item_records] by simp
  from g n p t d k s show ?thesis by blast
qed

theorem batch_results_in_order_witness:
  "batch_answer (gas_try example_batch_env) (gas_item example_batch_env)
      [JObj [(''chain'', JStr ''polygon'')], JObj [(''chain'', JStr ''bsc'')]]
      (fst (gasprice_POST example_batch_env (Inr (JObj [(''chains'', JArr [JObj [(''chain'', JStr ''polygon'')], JObj [(''chain'', JStr ''bsc'')]])]))))
 \<and> batch_answer (nft_try example_batch_env) (nft_item example_batch_env)
      [JObj [(''address'', JStr ''0x12'')], JObj []]
      (fst (nft_POST example_batch_env (Inr (JObj [(''requests'', JArr [JObj [(''address'', JStr ''0x12'')], JObj []])]))))
 \<and> batch_answer (portfolio_try example_batch_env) (portfolio_item example_batch_env)
      [JObj [(''action'', JStr ''currentValue'')],
        JObj [(''action'', JStr ''currentValue''), (''addresses'', JStr ''0x12'')]]
      (fst (portfolio_POST example_batch_env (Inr (JObj [(''operations'', JArr [JObj [(''action'', JStr ''currentValue'')],
        JObj [(''action'', JStr ''currentValue''), (''addresses'', JStr ''0x12'')]])]))))
 \<and> batch_answer (trace_try example_batch_env) (trace_item example_batch_env)
      [JObj [(''action'', JStr ''balance'')], JObj [(''action'', JStr ''blockTrace'')]]
      (fst (trace_POST example_batch_env (Inr (JObj [(''operations'', JArr [JObj [(''action'', JStr ''balance'')], JObj [(''action'', JStr ''blockTrace'')]])]))))
 \<and> batch_answer (domain_try example_batch_env) (domain_item example_batch_env)
      [JObj [(''action'', JStr ''lookup''), (''domain'', JStr ''nodot'')],
        JObj [(''action'', JStr ''lookup''), (''domain'', JNum 5)]]
      (fst (domain_POST example_batch_env (Inr (JObj [(''operations'', JArr [JObj [(''action'', JStr ''lookup''), (''domain'', JStr ''nodot'')],
        JObj [(''action'', JStr ''lookup''), (''domain'', JNum 5)]])]))))
 \<and> batch_answer (token_try example_batch_env) (token_item example_batch_env)
      [JObj [(''action'', JStr ''custom''), (''addresses'', JArr [])],
        JObj [(''action'', JStr ''search''), (''query'', JStr ''1 inch'')]]
      (fst (token_POST example_batch_env (Inr (JObj [(''operations'', JArr [JObj [(''action'', JStr ''custom''), (''addresses'', JArr [])],
        JObj [(''action'', JStr ''search''), (''query'', JStr ''1 inch'')]])]))))
 \<and> batch_answer (spot_try example_batch_env) (spot_item example_batch_env)
      [JObj [], JObj [(''tokens'', JArr [JStr ''a''])]]
      (fst (spot_POST example_batch_env (Inr (JObj [(''action'', JStr ''batch''), (''chains'', JArr [JObj [], JObj [(''tokens'', JArr [JStr ''a''])]])]))))"
proof -
  have "get_prop (JObj [(''chains'', JArr [JObj [(''chain'', JStr ''polygon'')], JObj [(''chain'', JStr ''bsc'')]])]) ''chains'' = Some (JArr [JObj [(''chain'', JStr ''polygon'')], JObj [(''chain'', JStr ''bsc'')]])
      \<and> JNull \<notin> set [JObj [(''chain'', JStr ''polygon'')], JObj [(''chain'', JStr ''bsc'')]]"
    by simp
  note c1 = batch_results_in_order [of "JObj [(''chains'', JArr [JObj [(''chain'', JStr ''polygon'')], JObj [(''chain'', JStr ''bsc'')]])]" "[JObj [(''chain'', JStr ''polygon'')], JObj [(''chain'', JStr ''bsc'')]]" example_batch_env, THEN conjunct1,
      rule_format, OF this]
  have "get_prop (JObj [(''requests'', JArr [JObj [(''address'', JStr ''0x12'')], JObj []])]) ''requests'' = Some (JArr [JObj [(''address'', JStr ''0x12'')], JObj []])
      \<and> JNull \<notin> set [JObj [(''address'', JStr ''0x12'')], JObj []]"
    by simp
  note c2 = batch_results_in_order [of "JObj [(''requests'', JArr [JObj [(''address'', JStr ''0x12'')], JObj []])]" "[JObj [(''address'', JStr ''0x12'')], JObj []]" example_batch_env, THEN conjunct2, THEN conjunct1,
      rule_format, OF this]
  have "get_prop (JObj [(''operations'', JArr [JObj [(''action'', JStr ''currentValue'')],
        JObj [(''action'', JStr ''currentValue''), (''addresses'', JStr ''0x12'')]])]) ''operations'' = Some (JArr [JObj [(''action'', JStr ''currentValue'')],
        JObj [(''action'', JStr ''currentValue''), (''addresses'', JStr ''0x12'')]])
      \<and> JNull \<notin> set [JObj [(''action'', JStr ''currentValue'')],
        JObj [(''action'', JStr ''currentValue''), (''addresses'', JStr ''0x12'')]]"
    by simp
  note c3 = batch_results_in_order [of "JObj [(''operations'', JArr [JObj [(''action'', JStr ''currentValue'')],
        JObj [(''action'', JStr ''currentValue''), (''addresses'', JStr ''0x12'')]])]" "[JObj [(''action'', JStr ''currentValue'')],
        JObj [(''action'', JStr ''currentValue''), (''addresses'', JStr ''0x12'')]]" example_batch_env, THEN conjunct2, THEN conjunct2, THEN conjunct1,
      rule_format, OF this]
  have "get_prop (JObj [(''operations'', JArr [JObj [(''action'', JStr ''balance'')], JObj [(''action'', JStr ''blockTrace'')]])]) ''operations'' = Some (JArr [JObj [(''action'', JStr ''balance'')], JObj [(''action'', JStr ''blockTrace'')]])
      \<and> JNull \<notin> set [JObj [(''action'', JStr ''balance'')], JObj [(''action'', JStr ''blockTrace'')]]"
    by simp
  note c4 = batch_results_in_order [of "JObj [(''operations'', JArr [JObj [(''action'', JStr ''balance'')], JObj [(''action'', JStr ''blockTrace'')]])]" "[JObj [(''action'', JStr ''balance'')], JObj [(''action'', JStr ''blockTrace'')]]" example_batch_env, THEN conjunct2, THEN conjunct2, THEN conjunct2, THEN conjunct1,
      rule_format, OF this]
  have "get_prop (JObj [(''operations'', JArr [JObj [(''action'', JStr ''lookup''), (''domain'', JStr ''nodot'')],
        JObj [(''action'', JStr ''lookup''), (''domain'', JNum 5)]])]) ''operations'' = Some (JArr [JObj [(''action'', JStr ''lookup''), (''domain'', JStr ''nodot'')],
        JObj [(''action'', JStr ''lookup''), (''domain'', JNum 5)]])
      \<and> JNull \<notin> set [JObj [(''action'', JStr ''lookup''), (''domain'', JStr ''nodot'')],
        JObj [(''action'', JStr ''lookup''), (''domain'', JNum 5)]]"
    by simp
  note c5 = batch_results_in_order [of "JObj [(''operations'', JArr [JObj [(''action'', JStr ''lookup''), (''domain'', JStr ''nodot'')],
        JObj [(''action'', JStr ''lookup''), (''domain'', JNum 5)]])]" "[JObj [(''action'', JStr ''lookup''), (''domain'', JStr ''nodot'')],
        JObj [(''action'', JStr ''lookup''), (''domain'', JNum 5)]]" example_batch_env, THEN conjunct2, THEN conjunct2, THEN conjunct2, THEN conjunct2, THEN conjunct1,
      rule_format, OF this]
  have "get_prop (JObj [(''operations'', JArr [JObj [(''action'', JStr ''custom''), (''addresses'', JArr [])],
        JObj [(''action'', JStr ''search''), (''query'', JStr ''1 inch'')]])]) ''operations'' = Some (JArr [JObj [(''action'', JStr ''custom''), (''addresses'', JArr [])],
        JObj [(''action'', JStr ''search''), (''query'', JStr ''1 inch'')]])
      \<and> JNull \<notin> set [JObj [(''action'', JStr ''custom''), (''addresses'', JArr [])],
        JObj [(''action'', JStr ''search''), (''query'', JStr ''1 inch'')]]"
    by simp
  note c6 = batch_results_in_order [of "JObj [(''operations'', JArr [JObj [(''action'', JStr ''custom''), (''addresses'', JArr [])],
        JObj [(''action'', JStr ''search''), (''query'', JStr ''1 inch'')]])]" "[JObj [(''action'', JStr ''custom''), (''addresses'', JArr [])],
        JObj [(''action'', JStr ''search''), (''query'', JStr ''1 inch'')]]" example_batch_env, THEN conjunct2, THEN conjunct2, THEN conjunct2, THEN conjunct2, THEN conjunct2, THEN conjunct1,
      rule_format, OF this]
  have "get_prop (JObj [(''action'', JStr ''batch''), (''chains'', JArr [JObj [], JObj [(''tokens'', JArr [JStr ''a''])]])]) ''action'' = Some (JStr ''batch'')
      \<and> get_prop (JObj [(''action'', JStr ''batch''), (''chains'', JArr [JObj [], JObj [(''tokens'', JArr [JStr ''a''])]])]) ''chains'' = Some (JArr [JObj [], JObj [(''tokens'', JArr [JStr ''a''])]])
      \<and> JNull \<notin> set [JObj [], JObj [(''tokens'', JArr [JStr ''a''])]]"
    by simp
  note c7 = batch_results_in_order [of "JObj [(''action'', JStr ''batch''), (''chains'', JArr [JObj [], JObj [(''tokens'', JArr [JStr ''a''])]])]" "[JObj [], JObj [(''tokens'', JArr [JStr ''a''])]]" example_batch_env, THEN conjunct2, THEN conjunct2, THEN conjunct2, THEN conjunct2, THEN conjunct2, THEN conjunct2,
      rule_format, OF this]
  from c1 c2 c3 c4 c5 c6 c7 show ?thesis by blast
qed

theorem batch_summary_fields_witness:
  "batch_summary [JObj [(''chain'', JStr ''polygon'')], JObj [(''chain'', JStr ''bsc'')]]
      (body (fst (gasprice_POST example_batch_env (Inr (JObj [(''chains'', JArr [JObj [(''chain'', JStr ''polygon'')], JObj [(''chain'', JStr ''bsc'')]])])))))
 \<and> batch_summary [JObj [(''address'', JStr ''0x12'')], JObj []]
      (body (fst (nft_POST example_batch_env (Inr (JObj [(''requests'', JArr [JObj [(''address'', JStr ''0x12'')], JObj []])])))))
 \<and> batch_summary [JObj [(''action'', JStr ''currentValue'')],
        JObj [(''action'', JStr ''currentValue''), (''addresses'', JStr ''0x12'')]]
      (body (fst (portfolio_POST example_batch_env (Inr (JObj [(''operations'', JArr [JObj [(''action'', JStr ''currentValue'')],
        JObj [(''action'', JStr ''currentValue''), (''addresses'', JStr ''0x12'')]])])))))
 \<and> batch_summary [JObj [(''action'', JStr ''balance'')], JObj [(''action'', JStr ''blockTrace'')]]
      (body (fst (trace_POST example_batch_env (Inr (JObj [(''operations'', JArr [JObj [(''action'', JStr ''balance'')], JObj [(''action'', JStr ''blockTrace'')]])])))))
 \<and> batch_summary [JObj [(''action'', JStr ''lookup''), (''domain'', JStr ''nodot'')],
        JObj [(''action'', JStr ''lookup''), (''domain'', JNum 5)]]
      (body (fst (domain_POST example_batch_env (Inr (JObj [(''operations'', JArr [JObj [(''action'', JStr ''lookup''), (''domain'', JStr ''nodot'')],
        JObj [(''action'', JStr ''lookup''), (''domain'', JNum 5)]])])))))
 \<and> batch_summary [JObj [(''action'', JStr ''custom''), (''addresses'', JArr [])],
        JObj [(''action'', JStr ''search''), (''query'', JStr ''1 inch'')]]
      (body (fst (token_POST example_batch_env (Inr (JObj [(''operations'', JArr [JObj [(''action'', JStr ''custom''), (''addresses'', JArr [])],
        JObj [(''action'', JStr ''search''), (''query'', JStr ''1 inch'')]])])))))
 \<and> batch_summary [JObj [], JObj [(''tokens'', JArr [JStr ''a''])]]
      (body (fst (spot_POST example_batch_env (Inr (JObj [(''action'', JStr ''batch''), (''chains'', JArr [JObj [], JObj [(''tokens'', JArr [JStr ''a''])]])])))))"
proof -
  have "status (fst (gasprice_POST example_batch_env (Inr (JObj [(''chains'', JArr [JObj [(''chain'', JStr ''polygon'')], JObj [(''chain'', JStr ''bsc'')]])])))) = 200"
    by code_simp
  then have "get_prop (JObj [(''chains'', JArr [JObj [(''chain'', JStr ''polygon'')], JObj [(''chain'', JStr ''bsc'')]])]) ''chains'' = Some (JArr [JObj [(''chain'', JStr ''polygon'')], JObj [(''chain'', JStr ''bsc'')]])
      \<and> status (fst (gasprice_POST example_batch_env (Inr (JObj [(''chains'', JArr [JObj [(''chain'', JStr ''polygon'')], JObj [(''chain'', JStr ''bsc'')]])])))) = 200"
    by simp
  note c1 = batch_summary_fields [of "JObj [(''chains'', JArr [JObj [(''chain'', JStr ''polygon'')], JObj [(''chain'', JStr ''bsc'')]])]" "[JObj [(''chain'', JStr ''polygon'')], JObj [(''chain'', JStr ''bsc'')]]" example_batch_env, THEN conjunct1,
      rule_format, OF this]
  have "status (fst (nft_POST example_batch_env (Inr (JObj [(''requests'', JArr [JObj [(''address'', JStr ''0x12'')], JObj []])])))) = 200"
    by code_simp
  then have "get_prop (JObj [(''requests'', JArr [JObj [(''address'', JStr ''0x12'')], JObj []])]) ''requests'' = Some (JArr [JObj [(''address'', JStr ''0x12'')], JObj []])
      \<and> status (fst (nft_POST example_batch_env (Inr (JObj [(''requests'', JArr [JObj [(''address'', JStr ''0x12'')], JObj []])])))) = 200"
    by simp
  note c2 = batch_summary_fields [of "JObj [(''requests'', JArr [JObj [(''address'', JStr ''0x12'')], JObj []])]" "[JObj [(''address'', JStr ''0x12'')], JObj []]" example_batch_env, THEN conjunct2, THEN conjunct1,
      rule_format, OF this]
  have "status (fst (portfolio_POST example_batch_env (Inr (JObj [(''operations'', JArr [JObj [(''action'', JStr ''currentValue'')],
        JObj [(''action'', JStr ''currentValue''), (''addresses'', JStr ''0x12'')]])])))) = 200"
    by code_simp
  then have "get_prop (JObj [(''operations'', JArr [JObj [(''action'', JStr ''currentValue'')],
        JObj [(''action'', JStr ''currentValue''), (''addresses'', JStr ''0x12'')]])]) ''operations'' = Some (JArr [JObj [(''action'', JStr ''currentValue'')],
        JObj [(''action'', JStr ''currentValue''), (''addresses'', JStr ''0x12'')]])
      \<and> status (fst (portfolio_POST example_batch_env (Inr (JObj [(''operations'', JArr [JObj [(''action'', JStr ''currentValue'')],
        JObj [(''action'', JStr ''currentValue''), (''addresses'', JStr ''0x12'')]])])))) = 200"
    by simp
  note c3 = batch_summary_fields [of "JObj [(''operations'', JArr [JObj [(''action'', JStr ''currentValue'')],
        JObj [(''action'', JStr ''currentValue''), (''addresses'', JStr ''0x12'')]])]" "[JObj [(''action'', JStr ''currentValue'')],
        JObj [(''action'', JStr ''currentValue''), (''addresses'', JStr ''0x12'')]]" example_batch_env, THEN conjunct2, THEN conjunct2, THEN conjunct1,
      rule_format, OF this]
  have "status (fst (trace_POST example_batch_env (Inr (JObj [(''operations'', JArr [JObj [(''action'', JStr ''balance'')], JObj [(''action'', JStr ''blockTrace'')]])])))) = 200"
    by code_simp
  then have "get_prop (JObj [(''operations'', JArr [JObj [(''action'', JStr ''balance'')], JObj [(''action'', JStr ''blockTrace'')]])]) ''operations'' = Some (JArr [JObj [(''action'', JStr ''balance'')], JObj [(''action'', JStr ''blockTrace'')]])
      \<and> status (fst (trace_POST example_batch_env (Inr (JObj [(''operations'', JArr [JObj [(''action'', JStr ''balance'')], JObj [(''action'', JStr ''blockTrace'')]])])))) = 200"
    by simp
  note c4 = batch_summary_fields [of "JObj [(''operations'', JArr [JObj [(''action'', JStr ''balance'')], JObj [(''action'', JStr ''blockTrace'')]])]" "[JObj [(''action'', JStr ''balance'')], JObj [(''action'', JStr ''blockTrace'')]]" example_batch_env, THEN conjunct2, THEN conjunct2, THEN conjunct2, THEN conjunct1,
      rule_format, OF this]
  have "status (fst (domain_POST example_batch_env (Inr (JObj [(''operations'', JArr [JObj [(''action'', JStr ''lookup''), (''domain'', JStr ''nodot'')],
        JObj [(''action'', JStr ''lookup''), (''domain'', JNum 5)]])])))) = 200"
    by code_simp
  then have "get_prop (JObj [(''operations'', JArr [JObj [(''action'', JStr ''lookup''), (''domain'', JStr ''nodot'')],
        JObj [(''action'', JStr ''lookup''), (''domain'', JNum 5)]])]) ''operations'' = Some (JArr [JObj [(''action'', JStr ''lookup''), (''domain'', JStr ''nodot'')],
        JObj [(''action'', JStr ''lookup''), (''domain'', JNum 5)]])
      \<and> status (fst (domain_POST example_batch_env (Inr (JObj [(''operations'', JArr [JObj [(''action'', JStr ''lookup''), (''domain'', JStr ''nodot'')],
        JObj [(''action'', JStr ''lookup''), (''domain'', JNum 5)]])])))) = 200"
    by simp
  note c5 = batch_summary_fields [of "JObj [(''operations'', JArr [JObj [(''action'', JStr ''lookup''), (''domain'', JStr ''nodot'')],
        JObj [(''action'', JStr ''lookup''), (''domain'', JNum 5)]])]" "[JObj [(''action'', JStr ''lookup''), (''domain'', JStr ''nodot'')],
        JObj [(''action'', JStr ''lookup''), (''domain'', JNum 5)]]" example_batch_env, THEN conjunct2, THEN conjunct2, THEN conjunct2, THEN conjunct2, THEN conjunct1,
      rule_format, OF this]
  have "status (fst (token_POST example_batch_env (Inr (JObj [(''operations'', JArr [JObj [(''action'', JStr ''custom''), (''addresses'', JArr [])],
        JObj [(''action'', JStr ''search''), (''query'', JStr ''1 inch'')]])])))) = 200"
    by code_simp
  then have "get_prop (JObj [(''operations'', JArr [JObj [(''action'', JStr ''custom''), (''addresses'', JArr [])],
        JObj [(''action'', JStr ''search''), (''query'', JStr ''1 inch'')]])]) ''operations'' = Some (JArr [JObj [(''action'', JStr ''custom''), (''addresses'', JArr [])],
        JObj [(''action'', JStr ''search''), (''query'', JStr ''1 inch'')]])
      \<and> status (fst (token_POST example_batch_env (Inr (JObj [(''operations'', JArr [JObj [(''action'', JStr ''custom''), (''addresses'', JArr [])],
        JObj [(''action'', JStr ''search''), (''query'', JStr ''1 inch'')]])])))) = 200"
    by simp
  note c6 = batch_summary_fields [of "JObj [(''operations'', JArr [JObj [(''action'', JStr ''custom''), (''addresses'', JArr [])],
        JObj [(''action'', JStr ''search''), (''query'', JStr ''1 inch'')]])]" "[JObj [(''action'', JStr ''custom''), (''addresses'', JArr [])],
        JObj [(''action'', JStr ''search''), (''query'', JStr ''1 inch'')]]" example_batch_env, THEN conjunct2, THEN conjunct2, THEN conjunct2, THEN conjunct2, THEN conjunct2, THEN conjunct1,
      rule_format, OF this]
  have "status (fst (spot_POST example_batch_env (Inr (JObj [(''action'', JStr ''batch''), (''chains'', JArr [JObj [], JObj [(''tokens'', JArr [JStr ''a''])]])])))) = 200"
    by code_simp
  then have "get_prop (JObj [(''action'', JStr ''batch''), (''chains'', JArr [JObj [], JObj [(''tokens'', JArr [JStr ''a''])]])]) ''action'' = Some (JStr ''batch'')
      \<and> get_prop (JObj [(''action'', JStr ''batch''), (''chains'', JArr [JObj [], JObj [(''tokens'', JArr [JStr ''a''])]])]) ''chains'' = Some (JArr [JObj [], JObj [(''tokens'', JArr [JStr ''a''])]])
      \<and> status (fst (spot_POST example_batch_env (Inr (JObj [(''action'', JStr ''batch''), (''chains'', JArr [JObj [], JObj [(''tokens'', JArr [JStr ''a''])]])])))) = 200"
    by simp
  note c7 = batch_summary_fields [of "JObj [(''action'', JStr ''batch''), (''chains'', JArr [JObj [], JObj [(''tokens'', JArr [JStr ''a''])]])]" "[JObj [], JObj [(''tokens'', JArr [JStr ''a''])]]" example_batch_env, THEN conjunct2, THEN conjunct2, THEN conjunct2, THEN conjunct2, THEN conjunct2, THEN conjunct2,
      rule_format, OF this]
  from c1 c2 c3 c4 c5 c6 c7 show ?thesis by blast
qed

section \<open>The environment variables\<close>

lemma now_key: "now (env\<lparr>ONEINCH_API_KEY := k\<rparr>) = now env"
  by simp

lemma upstream_key: "upstream (env\<lparr>ONEINCH_API_KEY := k\<rparr>) = upstream env"
  by simp

lemma get_request_key:
  "get_request (env\<lparr>ONEINCH_API_KEY := None\<rparr>) = get_request (env\<lparr>ONEINCH_API_KEY := Some ''undefined''\<rparr>)"
  by (simp add: fun_eq_iff get_request_def bearer_def)

lemma makeRequest_key [simp]:
  "makeRequest (env\<lparr>ONEINCH_API_KEY := None\<rparr>) = makeRequest (env\<lparr>ONEINCH_API_KEY := Some ''undefined''\<rparr>)"
  by (simp add: fun_eq_iff makeRequest_def get_request_key)

lemma makeRequest_spot_key [simp]:
  "makeRequest_spot (env\<lparr>ONEINCH_API_KEY := None\<rparr>) = makeRequest_spot (env\<lparr>ONEINCH_API_KEY := Some ''undefined''\<rparr>)"
  by (simp add: fun_eq_iff makeRequest_spot_def spot_request_def bearer_def)

lemma makeRequest_token_key [simp]:
  "makeRequest_token (env\<lparr>ONEINCH_API_KEY := None\<rparr>) = makeRequest_token (env\<lparr>ONEINCH_API_KEY := Some ''undefined''\<rparr>)"
  by (simp add: fun_eq_iff makeRequest_token_def token_request_def bearer_def)

lemma history_request_key [simp]:
  "history_request (env\<lparr>ONEINCH_API_KEY := None\<rparr>) = history_request (env\<lparr>ONEINCH_API_KEY := Some ''undefined''\<rparr>)"
  by (simp add: fun_eq_iff history_request_def bearer_def)

lemma scaled_fixed_key [simp]:
  "scaled_fixed (env\<lparr>ONEINCH_API_KEY := k\<rparr>) = scaled_fixed env"
  by (simp add: fun_eq_iff scaled_fixed_def cong: option.case_cong sum.case_cong if_cong)

lemma gwei_key [simp]: "gwei (env\<lparr>ONEINCH_API_KEY := k\<rparr>) = gwei env"
  by (simp add: fun_eq_iff gwei_def cong: option.case_cong sum.case_cong if_cong)

lemma gas_tier_key [simp]: "gas_tier (env\<lparr>ONEINCH_API_KEY := k\<rparr>) = gas_tier env"
  by (simp add: fun_eq_iff gas_tier_def cong: option.case_cong sum.case_cong if_cong)

lemma gasPricesGwei_key [simp]: "gasPricesGwei (env\<lparr>ONEINCH_API_KEY := k\<rparr>) = gasPricesGwei env"
  by (simp add: fun_eq_iff gasPricesGwei_def cong: option.case_cong sum.case_cong if_cong)

lemma gas_success_key [simp]: "gas_success (env\<lparr>ONEINCH_API_KEY := k\<rparr>) = gas_success env"
  by (simp add: fun_eq_iff gas_success_def cong: option.case_cong sum.case_cong if_cong)

lemma gas_entry_key [simp]: "gas_entry (env\<lparr>ONEINCH_API_KEY := k\<rparr>) = gas_entry env"
  by (simp add: fun_eq_iff gas_entry_def cong: option.case_cong sum.case_cong if_cong)

lemma nft_success_key [simp]: "nft_success (env\<lparr>ONEINCH_API_KEY := k\<rparr>) = nft_success env"
  by (simp add: fun_eq_iff nft_success_def cong: option.case_cong sum.case_cong if_cong)

lemma portfolio_success_key [simp]: "portfolio_success (env\<lparr>ONEINCH_API_KEY := k\<rparr>) = portfolio_success env"
  by (simp add: fun_eq_iff portfolio_success_def cong: option.case_cong sum.case_cong if_cong)

lemma trace_success_key [simp]: "trace_success (env\<lparr>ONEINCH_API_KEY := k\<rparr>) = trace_success env"
  by (simp add: fun_eq_iff trace_success_def cong: option.case_cong sum.case_cong if_cong)

lemma domain_success_key [simp]: "domain_success (env\<lparr>ONEINCH_API_KEY := k\<rparr>) = domain_success env"
  by (simp add: fun_eq_iff domain_success_def cong: option.case_cong sum.case_cong if_cong)

lemma formatPriceFromWei_key [simp]: "formatPriceFromWei (env\<lparr>ONEINCH_API_KEY := k\<rparr>) = formatPriceFromWei env"
  by (simp add: fun_eq_iff formatPriceFromWei_def cong: option.case_cong sum.case_cong if_cong)

lemma format_prices_key [simp]: "format_prices (env\<lparr>ONEINCH_API_KEY := k\<rparr>) = format_prices env"
  by (simp add: fun_eq_iff format_prices_def cong: option.case_cong sum.case_cong if_cong)

lemma spot_success_key [simp]: "spot_success (env\<lparr>ONEINCH_API_KEY := k\<rparr>) = spot_success env"
  by (simp add: fun_eq_iff spot_success_def cong: option.case_cong sum.case_cong if_cong)

lemma spot_entry_key [simp]: "spot_entry (env\<lparr>ONEINCH_API_KEY := k\<rparr>) = spot_entry env"
  by (simp add: fun_eq_iff spot_entry_def cong: option.case_cong sum.case_cong if_cong)

lemma token_success_key [simp]: "token_success (env\<lparr>ONEINCH_API_KEY := k\<rparr>) = token_success env"
  by (simp add: fun_eq_iff token_success_def cong: option.case_cong sum.case_cong if_cong)

lemma portfolio_all_key [simp]:
  "portfolio_all (env\<lparr>ONEINCH_API_KEY := None\<rparr>) = portfolio_all (env\<lparr>ONEINCH_API_KEY := Some ''undefined''\<rparr>)"
  by (simp add: fun_eq_iff portfolio_all_def cong: option.case_cong sum.case_cong if_cong)

lemma spot_requested_key [simp]:
  "spot_requested (env\<lparr>ONEINCH_API_KEY := None\<rparr>) = spot_requested (env\<lparr>ONEINCH_API_KEY := Some ''undefined''\<rparr>)"
  by (simp add: fun_eq_iff spot_requested_def cong: option.case_cong sum.case_cong if_cong)

lemma gas_item_key [simp]: "gas_item (env\<lparr>ONEINCH_API_KEY := None\<rparr>) = gas_item (env\<lparr>ONEINCH_API_KEY := Some ''undefined''\<rparr>)"
  unfolding fun_eq_iff gas_item_def gas_try_def Let_def
  by (simp only: makeRequest_key makeRequest_spot_key makeRequest_token_key history_request_key gas_success_key gas_entry_key nft_success_key portfolio_success_key trace_success_key domain_success_key spot_success_key spot_entry_key token_success_key portfolio_all_key spot_requested_key now_key upstream_key simp_thms
      cong: if_cong option.case_cong sum.case_cong json.case_cong prod.case_cong)

lemma nft_item_key [simp]: "nft_item (env\<lparr>ONEINCH_API_KEY := None\<rparr>) = nft_item (env\<lparr>ONEINCH_API_KEY := Some ''undefined''\<rparr>)"
  unfolding fun_eq_iff nft_item_def nft_try_def Let_def
  by (simp only: makeRequest_key makeRequest_spot_key makeRequest_token_key history_request_key gas_success_key gas_entry_key nft_success_key portfolio_success_key trace_success_key domain_success_key spot_success_key spot_entry_key token_success_key portfolio_all_key spot_requested_key now_key upstream_key simp_thms
      cong: if_cong option.case_cong sum.case_cong json.case_cong prod.case_cong)

lemma portfolio_item_key [simp]: "portfolio_item (env\<lparr>ONEINCH_API_KEY := None\<rparr>) = portfolio_item (env\<lparr>ONEINCH_API_KEY := Some ''undefined''\<rparr>)"
  unfolding fun_eq_iff portfolio_item_def portfolio_try_def Let_def
  by (simp only: makeRequest_key makeRequest_spot_key makeRequest_token_key history_request_key gas_success_key gas_entry_key nft_success_key portfolio_success_key trace_success_key domain_success_key spot_success_key spot_entry_key token_success_key portfolio_all_key spot_requested_key now_key upstream_key simp_thms
      cong: if_cong option.case_cong sum.case_cong json.case_cong prod.case_cong)

lemma trace_item_key [simp]: "trace_item (env\<lparr>ONEINCH_API_KEY := None\<rparr>) = trace_item (env\<lparr>ONEINCH_API_KEY := Some ''undefined''\<rparr>)"
  unfolding fun_eq_iff trace_item_def trace_try_def Let_def
  by (simp only: makeRequest_key makeRequest_spot_key makeRequest_token_key history_request_key gas_success_key gas_entry_key nft_success_key portfolio_success_key trace_success_key domain_success_key spot_success_key spot_entry_key token_success_key portfolio_all_key spot_requested_key now_key upstream_key simp_thms
      cong: if_cong option.case_cong sum.case_cong json.case_cong prod.case_cong)

lemma domain_item_key [simp]: "domain_item (env\<lparr>ONEINCH_API_KEY := None\<rparr>) = domain_item (env\<lparr>ONEINCH_API_KEY := Some ''undefined''\<rparr>)"
  unfolding fun_eq_iff domain_item_def domain_try_def Let_def
  by (simp only: makeRequest_key makeRequest_spot_key makeRequest_token_key history_request_key gas_success_key gas_entry_key nft_success_key portfolio_success_key trace_success_key domain_success_key spot_success_key spot_entry_key token_success_key portfolio_all_key spot_requested_key now_key upstream_key simp_thms
      cong: if_cong option.case_cong sum.case_cong json.case_cong prod.case_cong)

lemma token_item_key [simp]: "token_item (env\<lparr>ONEINCH_API_KEY := None\<rparr>) = token_item (env\<lparr>ONEINCH_API_KEY := Some ''undefined''\<rparr>)"
  unfolding fun_eq_iff token_item_def token_try_def Let_def
  by (simp only: makeRequest_key makeRequest_spot_key makeRequest_token_key history_request_key gas_success_key gas_entry_key nft_success_key portfolio_success_key trace_success_key domain_success_key spot_success_key spot_entry_key token_success_key portfolio_all_key spot_requested_key now_key upstream_key simp_thms
      cong: if_cong option.case_cong sum.case_cong json.case_cong prod.case_cong)

lemma spot_item_key [simp]: "spot_item (env\<lparr>ONEINCH_API_KEY := None\<rparr>) = spot_item (env\<lparr>ONEINCH_API_KEY := Some ''undefined''\<rparr>)"
  unfolding fun_eq_iff spot_item_def spot_try_def Let_def
  by (simp only: makeRequest_key makeRequest_spot_key makeRequest_token_key history_request_key gas_success_key gas_entry_key nft_success_key portfolio_success_key trace_success_key domain_success_key spot_success_key spot_entry_key token_success_key portfolio_all_key spot_requested_key now_key upstream_key simp_thms
      cong: if_cong option.case_cong sum.case_cong json.case_cong prod.case_cong)

lemma gasprice_GET_key: "gasprice_GET (env\<lparr>ONEINCH_API_KEY := None\<rparr>) searchParams = gasprice_GET (env\<lparr>ONEINCH_API_KEY := Some ''undefined''\<rparr>) searchParams"
  unfolding gasprice_GET_def Let_def
  by (simp only: makeRequest_key makeRequest_spot_key makeRequest_token_key history_request_key gas_success_key gas_entry_key nft_success_key portfolio_success_key trace_success_key domain_success_key spot_success_key spot_entry_key token_success_key portfolio_all_key spot_requested_key now_key upstream_key simp_thms gas_item_key nft_item_key portfolio_item_key trace_item_key domain_item_key token_item_key spot_item_key
      cong: if_cong option.case_cong sum.case_cong json.case_cong prod.case_cong)

lemma nft_GET_key: "nft_GET (env\<lparr>ONEINCH_API_KEY := None\<rparr>) searchParams = nft_GET (env\<lparr>ONEINCH_API_KEY := Some ''undefined''\<rparr>) searchParams"
  unfolding nft_GET_def Let_def
  by (simp only: makeRequest_key makeRequest_spot_key makeRequest_token_key history_request_key gas_success_key gas_entry_key nft_success_key portfolio_success_key trace_success_key domain_success_key spot_success_key spot_entry_key token_success_key portfolio_all_key spot_requested_key now_key upstream_key simp_thms gas_item_key nft_item_key portfolio_item_key trace_item_key domain_item_key token_item_key spot_item_key
      cong: if_cong option.case_cong sum.case_cong json.case_cong prod.case_cong)

lemma portfolio_GET_key: "portfolio_GET (env\<lparr>ONEINCH_API_KEY := None\<rparr>) searchParams = portfolio_GET (env\<lparr>ONEINCH_API_KEY := Some ''undefined''\<rparr>) searchParams"
  unfolding portfolio_GET_def Let_def
  by (simp only: makeRequest_key makeRequest_spot_key makeRequest_token_key history_request_key gas_success_key gas_entry_key nft_success_key portfolio_success_key trace_success_key domain_success_key spot_success_key spot_entry_key token_success_key portfolio_all_key spot_requested_key now_key upstream_key simp_thms gas_item_key nft_item_key portfolio_item_key trace_item_key domain_item_key token_item_key spot_item_key
      cong: if_cong option.case_cong sum.case_cong json.case_cong prod.case_cong)

lemma trace_GET_key: "trace_GET (env\<lparr>ONEINCH_API_KEY := None\<rparr>) searchParams = trace_GET (env\<lparr>ONEINCH_API_KEY := Some ''undefined''\<rparr>) searchParams"
  unfolding trace_GET_def Let_def
  by (simp only: makeRequest_key makeRequest_spot_key makeRequest_token_key history_request_key gas_success_key gas_entry_key nft_success_key portfolio_success_key trace_success_key domain_success_key spot_success_key spot_entry_key token_success_key portfolio_all_key spot_requested_key now_key upstream_key simp_thms gas_item_key nft_item_key portfolio_item_key trace_item_key domain_item_key token_item_key spot_item_key
      cong: if_cong option.case_cong sum.case_cong json.case_cong prod.case_cong)

lemma domain_GET_key: "domain_GET (env\<lparr>ONEINCH_API_KEY := None\<rparr>) searchParams = domain_GET (env\<lparr>ONEINCH_API_KEY := Some ''undefined''\<rparr>) searchParams"
  unfolding domain_GET_def Let_def
  by (simp only: makeRequest_key makeRequest_spot_key makeRequest_token_key history_request_key gas_success_key gas_entry_key nft_success_key portfolio_success_key trace_success_key domain_success_key spot_success_key spot_entry_key token_success_key portfolio_all_key spot_requested_key now_key upstream_key simp_thms gas_item_key nft_item_key portfolio_item_key trace_item_key domain_item_key token_item_key spot_item_key
      cong: if_cong option.case_cong sum.case_cong json.case_cong prod.case_cong)

lemma spot_GET_key: "spot_GET (env\<lparr>ONEINCH_API_KEY := None\<rparr>) searchParams = spot_GET (env\<lparr>ONEINCH_API_KEY := Some ''undefined''\<rparr>) searchParams"
  unfolding spot_GET_def Let_def
  by (simp only: makeRequest_key makeRequest_spot_key makeRequest_token_key history_request_key gas_success_key gas_entry_key nft_success_key portfolio_success_key trace_success_key domain_success_key spot_success_key spot_entry_key token_success_key portfolio_all_key spot_requested_key now_key upstream_key simp_thms gas_item_key nft_item_key portfolio_item_key trace_item_key domain_item_key token_item_key spot_item_key
      cong: if_cong option.case_cong sum.case_cong json.case_cong prod.case_cong)

lemma token_GET_key: "token_GET (env\<lparr>ONEINCH_API_KEY := None\<rparr>) searchParams = token_GET (env\<lparr>ONEINCH_API_KEY := Some ''undefined''\<rparr>) searchParams"
  unfolding token_GET_def Let_def
  by (simp only: makeRequest_key makeRequest_spot_key makeRequest_token_key history_request_key gas_success_key gas_entry_key nft_success_key portfolio_success_key trace_success_key domain_success_key spot_success_key spot_entry_key token_success_key portfolio_all_key spot_requested_key now_key upstream_key simp_thms gas_item_key nft_item_key portfolio_item_key trace_item_key domain_item_key token_item_key spot_item_key
      cong: if_cong option.case_cong sum.case_cong json.case_cong prod.case_cong)

lemma history_GET_key: "history_GET (env\<lparr>ONEINCH_API_KEY := None\<rparr>) searchParams = history_GET (env\<lparr>ONEINCH_API_KEY := Some ''undefined''\<rparr>) searchParams"
  unfolding history_GET_def Let_def
  by (simp only: makeRequest_key makeRequest_spot_key makeRequest_token_key history_request_key gas_success_key gas_entry_key nft_success_key portfolio_success_key trace_success_key domain_success_key spot_success_key spot_entry_key token_success_key portfolio_all_key spot_requested_key now_key upstream_key simp_thms gas_item_key nft_item_key portfolio_item_key trace_item_key domain_item_key token_item_key spot_item_key
      cong: if_cong option.case_cong sum.case_cong json.case_cong prod.case_cong)

lemma gasprice_POST_key: "gasprice_POST (env\<lparr>ONEINCH_API_KEY := None\<rparr>) request_json = gasprice_POST (env\<lparr>ONEINCH_API_KEY := Some ''undefined''\<rparr>) request_json"
  unfolding gasprice_POST_def Let_def
  by (simp only: makeRequest_key makeRequest_spot_key makeRequest_token_key history_request_key gas_success_key gas_entry_key nft_success_key portfolio_success_key trace_success_key domain_success_key spot_success_key spot_entry_key token_success_key portfolio_all_key spot_requested_key now_key upstream_key simp_thms gas_item_key nft_item_key portfolio_item_key trace_item_key domain_item_key token_item_key spot_item_key
      cong: if_cong option.case_cong sum.case_cong json.case_cong prod.case_cong)

lemma nft_POST_key: "nft_POST (env\<lparr>ONEINCH_API_KEY := None\<rparr>) request_json = nft_POST (env\<lparr>ONEINCH_API_KEY := Some ''undefined''\<rparr>) request_json"
  unfolding nft_POST_def Let_def
  by (simp only: makeRequest_key makeRequest_spot_key makeRequest_token_key history_request_key gas_success_key gas_entry_key nft_success_key portfolio_success_key trace_success_key domain_success_key spot_success_key spot_entry_key token_success_key portfolio_all_key spot_requested_key now_key upstream_key simp_thms gas_item_key nft_item_key portfolio_item_key trace_item_key domain_item_key token_item_key spot_item_key
      cong: if_cong option.case_cong sum.case_cong json.case_cong prod.case_cong)

lemma portfolio_POST_key: "portfolio_POST (env\<lparr>ONEINCH_API_KEY := None\<rparr>) request_json = portfolio_POST (env\<lparr>ONEINCH_API_KEY := Some ''undefined''\<rparr>) request_json"
  unfolding portfolio_POST_def Let_def
  by (simp only: makeRequest_key makeRequest_spot_key makeRequest_token_key history_request_key gas_success_key gas_entry_key nft_success_key portfolio_success_key trace_success_key domain_success_key spot_success_key spot_entry_key token_success_key portfolio_all_key spot_requested_key now_key upstream_key simp_thms gas_item_key nft_item_key portfolio_item_key trace_item_key domain_item_key token_item_key spot_item_key
      cong: if_cong option.case_cong sum.case_cong json.case_cong prod.case_cong)

lemma trace_POST_key: "trace_POST (env\<lparr>ONEINCH_API_KEY := None\<rparr>) request_json = trace_POST (env\<lparr>ONEINCH_API_KEY := Some ''undefined''\<rparr>) request_json"
  unfolding trace_POST_def Let_def
  by (simp only: makeRequest_key makeRequest_spot_key makeRequest_token_key history_request_key gas_success_key gas_entry_key nft_success_key portfolio_success_key trace_success_key domain_success_key spot_success_key spot_entry_key token_success_key portfolio_all_key spot_requested_key now_key upstream_key simp_thms gas_item_key nft_item_key portfolio_item_key trace_item_key domain_item_key token_item_key spot_item_key
      cong: if_cong option.case_cong sum.case_cong json.case_cong prod.case_cong)

lemma domain_POST_key: "domain_POST (env\<lparr>ONEINCH_API_KEY := None\<rparr>) request_json = domain_POST (env\<lparr>ONEINCH_API_KEY := Some ''undefined''\<rparr>) request_json"
  unfolding domain_POST_def Let_def
  by (simp only: makeRequest_key makeRequest_spot_key makeRequest_token_key history_request_key gas_success_key gas_entry_key nft_success_key portfolio_success_key trace_success_key domain_success_key spot_success_key spot_entry_key token_success_key portfolio_all_key spot_requested_key now_key upstream_key simp_thms gas_item_key nft_item_key portfolio_item_key trace_item_key domain_item_key token_item_key spot_item_key
      cong: if_cong option.case_cong sum.case_cong json.case_cong prod.case_cong)

lemma token_POST_key: "token_POST (env\<lparr>ONEINCH_API_KEY := None\<rparr>) request_json = token_POST (env\<lparr>ONEINCH_API_KEY := Some ''undefined''\<rparr>) request_json"
  unfolding token_POST_def Let_def
  by (simp only: makeRequest_key makeRequest_spot_key makeRequest_token_key history_request_key gas_success_key gas_entry_key nft_success_key portfolio_success_key trace_success_key domain_success_key spot_success_key spot_entry_key token_success_key portfolio_all_key spot_requested_key now_key upstream_key simp_thms gas_item_key nft_item_key portfolio_item_key trace_item_key domain_item_key token_item_key spot_item_key
      cong: if_cong option.case_cong sum.case_cong json.case_cong prod.case_cong)

lemma spot_POST_key: "spot_POST (env\<lparr>ONEINCH_API_KEY := None\<rparr>) request_json = spot_POST (env\<lparr>ONEINCH_API_KEY := Some ''undefined''\<rparr>) request_json"
  unfolding spot_POST_def Let_def
  by (simp only: makeRequest_key makeRequest_spot_key makeRequest_token_key history_request_key gas_success_key gas_entry_key nft_success_key portfolio_success_key trace_success_key domain_success_key spot_success_key spot_entry_key token_success_key portfolio_all_key spot_requested_key now_key upstream_key simp_thms gas_item_key nft_item_key portfolio_item_key trace_item_key domain_item_key token_item_key spot_item_key
      cong: if_cong option.case_cong sum.case_cong json.case_cong prod.case_cong)

lemma provider_module_missing:
  "missing WALLETCONNECT_ID \<Longrightarrow>
     provider_module WALLETCONNECT_ID = Inl ''Please enter the project id in .env.local''"
  by (simp add: provider_module_def)

text \<open>
  Claim C5, as amended. The WalletConnect project id is required: when the variable is
  not set or empty, loading the provider module throws the error
  \<open>Please enter the project id in .env.local\<close>. The API key is not checked: when the
  variable is not set, every handler does what it does with the key \<open>undefined\<close>, that is,
  it sends its upstream requests with the header \<open>Authorization: Bearer undefined\<close> and
  answers from what the upstream API returns.
\<close>

theorem environment_variables:
  "(missing WALLETCONNECT_ID \<longrightarrow>
      provider_module WALLETCONNECT_ID = Inl ''Please enter the project id in .env.local'')
 \<and> gasprice_GET (env\<lparr>ONEINCH_API_KEY := None\<rparr>) searchParams
      = gasprice_GET (env\<lparr>ONEINCH_API_KEY := Some ''undefined''\<rparr>) searchParams
 \<and> nft_GET (env\<lparr>ONEINCH_API_KEY := None\<rparr>) searchParams
      = nft_GET (env\<lparr>ONEINCH_API_KEY := Some ''undefined''\<rparr>) searchParams
 \<and> portfolio_GET (env\<lparr>ONEINCH_API_KEY := None\<rparr>) searchParams
      = portfolio_GET (env\<lparr>ONEINCH_API_KEY := Some ''undefined''\<rparr>) searchParams
 \<and> trace_GET (env\<lparr>ONEINCH_API_KEY := None\<rparr>) searchParams
      = trace_GET (env\<lparr>ONEINCH_API_KEY := Some ''undefined''\<rparr>) searchParams
 \<and> domain_GET (env\<lparr>ONEINCH_API_KEY := None\<rparr>) searchParams
      = domain_GET (env\<lparr>ONEINCH_API_KEY := Some ''undefined''\<rparr>) searchParams
 \<and> spot_GET (env\<lparr>ONEINCH_API_KEY := None\<rparr>) searchParams
      = spot_GET (env\<lparr>ONEINCH_API_KEY := Some ''undefined''\<rparr>) searchParams
 \<and> token_GET (env\<lparr>ONEINCH_API_KEY := None\<rparr>) searchParams
      = token_GET (env\<lparr>ONEINCH_API_KEY := Some ''undefined''\<rparr>) searchParams
 \<and> history_GET (env\<lparr>ONEINCH_API_KEY := None\<rparr>) searchParams
      = history_GET (env\<lparr>ONEINCH_API_KEY := Some ''undefined''\<rparr>) searchParams
 \<and> gasprice_POST (env\<lparr>ONEINCH_API_KEY := None\<rparr>) request_json
      = gasprice_POST (env\<lparr>ONEINCH_API_KEY := Some ''undefined''\<rparr>) request_json
 \<and> nft_POST (env\<lparr>ONEINCH_API_KEY := None\<rparr>) request_json
      = nft_POST (env\<lparr>ONEINCH_API_KEY := Some ''undefined''\<rparr>) request_json
 \<and> portfolio_POST (env\<lparr>ONEINCH_API_KEY := None\<rparr>) request_json
      = portfolio_POST (env\<lparr>ONEINCH_API_KEY := Some ''undefined''\<rparr>) request_json
 \<and> trace_POST (env\<lparr>ONEINCH_API_KEY := None\<rparr>) request_json
      = trace_POST (env\<lparr>ONEINCH_API_KEY := Some ''undefined''\<rparr>) request_json
 \<and> domain_POST (env\<lparr>ONEINCH_API_KEY := None\<rparr>) request_json
      = domain_POST (env\<lparr>ONEINCH_API_KEY := Some ''undefined''\<rparr>) request_json
 \<and> token_POST (env\<lparr>ONEINCH_API_KEY := None\<rparr>) request_json
      = token_POST (env\<lparr>ONEINCH_API_KEY := Some ''undefined''\<rparr>) request_json
 \<and> spot_POST (env\<lparr>ONEINCH_API_KEY := None\<rparr>) request_json
      = spot_POST (env\<lparr>ONEINCH_API_KEY := Some ''undefined''\<rparr>) request_json"
  using provider_module_missing [of WALLETCONNECT_ID]
    gasprice_GET_key [of env searchParams] nft_GET_key [of env searchParams]
    portfolio_GET_key [of env searchParams] trace_GET_key [of env searchParams]
    domain_GET_key [of env searchParams] spot_GET_key [of env searchParams]
    token_GET_key [of env searchParams] history_GET_key [of env searchParams]
    gasprice_POST_key [of env request_json] nft_POST_key [of env request_json]
    portfolio_POST_key [of env request_json] trace_POST_key [of env request_json]
    domain_POST_key [of env request_json] token_POST_key [of env request_json]
    spot_POST_key [of env request_json]
  by (intro conjI impI) assumption+

theorem environment_variables_witness:
  "provider_module None = Inl ''Please enter the project id in .env.local''
 \<and> provider_module (Some []) = Inl ''Please enter the project id in .env.local''"
proof -
  have "missing None" "missing (Some [])" by (simp_all add: missing_def)
  then show ?thesis
    using environment_variables [of None] environment_variables [of "Some []"] by blast
qed

text \<open>Without the API key the gas price handler sends its request and answers 200.\<close>

theorem gasprice_GET_without_api_key:
  "gasprice_GET (example_env None (ok_response (JObj []))) []
     = (json_response 200
          [(''success'', JBool True), (''chainId'', JStr ''1''), (''chain'', JStr ''ethereum''),
           (''data'', JObj
              [(''chainId'', JStr ''1''), (''chain'', JStr ''ethereum''),
               (''timestamp'', JStr ''2025-01-01T00:00:00.000Z''),
               (''gasPricesGwei'', JObj
                  [(''baseFee'', JNull), (''low'', JNull), (''medium'', JNull),
                   (''high'', JNull), (''instant'', JNull)])]),
           (''timestamp'', JStr ''2025-01-01T00:00:00.000Z'')],
        [\<lparr>req_url = ''https://api.1inch.dev/gas-price/v1.4/1'', req_method = ''GET'',
          req_headers = [(''Authorization'', ''Bearer undefined''),
                         (''Content-Type'', ''application/json'')],
          req_body = None\<rparr>])"
  by code_simp

section \<open>Spot prices\<close>

lemma map_of_set_props:
  "map_of (set_props fs ps) k
     = (case map_of (rev ps) k of None \<Rightarrow> map_of fs k | Some v \<Rightarrow> Some v)"
  by (induction ps arbitrary: fs) (auto simp: update_conv' map_add_def split: option.splits)

lemma map_of_rev_distinct:
  assumes "distinct (map fst ps)"
  shows "map_of (rev ps) = map_of ps"
  using assms
proof (induction ps)
  case Nil
  then show ?case by simp
next
  case (Cons p ps)
  then have "fst p \<notin> dom (map_of ps)" by (simp add: dom_map_of_conv_image_fst)
  with Cons show ?case
    by (cases p) (auto simp: fun_eq_iff map_add_def split: option.splits)
qed

lemma map_of_set_props_Nil:
  assumes "distinct (map fst ps)"
  shows "map_of (set_props [] ps) = map_of ps"
  by (rule ext) (simp add: map_of_set_props map_of_rev_distinct [OF assms] split: option.splits)

lemma map_of_format_prices:
  assumes "distinct (map fst prices)"
  shows "map_of (format_prices env (JObj prices)) tokenAddress
       = map_option (\<lambda>priceWei. JStr (formatPriceFromWei env priceWei))
           (map_of prices tokenAddress)"
proof -
  let ?f = "\<lambda>(tokenAddress, priceWei). (tokenAddress, JStr (formatPriceFromWei env priceWei))"
  have e: "map fst (map ?f prices) = map fst prices" by (induction prices) auto
  from assms have "distinct (map fst (map ?f prices))" by (simp only: e)
  from map_of_set_props_Nil [OF this]
  have "map_of (format_prices env (JObj prices)) = map_of (map ?f prices)"
    by (simp add: format_prices_def)
  moreover have "map_of (map ?f prices) tokenAddress
       = map_option (\<lambda>priceWei. JStr (formatPriceFromWei env priceWei))
           (map_of prices tokenAddress)"
    by (induction prices) auto
  ultimately show ?thesis by simp
qed

text \<open>
  For a price map the upstream API answered with (an object with distinct keys), the
  spot price response keeps the price of every token address in \<open>data\<close> as it was, and
  \<open>formattedPrices\<close> has, for the same address, the text that \<open>formatPriceFromWei\<close> gives
  for that price. A price that is not a number is rendered as \<open>NaN\<close>.
\<close>

theorem spot_prices_per_address:
  assumes "distinct (map fst prices)" and "map_of prices tokenAddress = Some priceWei"
  shows "\<exists>resp pricesOut formatted.
           spot_success env action chainId chain (JObj prices) = Inr resp
         \<and> status resp = 200
         \<and> get_prop (body resp) ''data'' = Some (JObj pricesOut)
         \<and> map_of pricesOut tokenAddress = Some priceWei
         \<and> get_prop (body resp) ''formattedPrices'' = Some (JObj formatted)
         \<and> map_of formatted tokenAddress = Some (JStr (formatPriceFromWei env priceWei))
         \<and> (parseInt (to_string priceWei) = None \<longrightarrow> formatPriceFromWei env priceWei = ''NaN'')"
  using assms
  by (simp add: spot_success_def map_of_set_props_Nil map_of_format_prices
        formatPriceFromWei_def scaled_fixed_def)

theorem spot_prices_per_address_witness:
  "\<forall>env. \<exists>resp pricesOut formatted.
      spot_success env ''whitelisted'' ''1'' ''ethereum''
        (JObj [(''0x1111111111111111111111111111111111111111'', JStr ''1500000000000000000''),
               (''0x2222222222222222222222222222222222222222'', JStr ''n/a'')]) = Inr resp
    \<and> status resp = 200
    \<and> get_prop (body resp) ''data'' = Some (JObj pricesOut)
    \<and> map_of pricesOut ''0x2222222222222222222222222222222222222222'' = Some (JStr ''n/a'')
    \<and> get_prop (body resp) ''formattedPrices'' = Some (JObj formatted)
    \<and> map_of formatted ''0x2222222222222222222222222222222222222222'' = Some (JStr ''NaN'')"
proof
  fix env
  let ?prices = "[(''0x1111111111111111111111111111111111111111'', JStr ''1500000000000000000''),
               (''0x2222222222222222222222222222222222222222'', JStr ''n/a'')]"
  have d: "distinct (map fst ?prices)" by simp
  have m: "map_of ?prices ''0x2222222222222222222222222222222222222222'' = Some (JStr ''n/a'')"
    by simp
  have p: "parseInt (to_string (JStr ''n/a'')) = None" by code_simp
  from spot_prices_per_address [OF d m, of env "''whitelisted''" "''1''" "''ethereum''"] p
  show "\<exists>resp pricesOut formatted.
      spot_success env ''whitelisted'' ''1'' ''ethereum'' (JObj ?prices) = Inr resp
    \<and> status resp = 200
    \<and> get_prop (body resp) ''data'' = Some (JObj pricesOut)
    \<and> map_of pricesOut ''0x2222222222222222222222222222222222222222'' = Some (JStr ''n/a'')
    \<and> get_prop (body resp) ''formattedPrices'' = Some (JObj formatted)
    \<and> map_of formatted ''0x2222222222222222222222222222222222222222'' = Some (JStr ''NaN'')"
    by force
qed

end
